(* ===== verification/Prelude.thy ===== *)
theory Prelude
  imports Complex_Main "HOL-Library.Word"
begin

text \<open>
  Shared vocabulary of the sprite2roa development. A pixel of an RGBA image is a
  quadruple of bytes (numpy's \<open>uint8\<close> channels, modelled as \<open>8 word\<close> so that
  numpy's wrap-around subtraction is the word subtraction). A numpy image array of
  shape \<open>(height, width, 4)\<close> is a row-major list of rows (\<open>'a grid\<close>). Python
  exceptions raised by the code are the values of \<open>py_error\<close>, one constructor per
  raise site. The grid helpers below are numpy's elementwise constructions
  (tabulation, \<open>map\<close> over every element, elementwise binary operations) with
  the lemmas the component theories use for their pointwise reasoning.
\<close>

type_synonym byte = "8 word"
type_synonym rgba = "byte \<times> byte \<times> byte \<times> byte"
type_synonym 'a grid = "'a list list"

datatype py_error =
    EmptySequence
  | ZeroDivision
  | ColorCount nat
  | ColorRange int
  | InvalidLiteral string
  | MissingAvgCharHeight
  | KeyError string
  | TypeError
  | OSError string
  | PermissionError
  | DocoptExit string
  | SystemExit

named_theorems grid_simps "pointwise facts about tabulated and mapped grids"

subsection \<open>Rectangular grids\<close>

definition rect :: "nat \<Rightarrow> nat \<Rightarrow> 'a grid \<Rightarrow> bool" where
  "rect w h g \<longleftrightarrow> length g = h \<and> list_all (\<lambda>row. length row = w) g"

definition grid_tab :: "nat \<Rightarrow> nat \<Rightarrow> (nat \<Rightarrow> nat \<Rightarrow> 'a) \<Rightarrow> 'a grid" where
  "grid_tab w h f = map (\<lambda>y. map (\<lambda>x. f y x) [0..<w]) [0..<h]"

definition grid_map :: "('a \<Rightarrow> 'b) \<Rightarrow> 'a grid \<Rightarrow> 'b grid" where
  "grid_map f g = map (map f) g"

definition grid_zip :: "('a \<Rightarrow> 'b \<Rightarrow> 'c) \<Rightarrow> 'a grid \<Rightarrow> 'b grid \<Rightarrow> 'c grid" where
  "grid_zip f a b = map2 (map2 f) a b"

subsection \<open>Python builtins used by the code\<close>

text \<open>\<open>max(xs)\<close> on a list: \<open>ValueError\<close> on the empty list.\<close>

definition py_max :: "nat list \<Rightarrow> py_error + nat" where
  "py_max xs = (case xs of [] \<Rightarrow> Inl EmptySequence | x # xs' \<Rightarrow> Inr (fold max xs' x))"

text \<open>A list comprehension whose element expression may raise: the first error wins.\<close>

fun py_map :: "('a \<Rightarrow> py_error + 'b) \<Rightarrow> 'a list \<Rightarrow> py_error + 'b list" where
  "py_map f [] = Inr []"
| "py_map f (x # xs) =
     (case f x of Inl e \<Rightarrow> Inl e
      | Inr y \<Rightarrow> (case py_map f xs of Inl e \<Rightarrow> Inl e | Inr ys \<Rightarrow> Inr (y # ys)))"

text \<open>Sequencing of operations that may raise: the first exception propagates.\<close>

definition py_bind :: "py_error + 'a \<Rightarrow> ('a \<Rightarrow> py_error + 'b) \<Rightarrow> py_error + 'b" where
  "py_bind x f = (case x of Inl e \<Rightarrow> Inl e | Inr a \<Rightarrow> f a)"

text \<open>\<open>int(x)\<close> of a float: truncation towards zero.\<close>

definition py_int :: "real \<Rightarrow> int" where
  "py_int x = (if 0 \<le> x then \<lfloor>x\<rfloor> else - \<lfloor>- x\<rfloor>)"

subsection \<open>Lemmas\<close>

lemma rect_iff [grid_simps]:
  "rect w h g \<longleftrightarrow> length g = h \<and> (\<forall>y < h. length (g ! y) = w)"
  by (auto simp: rect_def list_all_length)

lemma length_grid_tab [simp]: "length (grid_tab w h f) = h"
  by (simp add: grid_tab_def)

lemma nth_grid_tab_row [simp]: "y < h \<Longrightarrow> length (grid_tab w h f ! y) = w"
  by (simp add: grid_tab_def)

lemma nth_grid_tab [simp]: "y < h \<Longrightarrow> x < w \<Longrightarrow> grid_tab w h f ! y ! x = f y x"
  by (simp add: grid_tab_def)

lemma rect_grid_tab [simp]: "rect w h (grid_tab w h f)"
  by (simp add: rect_iff)

lemma grid_tab_cong:
  "(\<And>y x. y < h \<Longrightarrow> x < w \<Longrightarrow> f y x = g y x) \<Longrightarrow> grid_tab w h f = grid_tab w h g"
  by (simp add: grid_tab_def)

lemma grid_eqI:
  assumes "rect w h a" and "rect w h b"
    and "\<And>y x. y < h \<Longrightarrow> x < w \<Longrightarrow> a ! y ! x = b ! y ! x"
  shows "a = b"
proof (rule nth_equalityI)
  show "length a = length b" using assms(1,2) by (simp add: rect_iff)
next
  fix y assume "y < length a"
  with assms show "a ! y = b ! y"
    by (intro nth_equalityI) (auto simp: rect_iff)
qed

lemma grid_tab_nth:
  "rect w h g \<Longrightarrow> grid_tab w h (\<lambda>y x. g ! y ! x) = g"
  by (rule grid_eqI [of w h]) simp_all

lemma length_grid_map [simp]: "length (grid_map f g) = length g"
  by (simp add: grid_map_def)

lemma nth_grid_map [simp]:
  "y < length g \<Longrightarrow> x < length (g ! y) \<Longrightarrow> grid_map f g ! y ! x = f (g ! y ! x)"
  by (simp add: grid_map_def)

lemma rect_grid_map [simp]: "rect w h (grid_map f g) = rect w h g"
  by (auto simp: rect_iff grid_map_def)

lemma grid_map_tab [simp]: "grid_map f (grid_tab w h g) = grid_tab w h (\<lambda>y x. f (g y x))"
  by (simp add: grid_map_def grid_tab_def)

lemma grid_map_comp: "grid_map f (grid_map g a) = grid_map (f \<circ> g) a"
  by (simp add: grid_map_def)

lemma grid_map_cong:
  "(\<And>v. v \<in> set (concat g) \<Longrightarrow> f v = f' v) \<Longrightarrow> grid_map f g = grid_map f' g"
  by (auto simp: grid_map_def intro!: map_cong)

lemma grid_map_id_iff:
  "(\<And>v. v \<in> set (concat g) \<Longrightarrow> f v = v) \<Longrightarrow> grid_map f g = g"
  by (auto simp: grid_map_def intro!: map_idI)

lemma grid_zip_tab [simp]:
  "grid_zip f (grid_tab w h a) (grid_tab w h b) = grid_tab w h (\<lambda>y x. f (a y x) (b y x))"
  by (simp add: grid_zip_def grid_tab_def zip_map_map map_zip_map2
        case_prod_beta comp_def zip_same_conv_map)

lemma nth_grid_zip [grid_simps]:
  "rect w h a \<Longrightarrow> rect w h b \<Longrightarrow> y < h \<Longrightarrow> x < w \<Longrightarrow>
   grid_zip f a b ! y ! x = f (a ! y ! x) (b ! y ! x)"
  by (simp add: grid_zip_def rect_iff)

lemma rect_grid_zip [grid_simps]:
  "rect w h a \<Longrightarrow> rect w h b \<Longrightarrow> rect w h (grid_zip f a b)"
  by (simp add: grid_zip_def rect_iff)

lemma py_max_Cons [simp]: "py_max (x # xs) = Inr (Max (set (x # xs)))"
proof -
  have "Max (set (x # xs)) = fold max xs x" by (rule Max.set_eq_fold)
  then show ?thesis by (simp add: py_max_def)
qed

lemma py_max_Nil [simp]: "py_max [] = Inl EmptySequence"
  by (simp add: py_max_def)

lemma nat_int_diff [simp]: "nat (int a - int b) = a - b"
  by simp

lemma unat_byte_lt [simp]: "unat (w :: byte) < 256"
  using unsigned_less [where 'b = 8 and 'a = nat] by simp

lemma unat_byte_le: "unat (w :: byte) \<le> 255"
  using unat_byte_lt [of w] by linarith

lemma nat_max_one: "nat (max 1 k) = max 1 (nat k)"
  by arith

lemma py_map_Inr: "(\<And>x. x \<in> set xs \<Longrightarrow> f x = Inr (g x)) \<Longrightarrow> py_map f xs = Inr (map g xs)"
  by (induction xs) simp_all

lemma py_bind_simps [simp]: "py_bind (Inl e) f = Inl e" "py_bind (Inr a) f = f a"
  by (simp_all add: py_bind_def)

lemma py_bind_Inr_iff: "py_bind x f = Inr b \<longleftrightarrow> (\<exists>a. x = Inr a \<and> f a = Inr b)"
  by (cases x) simp_all

lemma py_map_length: "py_map f xs = Inr ys \<Longrightarrow> length ys = length xs"
  by (induction xs arbitrary: ys) (auto split: sum.splits)

lemma py_map_nth: "py_map f xs = Inr ys \<Longrightarrow> i < length xs \<Longrightarrow> f (xs ! i) = Inr (ys ! i)"
  by (induction xs arbitrary: ys i) (auto simp: nth_Cons' split: sum.splits)

lemma py_int_nonneg [simp]: "0 \<le> x \<Longrightarrow> py_int x = \<lfloor>x\<rfloor>"
  by (simp add: py_int_def)

end
