(* ===== verification/Image.thy ===== *)
theory Image
  imports Prelude
begin

text \<open>
  The PIL images that flow through the pipeline. \<open>PIL.Image.Image\<close> in mode
  \<open>RGBA\<close> is the record \<open>image\<close>: its \<open>size\<close> (\<open>width\<close>, \<open>height\<close>) and its
  pixel array as \<open>np.array(img)\<close> returns it. Every frame reaching the
  transformations was converted with \<open>convert('RGBA')\<close> by its reader
  (\<open>sprite2roa.py\<close> and \<open>gif.py\<close>), so four channels are part of the type.
  The PIL primitives the code calls are modelled from their documented behaviour:
  \<open>Image.new\<close> (a transparent canvas), \<open>Image.paste\<close> without a mask (the
  pasted region is overwritten, clipped to the canvas), \<open>Image.resize\<close> with
  \<open>Image.NEAREST\<close> (output pixel \<open>i\<close> samples input pixel
  \<open>floor((i + 0.5) * in / out)\<close>) and \<open>Image.fromarray\<close>.
\<close>

record image =
  width :: nat
  height :: nat
  pixels :: "rgba grid"

definition wf_image :: "image \<Rightarrow> bool" where
  "wf_image im \<longleftrightarrow> rect (width im) (height im) (pixels im)"

definition pixel_at :: "image \<Rightarrow> nat \<Rightarrow> nat \<Rightarrow> rgba" where
  "pixel_at im y x = pixels im ! y ! x"

definition alpha_of :: "rgba \<Rightarrow> byte" where
  "alpha_of p = snd (snd (snd p))"

definition transparent :: rgba where
  "transparent = (0, 0, 0, 0)"

definition tab_image :: "nat \<Rightarrow> nat \<Rightarrow> (nat \<Rightarrow> nat \<Rightarrow> rgba) \<Rightarrow> image" where
  "tab_image w h f = \<lparr>width = w, height = h, pixels = grid_tab w h f\<rparr>"

definition fromarray :: "rgba grid \<Rightarrow> image" where
  "fromarray g = \<lparr>width = (case g of [] \<Rightarrow> 0 | row # _ \<Rightarrow> length row),
                  height = length g, pixels = g\<rparr>"

definition image_new :: "nat \<Rightarrow> nat \<Rightarrow> image" where
  "image_new w h = tab_image w h (\<lambda>_ _. transparent)"

definition in_box :: "int \<Rightarrow> int \<Rightarrow> nat \<Rightarrow> nat \<Rightarrow> nat \<Rightarrow> nat \<Rightarrow> bool" where
  "in_box l u w h y x \<longleftrightarrow> l \<le> int x \<and> int x < l + int w \<and> u \<le> int y \<and> int y < u + int h"

definition image_paste :: "image \<Rightarrow> image \<Rightarrow> int \<Rightarrow> int \<Rightarrow> image" where
  "image_paste canvas im l u = canvas\<lparr>pixels := grid_tab (width canvas) (height canvas)
     (\<lambda>y x. if in_box l u (width im) (height im) y x
            then pixel_at im (nat (int y - u)) (nat (int x - l))
            else pixel_at canvas y x)\<rparr>"

definition nearest_src :: "nat \<Rightarrow> nat \<Rightarrow> nat \<Rightarrow> nat" where
  "nearest_src out_n in_n i = ((2 * i + 1) * in_n) div (2 * out_n)"

definition image_resize_nearest :: "image \<Rightarrow> nat \<Rightarrow> nat \<Rightarrow> image" where
  "image_resize_nearest im w h =
     tab_image w h (\<lambda>y x. pixel_at im (nearest_src h (height im) y) (nearest_src w (width im) x))"

subsection \<open>Lemmas\<close>

lemma tab_image_sel [simp]:
  "width (tab_image w h f) = w" "height (tab_image w h f) = h"
  "pixels (tab_image w h f) = grid_tab w h f"
  by (simp_all add: tab_image_def)

lemma wf_tab_image [simp]: "wf_image (tab_image w h f)"
  by (simp add: wf_image_def)

lemma pixel_at_tab_image [simp]:
  "y < h \<Longrightarrow> x < w \<Longrightarrow> pixel_at (tab_image w h f) y x = f y x"
  by (simp add: pixel_at_def)

lemma tab_image_cong:
  assumes "\<And>y x. y < h \<Longrightarrow> x < w \<Longrightarrow> f y x = g y x"
  shows "tab_image w h f = tab_image w h g"
  using grid_tab_cong [OF assms] by (simp add: tab_image_def)

lemma wf_image_tab:
  assumes "wf_image im"
  shows "tab_image (width im) (height im) (pixel_at im) = im"
proof -
  have "grid_tab (width im) (height im) (pixel_at im) = pixels im"
    using grid_tab_nth [of "width im" "height im" "pixels im"] assms
    by (simp add: wf_image_def pixel_at_def [abs_def])
  then show ?thesis
    unfolding tab_image_def by (intro image.equality) simp_all
qed

lemma fromarray_tab [simp]:
  "0 < h \<Longrightarrow> fromarray (grid_tab w h f) = tab_image w h f"
  by (simp add: fromarray_def tab_image_def grid_tab_def upt_conv_Cons del: upt_Suc)

lemma image_paste_sel [simp]:
  "width (image_paste c im l u) = width c" "height (image_paste c im l u) = height c"
  by (simp_all add: image_paste_def)

lemma image_paste_tab:
  "image_paste (tab_image w h g) im l u =
   tab_image w h (\<lambda>y x. if in_box l u (width im) (height im) y x
                        then pixel_at im (nat (int y - u)) (nat (int x - l)) else g y x)"
  unfolding image_paste_def tab_image_def
  by simp (rule grid_tab_cong, simp add: pixel_at_def)

lemma nearest_src_lt:
  assumes "0 < in_n" and "i < out_n"
  shows "nearest_src out_n in_n i < in_n"
proof -
  have "2 * i + 1 < 2 * out_n" using assms(2) by simp
  from mult_less_mono1 [OF this assms(1)]
  have "(2 * i + 1) * in_n < in_n * (2 * out_n)"
    by (simp only: mult.commute [of "2 * out_n" in_n])
  then show ?thesis
    unfolding nearest_src_def by (rule less_mult_imp_div_less)
qed

lemma nearest_src_same: "i < n \<Longrightarrow> nearest_src n n i = i"
  unfolding nearest_src_def by (rule div_nat_eqI) (simp_all add: algebra_simps)

lemma image_resize_nearest_sel [simp]:
  "width (image_resize_nearest im w h) = w" "height (image_resize_nearest im w h) = h"
  "wf_image (image_resize_nearest im w h)"
  by (simp_all add: image_resize_nearest_def)

end
