(* ===== verification/Layout.thy ===== *)
theory Layout
  imports Image
begin

text \<open>
  The sheet compositor, \<open>layout_sheet\<close> of \<open>src/transformations.py\<close>. The
  loop over \<open>enumerate(frames)\<close> is \<open>paste_frames\<close>, recursion over the remaining
  frames with the index \<open>i\<close> and the sheet as accumulator; the coordinates are
  Python integers, as the code computes them. The abstract specification
  \<open>sheet_spec\<close> says, pixel by pixel, what the finished sheet holds: column
  \<open>x\<close> lies in slot \<open>x div frame_width\<close>, and a pixel shows the frame of that slot
  where the frame's bottom-aligned, horizontally centred box covers it, and is
  transparent elsewhere. The refinement theorem shows the loop computes exactly
  this image.
\<close>

fun paste_frames :: "nat \<Rightarrow> nat \<Rightarrow> image \<Rightarrow> nat \<Rightarrow> image list \<Rightarrow> image" where
  "paste_frames frame_width frame_height sheet i [] = sheet"
| "paste_frames frame_width frame_height sheet i (frame # frames) =
     (let this_frame_width = width frame;
          this_frame_height = height frame;
          slot_left = int frame_width * int i;
          slot_up = int frame_height;
          width_difference = int frame_width - int this_frame_width;
          left = slot_left + width_difference div 2;
          up = slot_up - int this_frame_height
      in paste_frames frame_width frame_height (image_paste sheet frame left up) (Suc i) frames)"

definition layout_sheet :: "image list \<Rightarrow> py_error + image" where
  "layout_sheet frames =
     (case py_max (map height frames) of
        Inl e \<Rightarrow> Inl e
      | Inr frame_height \<Rightarrow>
          (case py_max (map width frames) of
             Inl e \<Rightarrow> Inl e
           | Inr frame_width \<Rightarrow>
               (let strip_height = frame_height;
                    strip_width = frame_width * length frames
                in Inr (paste_frames frame_width frame_height
                          (image_new strip_width strip_height) 0 frames))))"

subsection \<open>The abstract sheet\<close>

definition frame_left :: "nat \<Rightarrow> nat \<Rightarrow> image \<Rightarrow> nat" where
  "frame_left fw i f = fw * i + (fw - width f) div 2"

definition placed :: "nat \<Rightarrow> nat \<Rightarrow> nat \<Rightarrow> image \<Rightarrow> nat \<Rightarrow> nat \<Rightarrow> bool" where
  "placed fw fh i f y x \<longleftrightarrow>
     frame_left fw i f \<le> x \<and> x < frame_left fw i f + width f \<and> fh - height f \<le> y \<and> y < fh"

definition frame_pixel :: "nat \<Rightarrow> nat \<Rightarrow> nat \<Rightarrow> image \<Rightarrow> nat \<Rightarrow> nat \<Rightarrow> rgba" where
  "frame_pixel fw fh i f y x = pixel_at f (y - (fh - height f)) (x - frame_left fw i f)"

definition sheet_spec :: "nat \<Rightarrow> nat \<Rightarrow> image list \<Rightarrow> nat \<Rightarrow> nat \<Rightarrow> rgba" where
  "sheet_spec fw fh frames y x =
     (let i = x div fw in
      if i < length frames \<and> placed fw fh i (frames ! i) y x
      then frame_pixel fw fh i (frames ! i) y x else transparent)"

definition fits :: "nat \<Rightarrow> nat \<Rightarrow> image list \<Rightarrow> bool" where
  "fits fw fh frames \<longleftrightarrow> list_all (\<lambda>f. width f \<le> fw \<and> height f \<le> fh) frames"

text \<open>The three frames of sizes 10x20, 12x18 and 8x22 used as the running example.\<close>

definition example_frames :: "image list" where
  "example_frames = [tab_image 10 20 (\<lambda>_ _. (255, 0, 0, 255)), tab_image 12 18 (\<lambda>_ _. (0, 255, 0, 255)),
                     tab_image 8 22 (\<lambda>_ _. (0, 0, 255, 255))]"

text \<open>The sheet after pasting frames \<open>fs\<close> from slot \<open>i\<close> on over the image \<open>g\<close>.\<close>

definition layer :: "nat \<Rightarrow> nat \<Rightarrow> nat \<Rightarrow> image list \<Rightarrow> (nat \<Rightarrow> nat \<Rightarrow> rgba) \<Rightarrow> nat \<Rightarrow> nat \<Rightarrow> rgba" where
  "layer fw fh i fs g y x =
     (let k = x div fw in
      if i \<le> k \<and> k < i + length fs \<and> placed fw fh k (fs ! (k - i)) y x
      then frame_pixel fw fh k (fs ! (k - i)) y x else g y x)"

subsection \<open>Slots are disjoint\<close>

lemma placed_x_bound:
  assumes "width f \<le> fw" and "placed fw fh i f y x"
  shows "x < fw * Suc i"
proof -
  have "(fw - width f) div 2 + width f \<le> fw" using assms(1) by linarith
  then show ?thesis using assms(2) by (simp add: placed_def frame_left_def)
qed

lemma placed_slot:
  assumes "width f \<le> fw" and "placed fw fh i f y x"
  shows "x div fw = i"
proof (rule div_nat_eqI)
  show "fw * i \<le> x" using assms(2) by (simp add: placed_def frame_left_def)
  show "x < fw * Suc i" by (rule placed_x_bound [OF assms])
qed

lemma in_box_nat:
  "in_box (int l) (int u) w h y x \<longleftrightarrow> l \<le> x \<and> x < l + w \<and> u \<le> y \<and> y < u + h"
  by (simp add: in_box_def flip: of_nat_add)

lemma paste_left_nat:
  "width f \<le> fw \<Longrightarrow>
   int fw * int i + (int fw - int (width f)) div 2 = int (frame_left fw i f)"
  by (simp add: frame_left_def of_nat_diff zdiv_int [symmetric])

lemma paste_box_placed:
  "height f \<le> fh \<Longrightarrow>
   in_box (int (frame_left fw i f)) (int (fh - height f)) (width f) (height f) y x
   \<longleftrightarrow> placed fw fh i f y x"
  unfolding in_box_nat placed_def by simp

subsection \<open>The loop fills one slot per frame\<close>

lemma layer_Nil: "layer fw fh i [] g = g"
  by (auto simp: layer_def fun_eq_iff Let_def)

lemma layer_Cons:
  assumes "width f \<le> fw"
  shows "layer fw fh (Suc i) fs
           (\<lambda>y x. if placed fw fh i f y x then frame_pixel fw fh i f y x else g y x)
         = layer fw fh i (f # fs) g"
proof (intro ext)
  fix y x
  show "layer fw fh (Suc i) fs
          (\<lambda>y x. if placed fw fh i f y x then frame_pixel fw fh i f y x else g y x) y x
        = layer fw fh i (f # fs) g y x"
  proof (cases "x div fw = i")
    case True
    then show ?thesis by (simp add: layer_def)
  next
    case False
    then have "\<not> placed fw fh i f y x" using placed_slot [OF assms] by blast
    with False show ?thesis
      by (auto simp: layer_def Let_def nth_Cons' Suc_diff_Suc not_less_eq_eq)
  qed
qed

lemma paste_frame_tab:
  assumes "height f \<le> fh"
  shows "image_paste (tab_image W H g) f (int (frame_left fw i f)) (int (fh - height f)) =
         tab_image W H (\<lambda>y x. if placed fw fh i f y x then frame_pixel fw fh i f y x else g y x)"
  unfolding image_paste_tab paste_box_placed [OF assms]
  by (rule tab_image_cong) (simp add: frame_pixel_def nat_int_diff)

lemma paste_frames_step:
  assumes "width f \<le> fw" and "height f \<le> fh"
  shows "paste_frames fw fh (tab_image W H g) i (f # fs) =
         paste_frames fw fh (tab_image W H
           (\<lambda>y x. if placed fw fh i f y x then frame_pixel fw fh i f y x else g y x)) (Suc i) fs"
proof -
  have "int fh - int (height f) = int (fh - height f)" using assms(2) by simp
  then show ?thesis
    by (simp only: paste_frames.simps Let_def paste_left_nat [OF assms(1)] paste_frame_tab [OF assms(2)])
qed

lemma paste_frames_tab:
  "fits fw fh fs \<Longrightarrow>
   paste_frames fw fh (tab_image W H g) i fs = tab_image W H (layer fw fh i fs g)"
proof (induction fs arbitrary: i g)
  case Nil
  then show ?case by (simp add: layer_Nil)
next
  case (Cons f fs)
  then have fit: "width f \<le> fw" "height f \<le> fh" "fits fw fh fs"
    by (simp_all add: fits_def)
  then show ?case
    by (simp only: paste_frames_step [OF fit(1,2)] Cons.IH [OF fit(3)] layer_Cons [OF fit(1)])
qed

lemma fits_Max: "fits (Max (set (map width frames))) (Max (set (map height frames))) frames"
  by (auto simp: fits_def list_all_iff)

lemma layer_start: "layer fw fh 0 frames (\<lambda>_ _. transparent) = sheet_spec fw fh frames"
  by (simp add: layer_def sheet_spec_def fun_eq_iff Let_def)

lemma layout_sheet_tab:
  assumes "frames \<noteq> []"
  shows "layout_sheet frames =
           Inr (tab_image (Max (set (map width frames)) * length frames)
                  (Max (set (map height frames)))
                  (sheet_spec (Max (set (map width frames))) (Max (set (map height frames))) frames))"
proof -
  obtain f fs where fr: "frames = f # fs" using assms by (cases frames) auto
  have "paste_frames (Max (set (map width frames))) (Max (set (map height frames)))
          (image_new (Max (set (map width frames)) * length frames) (Max (set (map height frames))))
          0 frames
        = tab_image (Max (set (map width frames)) * length frames) (Max (set (map height frames)))
            (sheet_spec (Max (set (map width frames))) (Max (set (map height frames))) frames)"
    unfolding image_new_def by (simp only: paste_frames_tab [OF fits_Max] layer_start)
  then show ?thesis by (simp add: layout_sheet_def fr Let_def)
qed

lemma example_frames_Max:
  "Max (set (map width example_frames)) = 12" "Max (set (map height example_frames)) = 22"
  by (simp_all add: example_frames_def)

lemma example_layout:
  "layout_sheet example_frames = Inr (tab_image 36 22 (sheet_spec 12 22 example_frames))"
proof -
  have "example_frames \<noteq> []" "length example_frames = 3" by (simp_all add: example_frames_def)
  from layout_sheet_tab [OF this(1)] this(2) show ?thesis by (simp only: example_frames_Max) simp
qed

lemma fits_nth:
  "fits fw fh frames \<Longrightarrow> i < length frames \<Longrightarrow> width (frames ! i) \<le> fw \<and> height (frames ! i) \<le> fh"
  by (simp add: fits_def list_all_length)

lemma sheet_spec_placed:
  assumes "fits fw fh frames" and "i < length frames" and "placed fw fh i (frames ! i) y x"
  shows "sheet_spec fw fh frames y x = frame_pixel fw fh i (frames ! i) y x"
proof -
  have "x div fw = i" using placed_slot fits_nth [OF assms(1,2)] assms(3) by blast
  with assms(2,3) show ?thesis by (simp add: sheet_spec_def)
qed

lemma sheet_spec_unplaced:
  assumes "\<forall>i < length frames. \<not> placed fw fh i (frames ! i) y x"
  shows "sheet_spec fw fh frames y x = transparent"
  using assms by (auto simp: sheet_spec_def Let_def)

text \<open>C2: every frame is copied verbatim into its own slot: pixel (y, x) of frame i appears
  at row max_height - height_i + y (bottom-aligned) and column
  max_width * i + (max_width - width_i) div 2 + x (centred in slot i).\<close>

theorem layout_sheet_places_frame:
  assumes "layout_sheet frames = Inr sheet" and "i < length frames"
    and "y < height (frames ! i)" and "x < width (frames ! i)"
  shows "pixel_at sheet (Max (set (map height frames)) - height (frames ! i) + y)
           (frame_left (Max (set (map width frames))) i (frames ! i) + x)
         = pixel_at (frames ! i) y x"
proof -
  let ?fw = "Max (set (map width frames))" and ?fh = "Max (set (map height frames))"
  let ?f = "frames ! i" and ?Y = "Max (set (map height frames)) - height (frames ! i) + y"
    and ?X = "frame_left (Max (set (map width frames))) i (frames ! i) + x"
  have ne: "frames \<noteq> []" using assms(2) by auto
  have fit: "width ?f \<le> ?fw" "height ?f \<le> ?fh" using fits_nth [OF fits_Max assms(2)] by auto
  have pl: "placed ?fw ?fh i ?f ?Y ?X" using assms(3,4) fit by (simp add: placed_def) arith
  have yb: "?Y < ?fh" using pl by (simp add: placed_def)
  have "?fw * Suc i \<le> ?fw * length frames"
    using assms(2) by (intro mult_le_mono2) simp
  with placed_x_bound [OF fit(1) pl] have xb: "?X < ?fw * length frames"
    by (rule less_le_trans)
  have sh: "sheet = tab_image (?fw * length frames) ?fh (sheet_spec ?fw ?fh frames)"
    using assms(1) layout_sheet_tab [OF ne] by simp
  have "pixel_at sheet ?Y ?X = sheet_spec ?fw ?fh frames ?Y ?X"
    unfolding sh using yb xb by (rule pixel_at_tab_image)
  also have "\<dots> = frame_pixel ?fw ?fh i ?f ?Y ?X" by (rule sheet_spec_placed [OF fits_Max assms(2) pl])
  also have "\<dots> = pixel_at ?f y x" using fit by (simp add: frame_pixel_def)
  finally show ?thesis .
qed

subsection \<open>Correctness of the compositor\<close>

text \<open>C1: on a non-empty frame sequence, layout_sheet returns the abstract sheet: width
  max-width times the frame count, height the maximum frame height, and every pixel
  given by sheet_spec.\<close>

theorem layout_sheet_refines:
  assumes "frames \<noteq> []"
  shows "layout_sheet frames =
           Inr (tab_image (Max (set (map width frames)) * length frames)
                  (Max (set (map height frames)))
                  (sheet_spec (Max (set (map width frames))) (Max (set (map height frames))) frames))"
  by (rule layout_sheet_tab [OF assms])

theorem layout_sheet_refines_witness:
  "layout_sheet example_frames = Inr (tab_image 36 22 (sheet_spec 12 22 example_frames))"
proof -
  have "example_frames \<noteq> []" "length example_frames = 3" by (simp_all add: example_frames_def)
  from layout_sheet_refines [OF this(1)] this(2) show ?thesis by (simp only: example_frames_Max) simp
qed

theorem layout_sheet_places_frame_witness:
  "pixel_at (tab_image 36 22 (sheet_spec 12 22 example_frames)) 4 12 = (0, 255, 0, 255)"
proof -
  have "pixel_at (tab_image 36 22 (sheet_spec 12 22 example_frames))
          (Max (set (map height example_frames)) - height (example_frames ! 1) + 0)
          (frame_left (Max (set (map width example_frames))) 1 (example_frames ! 1) + 0)
        = pixel_at (example_frames ! 1) 0 0"
    by (rule layout_sheet_places_frame [OF example_layout]) (simp_all add: example_frames_def)
  then show ?thesis by (simp add: example_frames_def frame_left_def)
qed

text \<open>C3: the sheet of a non-empty sequence is a well-formed image whose width is the
  maximum frame width times the number of frames and whose height is the maximum
  frame height (not the maximum width).\<close>

theorem layout_sheet_dims:
  assumes "frames \<noteq> []"
  shows "\<exists>sheet. layout_sheet frames = Inr sheet \<and> wf_image sheet
           \<and> width sheet = Max (set (map width frames)) * length frames
           \<and> height sheet = Max (set (map height frames))"
  using layout_sheet_tab [OF assms] by simp

theorem layout_sheet_dims_witness:
  "\<exists>sheet. layout_sheet example_frames = Inr sheet \<and> width sheet = 36 \<and> height sheet = 22"
proof -
  have "example_frames \<noteq> []" "length example_frames = 3" by (simp_all add: example_frames_def)
  from layout_sheet_dims [OF this(1)] this(2) show ?thesis by (simp only: example_frames_Max) auto
qed

lemma layout_sheet_height_not_max_width:
  "\<exists>sheet. layout_sheet example_frames = Inr sheet
     \<and> height sheet \<noteq> Max (set (map width example_frames))"
  using example_layout example_frames_Max(1) by simp

text \<open>C4: a sheet pixel that no frame's placed box covers stays transparent.\<close>

theorem layout_sheet_uncovered:
  assumes "layout_sheet frames = Inr sheet" and "y < height sheet" and "x < width sheet"
    and "\<forall>i < length frames.
           \<not> placed (Max (set (map width frames))) (Max (set (map height frames))) i (frames ! i) y x"
  shows "pixel_at sheet y x = transparent"
proof -
  have ne: "frames \<noteq> []" using assms(1) by (auto simp: layout_sheet_def)
  then have sh: "sheet = tab_image (Max (set (map width frames)) * length frames)
                  (Max (set (map height frames)))
                  (sheet_spec (Max (set (map width frames))) (Max (set (map height frames))) frames)"
    using assms(1) layout_sheet_tab by simp
  moreover have "sheet_spec (Max (set (map width frames))) (Max (set (map height frames))) frames y x
                 = transparent"
    by (rule sheet_spec_unplaced [OF assms(4)])
  ultimately show ?thesis using assms(2,3) by simp
qed

theorem layout_sheet_uncovered_witness:
  "pixel_at (tab_image 36 22 (sheet_spec 12 22 example_frames)) 0 0 = transparent"
proof (rule layout_sheet_uncovered [OF example_layout])
  show "\<forall>i < length example_frames.
          \<not> placed (Max (set (map width example_frames))) (Max (set (map height example_frames)))
              i (example_frames ! i) 0 0"
    by (simp add: example_frames_def placed_def frame_left_def less_Suc_eq numeral_3_eq_3)
qed simp_all

text \<open>An empty frame sequence raises, as max() of an empty list does.\<close>

theorem layout_sheet_empty: "layout_sheet [] = Inl EmptySequence"
  by (simp add: layout_sheet_def)

end
