(* ===== verification/Stroke.thy ===== *)
theory Stroke
  imports Image
begin

text \<open>
  The outliner: \<open>_get_diff_array\<close> and \<open>stroke\<close> of \<open>src/transformations.py\<close>.
  The transparency plane \<open>data[:, :, 3]\<close> is a grid of \<open>uint8\<close> values; numpy
  subtracts two \<open>uint8\<close> arrays modulo 256 and \<open>np.absolute\<close> leaves unsigned
  values unchanged, so the distance map is the word difference read by \<open>unat\<close>.
  The two shifted planes are the \<open>np.concatenate\<close> of a slice without the first
  column (row) and a slice holding only the last one (\<open>shift_cols\<close>,
  \<open>shift_rows\<close>). The four directional masks are those of the code; their
  disjunction is \<open>stroke_edges\<close>, and \<open>stroke\<close> paints each flagged pixel
  opaque black.
\<close>

definition get_diff_array :: "byte grid \<Rightarrow> byte grid \<Rightarrow> int \<Rightarrow> bool grid" where
  "get_diff_array data shifted_data level =
     grid_zip (\<lambda>a b. level < int (unat (a - b))) data shifted_data"

definition shift_cols :: "'a grid \<Rightarrow> 'a grid" where
  "shift_cols t = map (\<lambda>row. drop 1 row @ drop (length row - 1) row) t"

definition shift_rows :: "'a grid \<Rightarrow> 'a grid" where
  "shift_rows t = drop 1 t @ drop (length t - 1) t"

definition stroke_edges :: "byte grid \<Rightarrow> int \<Rightarrow> bool grid" where
  "stroke_edges transparency level =
     (let edges_left = get_diff_array (shift_cols transparency) transparency level;
          edges_up = get_diff_array (shift_rows transparency) transparency level;
          edges_right = get_diff_array transparency (shift_cols transparency) level;
          edges_down = get_diff_array transparency (shift_rows transparency) level
      in grid_zip (\<or>) (grid_zip (\<or>) (grid_zip (\<or>) edges_left edges_up) edges_right) edges_down)"

definition stroke :: "image \<Rightarrow> int \<Rightarrow> image" where
  "stroke img level0 =
     (let data = pixels img;
          transparency = grid_map alpha_of data;
          level = min (max 1 level0) 255;
          edges = stroke_edges transparency level;
          out = grid_zip (\<lambda>p e. if e then (0, 0, 0, 255) else p) data edges
      in fromarray out)"

definition differs :: "int \<Rightarrow> byte \<Rightarrow> byte \<Rightarrow> bool" where
  "differs level a b \<longleftrightarrow> level < int (unat (b - a)) \<or> level < int (unat (a - b))"

definition edge_at :: "byte grid \<Rightarrow> nat \<Rightarrow> nat \<Rightarrow> int \<Rightarrow> nat \<Rightarrow> nat \<Rightarrow> bool" where
  "edge_at t w h level y x \<longleftrightarrow>
     (Suc x < w \<and> differs level (t ! y ! x) (t ! y ! Suc x))
     \<or> (Suc y < h \<and> differs level (t ! y ! x) (t ! Suc y ! x))"

subsection \<open>The shifted planes\<close>

lemma rect_shift_cols [grid_simps]: "rect w h t \<Longrightarrow> rect w h (shift_cols t)"
  by (auto simp: rect_iff shift_cols_def)

lemma nth_shift_cols [grid_simps]:
  assumes "rect w h t" and "y < h" and "x < w"
  shows "shift_cols t ! y ! x = t ! y ! (if Suc x < w then Suc x else x)"
proof -
  have len: "length (t ! y) = w" using assms by (simp add: rect_iff)
  have "shift_cols t ! y = drop 1 (t ! y) @ drop (w - 1) (t ! y)"
    using assms len by (simp add: rect_iff shift_cols_def)
  moreover have "\<not> Suc x < w \<Longrightarrow> w - 1 = x" using assms(3) by arith
  ultimately show ?thesis
    using assms(3) len by (auto simp: nth_append)
qed

lemma rect_shift_rows [grid_simps]: "rect w h t \<Longrightarrow> rect w h (shift_rows t)"
  by (auto simp: rect_iff shift_rows_def nth_append)

lemma nth_shift_rows [grid_simps]:
  assumes "rect w h t" and "y < h"
  shows "shift_rows t ! y = t ! (if Suc y < h then Suc y else y)"
proof -
  have "\<not> Suc y < h \<Longrightarrow> h - 1 = y" using assms(2) by arith
  then show ?thesis using assms by (auto simp: rect_iff shift_rows_def nth_append)
qed

subsection \<open>The edge mask\<close>

lemma rect_get_diff_array [grid_simps]:
  "rect w h a \<Longrightarrow> rect w h b \<Longrightarrow> rect w h (get_diff_array a b level)"
  by (simp add: get_diff_array_def rect_grid_zip)

lemma nth_get_diff_array [grid_simps]:
  "rect w h a \<Longrightarrow> rect w h b \<Longrightarrow> y < h \<Longrightarrow> x < w \<Longrightarrow>
   get_diff_array a b level ! y ! x = (level < int (unat (a ! y ! x - b ! y ! x)))"
  by (simp add: get_diff_array_def nth_grid_zip)

lemma rect_stroke_edges [grid_simps]: "rect w h t \<Longrightarrow> rect w h (stroke_edges t level)"
  by (simp add: stroke_edges_def Let_def rect_grid_zip rect_get_diff_array
        rect_shift_cols rect_shift_rows)

lemma nth_stroke_edges:
  assumes "rect w h t" and "y < h" and "x < w" and "0 \<le> level"
  shows "stroke_edges t level ! y ! x = edge_at t w h level y x"
proof -
  have r: "rect w h (shift_cols t)" "rect w h (shift_rows t)"
    using assms(1) by (simp_all add: rect_shift_cols rect_shift_rows)
  have rg: "\<And>a b. rect w h a \<Longrightarrow> rect w h b \<Longrightarrow> rect w h (get_diff_array a b level)"
    by (rule rect_get_diff_array)
  show ?thesis
    using assms r
    by (simp add: stroke_edges_def Let_def nth_grid_zip [of w h] rect_grid_zip rg
          nth_get_diff_array [of w h] nth_shift_cols [of w h t] nth_shift_rows [of w h t]
          edge_at_def differs_def) (auto split: if_splits)
qed

subsection \<open>The whole operation\<close>

lemma nth_alpha_plane:
  "wf_image img \<Longrightarrow> y < height img \<Longrightarrow> x < width img \<Longrightarrow>
   grid_map alpha_of (pixels img) ! y ! x = alpha_of (pixel_at img y x)"
  by (simp add: wf_image_def rect_iff pixel_at_def)

lemma stroke_tab:
  assumes "wf_image img" and "0 < height img"
  shows "stroke img level = tab_image (width img) (height img)
           (\<lambda>y x. if edge_at (grid_map alpha_of (pixels img)) (width img) (height img)
                         (min (max 1 level) 255) y x
                  then (0, 0, 0, 255) else pixel_at img y x)"
proof -
  let ?w = "width img" and ?h = "height img" and ?t = "grid_map alpha_of (pixels img)"
    and ?L = "min (max 1 level) 255"
  have rp: "rect ?w ?h (pixels img)" using assms(1) by (simp add: wf_image_def)
  then have rt: "rect ?w ?h ?t" by simp
  have re: "rect ?w ?h (stroke_edges ?t ?L)" using rt by (rule rect_stroke_edges)
  have "grid_zip (\<lambda>p e. if e then (0, 0, 0, 255) else p) (pixels img) (stroke_edges ?t ?L)
        = grid_tab ?w ?h (\<lambda>y x. if edge_at ?t ?w ?h ?L y x then (0, 0, 0, 255) else pixel_at img y x)"
    by (rule grid_eqI [of ?w ?h])
       (simp_all add: rect_grid_zip rp re nth_grid_zip [of ?w ?h] nth_stroke_edges [OF rt]
         pixel_at_def)
  then show ?thesis using assms(2) by (simp add: stroke_def Let_def)
qed

lemma unat_sub_byte:
  "unat (b - a :: byte) = (if unat a \<le> unat b then unat b - unat a else unat b + 256 - unat a)"
  by (simp add: unat_sub_if_size word_size)
lemma wrap_distance_250:
  fixes m n :: nat
  assumes "m < 256" and "n < 256"
  shows "(250 < int (if m \<le> n then n - m else n + 256 - m) \<or>
          250 < int (if n \<le> m then m - n else m + 256 - n))
         \<longleftrightarrow> (1 \<le> \<bar>int m - int n\<bar> \<and> \<bar>int m - int n\<bar> \<le> 5) \<or> 251 \<le> \<bar>int m - int n\<bar>"
  using assms by (cases "m \<le> n") (simp_all add: abs_if of_nat_diff, arith+)
lemma differs_250:
  "differs 250 a b \<longleftrightarrow>
     (let d = \<bar>int (unat a) - int (unat b)\<bar> in (1 \<le> d \<and> d \<le> 5) \<or> 251 \<le> d)"
  unfolding differs_def unat_sub_byte [of a b] unat_sub_byte [of b a] Let_def
  by (rule wrap_distance_250) simp_all

lemma edge_at_uniform:
  assumes "\<forall>y < h. \<forall>x < w. t ! y ! x = c" and "y < h" and "x < w" and "0 \<le> level"
  shows "\<not> edge_at t w h level y x"
  using assms by (auto simp: edge_at_def differs_def)

lemma edge_at_right_down:
  assumes "Suc x < w \<longrightarrow> t ! y ! Suc x = t ! y ! x" and "Suc y < h \<longrightarrow> t ! Suc y ! x = t ! y ! x"
    and "0 \<le> level"
  shows "\<not> edge_at t w h level y x"
  using assms by (auto simp: edge_at_def differs_def)

subsection \<open>Properties of the outliner\<close>

text \<open>C6: on a well-formed frame, stroke keeps the size and paints opaque black exactly the pixels where edge_at holds on the alpha plane with the clamped level; every other pixel is unchanged.\<close>

theorem stroke_outline:
  assumes "wf_image img" and "0 < height img"
  shows "stroke img level = tab_image (width img) (height img)
           (\<lambda>y x. if edge_at (grid_map alpha_of (pixels img)) (width img) (height img)
                         (min (max 1 level) 255) y x
                  then (0, 0, 0, 255) else pixel_at img y x)"
  by (rule stroke_tab [OF assms])

theorem stroke_outline_witness:
  "stroke (tab_image 1 1 (\<lambda>_ _. (5, 6, 7, 8))) 250 = tab_image 1 1 (\<lambda>_ _. (5, 6, 7, 8))"
proof -
  have "stroke (tab_image 1 1 (\<lambda>_ _. (5, 6, 7, 8))) 250 =
        tab_image 1 1 (\<lambda>y x. if edge_at (grid_map alpha_of (pixels (tab_image 1 1 (\<lambda>_ _. (5, 6, 7, 8)))))
                                   1 1 (min (max 1 250) 255) y x
                            then (0, 0, 0, 255) else pixel_at (tab_image 1 1 (\<lambda>_ _. (5, 6, 7, 8))) y x)"
    using stroke_outline [of "tab_image 1 1 (\<lambda>_ _. (5, 6, 7, 8))" 250] by simp
  also have "\<dots> = tab_image 1 1 (\<lambda>_ _. (5, 6, 7, 8))"
    by (rule tab_image_cong) (simp add: edge_at_def)
  finally show ?thesis .
qed

text \<open>C7: with the call site's level 250 the edge test between two horizontally adjacent pixels fires exactly when their alphas differ by 1 to 5 or by 251 to 255: the uint8 subtraction wraps, so small differences count as edges and differences 6 to 250 do not.\<close>

theorem stroke_pair_250:
  "stroke (tab_image 2 1 (\<lambda>y x. if x = 0 then p else q)) 250 =
   tab_image 2 1 (\<lambda>y x. if x = 0 \<and> (let d = \<bar>int (unat (alpha_of p)) - int (unat (alpha_of q))\<bar>
                                    in (1 \<le> d \<and> d \<le> 5) \<or> 251 \<le> d)
                        then (0, 0, 0, 255) else if x = 0 then p else q)"
proof -
  let ?img = "tab_image 2 1 (\<lambda>y x. if x = 0 then p else q)"
  have "stroke ?img 250 = tab_image 2 1
           (\<lambda>y x. if edge_at (grid_map alpha_of (pixels ?img)) 2 1 (min (max 1 250) 255) y x
                  then (0, 0, 0, 255) else pixel_at ?img y x)"
    using stroke_tab [of ?img 250] by simp
  also have "\<dots> = tab_image 2 1 (\<lambda>y x. if x = 0 \<and> (let d = \<bar>int (unat (alpha_of p)) - int (unat (alpha_of q))\<bar>
                                    in (1 \<le> d \<and> d \<le> 5) \<or> 251 \<le> d)
                        then (0, 0, 0, 255) else if x = 0 then p else q)"
    by (rule tab_image_cong) (auto simp: edge_at_def differs_250 less_Suc_eq simp del: One_nat_def)
  finally show ?thesis .
qed

text \<open>C8: a frame whose alpha is the same everywhere is returned unchanged by stroke.\<close>

theorem stroke_uniform_alpha:
  assumes "wf_image img" and "0 < height img"
    and "\<forall>y < height img. \<forall>x < width img. alpha_of (pixel_at img y x) = c"
  shows "stroke img level = img"
proof -
  have u: "\<forall>y < height img. \<forall>x < width img. grid_map alpha_of (pixels img) ! y ! x = c"
    using assms(1,3) by (simp add: nth_alpha_plane)
  then have "tab_image (width img) (height img)
           (\<lambda>y x. if edge_at (grid_map alpha_of (pixels img)) (width img) (height img)
                         (min (max 1 level) 255) y x
                  then (0, 0, 0, 255) else pixel_at img y x) = tab_image (width img) (height img) (pixel_at img)"
    by (intro tab_image_cong) (simp add: edge_at_uniform [OF u])
  with stroke_tab [OF assms(1,2)] show ?thesis by (simp add: wf_image_tab [OF assms(1)])
qed

theorem stroke_uniform_alpha_witness:
  "stroke (tab_image 2 2 (\<lambda>_ _. (255, 0, 0, 255))) 250 = tab_image 2 2 (\<lambda>_ _. (255, 0, 0, 255))"
  by (rule stroke_uniform_alpha [where c = 255]) (simp_all add: alpha_of_def)

text \<open>C9: stroke compares a pixel only with its right and lower neighbours: a pixel whose right and lower neighbours have its alpha is never outlined, whatever its left and upper neighbours are.\<close>

theorem stroke_ignores_left_up:
  assumes "wf_image img" and "0 < height img" and "y < height img" and "x < width img"
    and "Suc x < width img \<longrightarrow> alpha_of (pixel_at img y (Suc x)) = alpha_of (pixel_at img y x)"
    and "Suc y < height img \<longrightarrow> alpha_of (pixel_at img (Suc y) x) = alpha_of (pixel_at img y x)"
  shows "pixel_at (stroke img level) y x = pixel_at img y x"
proof -
  have "\<not> edge_at (grid_map alpha_of (pixels img)) (width img) (height img) (min (max 1 level) 255) y x"
    using assms by (intro edge_at_right_down) (simp_all add: nth_alpha_plane)
  with assms(3,4) show ?thesis by (simp add: stroke_tab [OF assms(1,2)])
qed

theorem stroke_ignores_left_up_witness:
  "pixel_at (stroke (tab_image 2 1 (\<lambda>y x. if x = 0 then (0, 0, 0, 0) else (9, 9, 9, 255))) 250) 0 1
   = (9, 9, 9, 255)"
  using stroke_ignores_left_up [of "tab_image 2 1 (\<lambda>y x. if x = 0 then (0, 0, 0, 0) else (9, 9, 9, 255))" 0 1 250]
  by simp

end
