(* ===== verification/ColorKey.thy ===== *)
theory ColorKey
  imports Image
begin

text \<open>
  The colour keyer, \<open>delete_background_color\<close> of \<open>src/transformations.py\<close>:
  every pixel whose red, green and blue channels equal the background triple
  (\<open>np.all(color == background_color, axis=-1)\<close>, a comparison of \<open>uint8\<close> values
  with Python integers) becomes \<open>[0, 0, 0, 0]\<close>. The \<open>IndexError\<close> branch of the
  code is taken only for an array without a channel axis; every frame the program
  passes was converted to RGBA, and the \<open>image\<close> type has four channels, so the
  branch is unreachable in this model.
\<close>

fun rgb_matches :: "rgba \<Rightarrow> int \<times> int \<times> int \<Rightarrow> bool" where
  "rgb_matches (r, g, b, a) (br, bg, bb) \<longleftrightarrow>
     int (unat r) = br \<and> int (unat g) = bg \<and> int (unat b) = bb"

definition delete_background_color :: "image \<Rightarrow> int \<times> int \<times> int \<Rightarrow> image" where
  "delete_background_color in_image background_color =
     (let pixels = pixels in_image;
          transparent = (0, 0, 0, 0)
      in fromarray (grid_map (\<lambda>p. if rgb_matches p background_color then transparent else p) pixels))"

subsection \<open>Lemmas\<close>

lemma delete_background_color_tab:
  assumes "wf_image img" and "0 < height img"
  shows "delete_background_color img bg =
           tab_image (width img) (height img)
             (\<lambda>y x. if rgb_matches (pixel_at img y x) bg then transparent else pixel_at img y x)"
proof -
  have "grid_map (\<lambda>p. if rgb_matches p bg then (0, 0, 0, 0) else p) (pixels img) =
        grid_tab (width img) (height img)
          (\<lambda>y x. if rgb_matches (pixel_at img y x) bg then transparent else pixel_at img y x)"
  proof (rule grid_eqI [of "width img" "height img"])
    show "rect (width img) (height img) (grid_map (\<lambda>p. if rgb_matches p bg then (0, 0, 0, 0) else p) (pixels img))"
      using assms(1) by (simp add: wf_image_def)
    fix y x assume "y < height img" and "x < width img"
    with assms(1) show "grid_map (\<lambda>p. if rgb_matches p bg then (0, 0, 0, 0) else p) (pixels img) ! y ! x =
          grid_tab (width img) (height img)
            (\<lambda>y x. if rgb_matches (pixel_at img y x) bg then transparent else pixel_at img y x) ! y ! x"
      by (simp add: wf_image_def rect_iff pixel_at_def transparent_def)
  qed simp
  then show ?thesis using assms(2) by (simp add: delete_background_color_def Let_def)
qed

lemma rgb_matches_transparent: "rgb_matches transparent bg \<Longrightarrow> bg = (0, 0, 0)"
  by (cases bg) (auto simp: transparent_def)

subsection \<open>Properties of the colour keyer\<close>





end
