(* ===== verification/Scale.thy ===== *)
theory Scale
  imports Image
begin

text \<open>
  The scaler: \<open>get_scale\<close> and \<open>resize\<close> of \<open>src/transformations.py\<close>.
  \<open>get_scale\<close> divides the target height 30 by the configured average height
  (a \<open>ZeroDivisionError\<close> at 0). \<open>resize\<close> computes each new dimension as
  \<open>max(1, int(dim * scale))\<close>, \<open>int\<close> truncating towards zero, and resamples with
  PIL's nearest-neighbour filter. Python floats are modelled by exact reals: the
  model's \<open>dim * scale\<close> is the exact product, where the program's is rounded to
  a double (the difference shows only at exact integer products).
\<close>

definition TARGET_AVG_HEIGHT :: int where
  "TARGET_AVG_HEIGHT = 30"

definition get_scale :: "int \<Rightarrow> py_error + real" where
  "get_scale src_avg_height =
     (if src_avg_height = 0 then Inl ZeroDivision
      else Inr (real_of_int TARGET_AVG_HEIGHT / real_of_int src_avg_height))"

definition resize_dim :: "nat \<Rightarrow> real \<Rightarrow> nat" where
  "resize_dim dimension scale = nat (max 1 (py_int (real dimension * scale)))"

definition resize :: "image \<Rightarrow> real \<Rightarrow> image" where
  "resize in_image scale =
     image_resize_nearest in_image (resize_dim (width in_image) scale) (resize_dim (height in_image) scale)"

subsection \<open>Lemmas\<close>

lemma resize_dim_nonneg: "0 \<le> s \<Longrightarrow> resize_dim d s = max 1 (nat \<lfloor>real d * s\<rfloor>)"
  by (simp add: resize_dim_def nat_max_one)

lemma resize_dim_pos: "0 < resize_dim d s"
  by (simp add: resize_dim_def)

lemma resize_dim_one: "0 < d \<Longrightarrow> resize_dim d 1 = d"
  by (simp add: resize_dim_def)

lemma resize_sel [simp]:
  "width (resize img s) = resize_dim (width img) s"
  "height (resize img s) = resize_dim (height img) s"
  "wf_image (resize img s)"
  by (simp_all add: resize_def)

lemma resize_pixel:
  "y < height (resize img s) \<Longrightarrow> x < width (resize img s) \<Longrightarrow>
   pixel_at (resize img s) y x =
     pixel_at img (nearest_src (resize_dim (height img) s) (height img) y)
                  (nearest_src (resize_dim (width img) s) (width img) x)"
  by (simp add: resize_def image_resize_nearest_def)

text \<open>Truncating twice: scaling by \<open>s \<ge> 1\<close> and back by \<open>1 / s\<close> loses at most one pixel.\<close>

lemma floor_scale_back:
  fixes d :: nat and s :: real
  assumes "1 \<le> s"
  shows "real d - 1 < real_of_int \<lfloor>real (nat \<lfloor>real d * s\<rfloor>) * (1 / s)\<rfloor> + 1"
    and "\<lfloor>real (nat \<lfloor>real d * s\<rfloor>) * (1 / s)\<rfloor> \<le> int d"
proof -
  have s0: "0 < s" using assms by simp
  have ds: "0 \<le> real d * s" using s0 by simp
  let ?k = "\<lfloor>real d * s\<rfloor>"
  have k: "real_of_int ?k \<le> real d * s" "real d * s < real_of_int ?k + 1" by linarith+
  have kn: "real (nat ?k) = real_of_int ?k" using ds by simp
  have "real_of_int ?k / s \<le> real d" using k(1) s0 by (simp add: divide_le_eq)
  then show "\<lfloor>real (nat ?k) * (1 / s)\<rfloor> \<le> int d" using kn by (simp add: floor_le_iff)
  have "(real d * s - 1) / s < real_of_int ?k / s"
    using k(2) s0 by (intro divide_strict_right_mono) linarith+
  moreover have "(real d * s - 1) / s = real d - 1 / s" using s0 by (simp add: field_simps)
  ultimately have "real d - 1 / s < real_of_int ?k / s" by simp
  moreover have "1 / s \<le> 1" using assms by simp
  ultimately have "real d - 1 < real (nat ?k) * (1 / s)" using kn by (simp add: divide_inverse)
  then show "real d - 1 < real_of_int \<lfloor>real (nat ?k) * (1 / s)\<rfloor> + 1" by linarith
qed

lemma resize_dim_ge: "1 \<le> real d * s \<Longrightarrow> resize_dim d s = nat \<lfloor>real d * s\<rfloor>"
  by (simp add: resize_dim_def nat_max_one max_def le_nat_iff le_floor_iff)

subsection \<open>Properties of the scaler\<close>

text \<open>C12: for a non-negative factor the resized frame is well-formed and each
  dimension is the truncated product, at least 1: max(1, floor(dim * scale)).\<close>

theorem resize_dims:
  assumes "0 \<le> s"
  shows "wf_image (resize img s)
         \<and> width (resize img s) = max 1 (nat \<lfloor>real (width img) * s\<rfloor>)
         \<and> height (resize img s) = max 1 (nat \<lfloor>real (height img) * s\<rfloor>)"
  using assms by (simp add: resize_dim_nonneg)

theorem resize_dims_witness:
  "width (resize (tab_image 3 3 (\<lambda>_ _. (1, 2, 3, 255))) (1 / 2)) = 1"
  using resize_dims [of "1 / 2" "tab_image 3 3 (\<lambda>_ _. (1, 2, 3, 255))"] by simp

text \<open>C13: resizing a well-formed non-empty frame by the factor 1 returns it unchanged.\<close>

theorem resize_identity:
  assumes "wf_image img" and "0 < width img" and "0 < height img"
  shows "resize img 1 = img"
proof -
  have "resize img 1 = tab_image (width img) (height img)
          (\<lambda>y x. pixel_at img (nearest_src (height img) (height img) y)
                             (nearest_src (width img) (width img) x))"
    using assms(2,3) by (simp add: resize_def image_resize_nearest_def resize_dim_one)
  also have "\<dots> = tab_image (width img) (height img) (pixel_at img)"
    by (rule tab_image_cong) (simp add: nearest_src_same)
  finally show ?thesis by (simp add: wf_image_tab [OF assms(1)])
qed

theorem resize_identity_witness:
  "resize (tab_image 2 2 (\<lambda>y x. (of_nat x, of_nat y, 0, 255))) 1 = tab_image 2 2 (\<lambda>y x. (of_nat x, of_nat y, 0, 255))"
  by (rule resize_identity) simp_all

text \<open>C14: nearest-neighbour resampling creates no colour: every pixel of a resized
  non-empty frame is a pixel of the original frame.\<close>

theorem resize_nearest_source:
  assumes "0 < width img" and "0 < height img"
    and "y < height (resize img s)" and "x < width (resize img s)"
  shows "\<exists>y' < height img. \<exists>x' < width img. pixel_at (resize img s) y x = pixel_at img y' x'"
proof -
  have "nearest_src (resize_dim (height img) s) (height img) y < height img"
    using assms(2,3) by (simp add: nearest_src_lt)
  moreover have "nearest_src (resize_dim (width img) s) (width img) x < width img"
    using assms(1,4) by (simp add: nearest_src_lt)
  ultimately show ?thesis using resize_pixel [OF assms(3,4)] by blast
qed

theorem resize_nearest_source_witness:
  "\<exists>y' < 2. \<exists>x' < 2. pixel_at (resize (tab_image 2 2 (\<lambda>y x. (of_nat x, of_nat y, 0, 255))) 3) 5 4
     = pixel_at (tab_image 2 2 (\<lambda>y x. (of_nat x, of_nat y, 0, 255))) y' x'"
  using resize_nearest_source [of "tab_image 2 2 (\<lambda>y x. (of_nat x, of_nat y, 0, 255))" 5 3 4]
  by (simp add: resize_dim_def)

text \<open>C15: scaling a dimension up by a factor s of at least 1 and back by 1 / s returns
  it to within one pixel below.\<close>

theorem resize_dim_roundtrip:
  assumes "1 \<le> s" and "0 < d"
  shows "d - 1 \<le> resize_dim (resize_dim d s) (1 / s) \<and> resize_dim (resize_dim d s) (1 / s) \<le> d"
proof -
  have "1 \<le> real d" using assms(2) by simp
  then have "1 * 1 \<le> real d * s" using assms(1) by (intro mult_mono) simp_all
  then have up: "resize_dim d s = nat \<lfloor>real d * s\<rfloor>" by (intro resize_dim_ge) simp
  have s0: "0 \<le> 1 / s" using assms(1) by simp
  have lo: "real d - 1 < real_of_int \<lfloor>real (nat \<lfloor>real d * s\<rfloor>) * (1 / s)\<rfloor> + 1"
    and hi: "\<lfloor>real (nat \<lfloor>real d * s\<rfloor>) * (1 / s)\<rfloor> \<le> int d"
    using floor_scale_back [OF assms(1)] by blast+
  show ?thesis
    unfolding up resize_dim_nonneg [OF s0] using lo hi assms(2) by linarith
qed

theorem resize_dim_roundtrip_witness:
  "resize_dim (resize_dim 10 (3 / 2)) (1 / (3 / 2)) = 10"
proof -
  have "10 - 1 \<le> resize_dim (resize_dim 10 (3 / 2)) (1 / (3 / 2))
        \<and> resize_dim (resize_dim 10 (3 / 2)) (1 / (3 / 2)) \<le> (10::nat)"
    by (rule resize_dim_roundtrip) simp_all
  moreover have "resize_dim (resize_dim 10 (3 / 2)) (1 / (3 / 2)) = 10"
    by (simp add: resize_dim_def)
  ultimately show ?thesis by simp
qed

lemma resize_dim_shrink_roundtrip:
  "resize_dim (resize_dim 10 (3 / 20)) (1 / (3 / 20)) = 6"
  by (simp add: resize_dim_def)

end
