(* ===== verification/Enhance.thy ===== *)
theory Enhance
  imports Image
begin

text \<open>
  The saturation enhancer, \<open>saturate\<close> of \<open>src/transformations.py\<close>, which calls
  PIL's \<open>ImageEnhance.Color(img).enhance(saturation)\<close>. PIL builds the degenerate
  image by converting to \<open>LA\<close> and back (each pixel becomes its luma
  \<open>(19595 R + 38470 G + 7471 B + 32768) >> 16\<close> on all three colour channels,
  alpha kept) and returns \<open>Image.blend(degenerate, img, factor)\<close>: per channel
  \<open>in1 + factor * (in2 - in1)\<close>, clipped to [0, 255] and truncated. The PIL
  side is library code, modelled from its documented behaviour; the factor is a
  real number (PIL computes in single precision).
\<close>

definition luma :: "rgba \<Rightarrow> byte" where
  "luma p = (case p of (r, g, b, a) \<Rightarrow>
     word_of_nat ((19595 * unat r + 38470 * unat g + 7471 * unat b + 32768) div 65536))"

definition clip_byte :: "real \<Rightarrow> byte" where
  "clip_byte temp = (if temp \<le> 0 then 0 else if 255 \<le> temp then 255 else word_of_nat (nat \<lfloor>temp\<rfloor>))"

definition blend_channel :: "byte \<Rightarrow> byte \<Rightarrow> real \<Rightarrow> byte" where
  "blend_channel in1 in2 alpha =
     clip_byte (real (unat in1) + alpha * (real (unat in2) - real (unat in1)))"

definition enhance_color_pixel :: "real \<Rightarrow> rgba \<Rightarrow> rgba" where
  "enhance_color_pixel factor p = (case p of (r, g, b, a) \<Rightarrow>
     (let l = luma p in
      (blend_channel l r factor, blend_channel l g factor, blend_channel l b factor,
       blend_channel a a factor)))"

definition saturate :: "image \<Rightarrow> real \<Rightarrow> image" where
  "saturate in_image saturation = in_image\<lparr>pixels := grid_map (enhance_color_pixel saturation) (pixels in_image)\<rparr>"

text \<open>\<open>limit_palette\<close> (lines 77--82) is a stub: its body is \<open>pass\<close> followed by comments
  that plan the palette reduction, so it returns \<open>None\<close> and changes nothing. Nothing calls it.\<close>

definition limit_palette :: "unit \<Rightarrow> unit" where
  "limit_palette u = ()"

subsection \<open>Lemmas\<close>

lemma clip_byte_nat: "n \<le> 255 \<Longrightarrow> clip_byte (real n) = word_of_nat n"
  by (cases "n = 0 \<or> n = 255") (auto simp: clip_byte_def)

lemma clip_byte_unat: "clip_byte (real (unat c)) = c"
  using clip_byte_nat [OF unat_byte_le [of c]] by simp

lemma blend_channel_same [simp]: "blend_channel a a f = a"
  using clip_byte_unat [of a] by (simp add: blend_channel_def)

lemma blend_channel_one [simp]: "blend_channel a b 1 = b"
  using clip_byte_unat [of b] by (simp add: blend_channel_def)

lemma blend_channel_zero [simp]: "blend_channel a b 0 = a"
  using clip_byte_unat [of a] by (simp add: blend_channel_def)

lemma saturate_sel [simp]:
  "width (saturate img f) = width img" "height (saturate img f) = height img"
  "wf_image (saturate img f) = wf_image img"
  by (simp_all add: saturate_def wf_image_def)

lemma enhance_color_pixel_one: "enhance_color_pixel 1 p = p"
  by (cases p) (simp add: enhance_color_pixel_def)

lemma alpha_enhance_color_pixel: "alpha_of (enhance_color_pixel f p) = alpha_of p"
  by (cases p) (simp add: enhance_color_pixel_def alpha_of_def Let_def)

lemma luma_grey: "luma (v, v, v, a) = v"
proof -
  have "(19595 * unat v + 38470 * unat v + 7471 * unat v + 32768) div 65536 = unat v"
    by (simp add: div_nat_eqI)
  then show ?thesis by (simp add: luma_def)
qed

lemma pixel_at_saturate:
  "wf_image img \<Longrightarrow> y < height img \<Longrightarrow> x < width img \<Longrightarrow>
   pixel_at (saturate img f) y x = enhance_color_pixel f (pixel_at img y x)"
  by (simp add: saturate_def pixel_at_def wf_image_def rect_iff)

lemma saturate_tab:
  "saturate (tab_image w h f) r = tab_image w h (\<lambda>y x. enhance_color_pixel r (f y x))"
  by (simp add: saturate_def tab_image_def)

lemma enhance_color_pixel_black: "enhance_color_pixel r (0, 0, 0, 255) = (0, 0, 0, 255)"
  using luma_grey [of 0 255] by (simp add: enhance_color_pixel_def)

subsection \<open>Properties of the enhancer\<close>



text \<open>Saturation never changes the alpha channel, whatever the factor: the
  transparency plane the outliner reads is the same before and after.\<close>

theorem saturate_alpha:
  "grid_map alpha_of (pixels (saturate img f)) = grid_map alpha_of (pixels img)"
  by (simp add: saturate_def grid_map_comp comp_def alpha_enhance_color_pixel)

text \<open>A grey pixel (equal red, green and blue) is left unchanged by saturation with
  any factor.\<close>

theorem saturate_grey_fixed:
  assumes "wf_image img" and "y < height img" and "x < width img"
    and "pixel_at img y x = (c, c, c, a)"
  shows "pixel_at (saturate img f) y x = (c, c, c, a)"
  using assms by (simp add: pixel_at_saturate enhance_color_pixel_def luma_grey)

theorem saturate_grey_fixed_witness:
  "pixel_at (saturate (tab_image 2 1 (\<lambda>y x. if x = 0 then (7, 7, 7, 9) else (200, 10, 10, 255))) 3) 0 0
   = (7, 7, 7, 9)"
  by (rule saturate_grey_fixed) simp_all

end
