(* ===== verification/ColorParse.thy ===== *)
theory ColorParse
  imports Prelude
begin

text \<open>
  The background colour parser, \<open>parse_background_color\<close> of
  \<open>src/sprite2roa.py\<close>, with the Python string builtins it relies on. A Python
  \<open>str\<close> is a \<open>string\<close> whose characters are the code points below 256 (the
  Latin-1 range, which is what an Isabelle \<open>char\<close> holds). For these code points
  \<open>str.isspace\<close> holds for 9 to 13, 28 to 32, 133 and 160; \<open>str.isdigit\<close> for
  the ASCII digits and the superscripts 178, 179 and 185; and \<open>int()\<close> accepts
  only ASCII digits (with single underscores between them), an optional sign and
  surrounding white space, raising \<open>ValueError\<close> otherwise, so a superscript
  token passes \<open>isdigit\<close> and then raises.
\<close>

definition py_isspace :: "char \<Rightarrow> bool" where
  "py_isspace c \<longleftrightarrow>
     (let n = of_char c :: nat in (9 \<le> n \<and> n \<le> 13) \<or> (28 \<le> n \<and> n \<le> 32) \<or> n = 133 \<or> n = 160)"

definition is_ascii_digit :: "char \<Rightarrow> bool" where
  "is_ascii_digit c \<longleftrightarrow> (let n = of_char c :: nat in 48 \<le> n \<and> n \<le> 57)"

definition py_isdigit_char :: "char \<Rightarrow> bool" where
  "py_isdigit_char c \<longleftrightarrow> is_ascii_digit c \<or> of_char c \<in> {178 :: nat, 179, 185}"

definition py_str_isdigit :: "string \<Rightarrow> bool" where
  "py_str_isdigit s \<longleftrightarrow> s \<noteq> [] \<and> list_all py_isdigit_char s"

fun py_split_acc :: "string \<Rightarrow> string \<Rightarrow> string list" where
  "py_split_acc [] cur = (if cur = [] then [] else [cur])"
| "py_split_acc (c # cs) cur =
     (if py_isspace c
      then (if cur = [] then py_split_acc cs [] else cur # py_split_acc cs [])
      else py_split_acc cs (cur @ [c]))"

definition py_split :: "string \<Rightarrow> string list" where
  "py_split s = py_split_acc s []"

definition py_strip :: "string \<Rightarrow> string" where
  "py_strip s = rev (dropWhile py_isspace (rev (dropWhile py_isspace s)))"

fun no_double_underscore :: "string \<Rightarrow> bool" where
  "no_double_underscore (a # b # r) \<longleftrightarrow>
     \<not> (a = CHR ''_'' \<and> b = CHR ''_'') \<and> no_double_underscore (b # r)"
| "no_double_underscore _ \<longleftrightarrow> True"

definition valid_decimal :: "string \<Rightarrow> bool" where
  "valid_decimal s \<longleftrightarrow>
     s \<noteq> [] \<and> is_ascii_digit (hd s) \<and> is_ascii_digit (last s)
     \<and> list_all (\<lambda>c. is_ascii_digit c \<or> c = CHR ''_'') s \<and> no_double_underscore s"

definition decimal_value :: "string \<Rightarrow> nat" where
  "decimal_value s = foldl (\<lambda>acc c. 10 * acc + (of_char c - 48)) 0 s"

definition py_int_str :: "string \<Rightarrow> py_error + int" where
  "py_int_str s =
     (let t = py_strip s;
          (negative, body) = (case t of c # r \<Rightarrow>
                                  if c = CHR ''-'' then (True, r)
                                  else if c = CHR ''+'' then (False, r) else (False, t)
                              | [] \<Rightarrow> (False, []))
      in if valid_decimal body
         then Inr ((if negative then -1 else 1) * int (decimal_value (filter (\<lambda>c. c \<noteq> CHR ''_'') body)))
         else Inl (InvalidLiteral s))"

definition parse_background_color :: "string \<Rightarrow> py_error + int \<times> int \<times> int" where
  "parse_background_color background_color_string =
     (case py_map py_int_str (filter py_str_isdigit (py_split background_color_string)) of
        Inl e \<Rightarrow> Inl e
      | Inr digits \<Rightarrow>
          if length digits \<noteq> 3 then Inl (ColorCount (length digits))
          else (case find (\<lambda>digit. \<not> (0 \<le> digit \<and> digit \<le> 255)) digits of
                  Some digit \<Rightarrow> Inl (ColorRange digit)
                | None \<Rightarrow> Inr (digits ! 0, digits ! 1, digits ! 2)))"

text \<open>Printing a colour the way the spec writes it: three decimals separated by spaces.\<close>

fun show_nat :: "nat \<Rightarrow> string" where
  "show_nat n = (if n < 10 then [char_of (48 + n)] else show_nat (n div 10) @ [char_of (48 + n mod 10)])"

declare show_nat.simps [simp del]

definition format_color :: "nat \<Rightarrow> nat \<Rightarrow> nat \<Rightarrow> string" where
  "format_color r g b = show_nat r @ '' '' @ show_nat g @ '' '' @ show_nat b"

subsection \<open>Lemmas\<close>

lemma digit_char: "k < 10 \<Longrightarrow> of_char (char_of (48 + k) :: char) = (48 + k :: nat)"
  by (simp add: of_char_of)

lemma show_nat_digits: "show_nat n \<noteq> [] \<and> list_all is_ascii_digit (show_nat n)"
proof (induction n rule: show_nat.induct)
  case (1 n)
  then show ?case
    by (auto simp: show_nat.simps [of n] is_ascii_digit_def digit_char)
qed

lemma decimal_value_snoc: "decimal_value (xs @ [c]) = 10 * decimal_value xs + (of_char c - 48)"
  by (simp add: decimal_value_def)

lemma decimal_value_show_nat: "decimal_value (show_nat n) = n"
proof (induction n rule: show_nat.induct)
  case (1 n)
  show ?case
  proof (cases "n < 10")
    case True
    then show ?thesis by (simp add: show_nat.simps [of n] decimal_value_def digit_char)
  next
    case False
    with "1.IH" have "decimal_value (show_nat (n div 10)) = n div 10" by simp
    with False show ?thesis by (simp add: show_nat.simps [of n] decimal_value_snoc digit_char)
  qed
qed

lemma ascii_digit_not_space: "is_ascii_digit c \<Longrightarrow> \<not> py_isspace c"
  by (auto simp: is_ascii_digit_def py_isspace_def Let_def)

lemma py_split_acc_word:
  "list_all (\<lambda>c. \<not> py_isspace c) w \<Longrightarrow> py_split_acc (w @ rest) cur = py_split_acc rest (cur @ w)"
  by (induction w arbitrary: cur) simp_all

lemma py_split_word_space:
  assumes "w \<noteq> []" and "list_all (\<lambda>c. \<not> py_isspace c) w"
  shows "py_split (w @ CHR '' '' # rest) = w # py_split rest"
  using assms by (simp add: py_split_def py_split_acc_word py_isspace_def)

lemma py_split_word:
  assumes "w \<noteq> []" and "list_all (\<lambda>c. \<not> py_isspace c) w"
  shows "py_split w = [w]"
  using py_split_acc_word [OF assms(2), of "[]" "[]"] assms(1) by (simp add: py_split_def)

lemma show_nat_no_space: "list_all (\<lambda>c. \<not> py_isspace c) (show_nat n)"
  using show_nat_digits [of n] by (auto simp: list_all_iff ascii_digit_not_space)

lemma py_split_format_color:
  "py_split (format_color r g b) = [show_nat r, show_nat g, show_nat b]"
  using show_nat_digits show_nat_no_space
  by (simp add: format_color_def py_split_word_space py_split_word)

lemma py_str_isdigit_show_nat: "py_str_isdigit (show_nat n)"
  using show_nat_digits [of n] by (auto simp: py_str_isdigit_def py_isdigit_char_def list_all_iff)

lemma no_double_underscore_digits:
  "list_all is_ascii_digit s \<Longrightarrow> no_double_underscore s"
  by (induction s rule: no_double_underscore.induct) (auto simp: is_ascii_digit_def)

lemma py_strip_no_space: "list_all (\<lambda>c. \<not> py_isspace c) s \<Longrightarrow> py_strip s = s"
proof -
  assume a: "list_all (\<lambda>c. \<not> py_isspace c) s"
  then have "dropWhile py_isspace s = s" by (cases s) simp_all
  moreover have "dropWhile py_isspace (rev s) = rev s" using a by (cases "rev s") (auto simp: list_all_iff)
  ultimately show ?thesis by (simp add: py_strip_def)
qed

lemma py_int_str_show_nat: "py_int_str (show_nat n) = Inr (int n)"
proof -
  obtain c r where cr: "show_nat n = c # r" using show_nat_digits [of n] by (cases "show_nat n") auto
  have d: "list_all is_ascii_digit (show_nat n)" using show_nat_digits by blast
  then have "is_ascii_digit c" using cr by simp
  then have "c \<noteq> CHR ''-''" "c \<noteq> CHR ''+''" by (auto simp: is_ascii_digit_def)
  moreover have "valid_decimal (show_nat n)"
    using d show_nat_digits [of n] no_double_underscore_digits [OF d]
    by (auto simp: valid_decimal_def list_all_iff last_in_set)
  moreover have "filter (\<lambda>c. c \<noteq> CHR ''_'') (show_nat n) = show_nat n"
    using d by (auto simp: filter_id_conv list_all_iff is_ascii_digit_def)
  moreover have "decimal_value (c # r) = n" using decimal_value_show_nat [of n] cr by simp
  ultimately show ?thesis
    using cr py_strip_no_space [OF show_nat_no_space [of n]]
    by (simp add: py_int_str_def)
qed

lemma parse_background_color_Inr:
  assumes "parse_background_color s = Inr (r, g, b)"
  shows "\<exists>ds. py_map py_int_str (filter py_str_isdigit (py_split s)) = Inr ds \<and> length ds = 3
           \<and> list_all (\<lambda>d. 0 \<le> d \<and> d \<le> 255) ds \<and> (r, g, b) = (ds ! 0, ds ! 1, ds ! 2)"
  using assms
  by (auto simp: parse_background_color_def find_None_iff list_all_iff
        split: sum.splits if_splits option.splits)

subsection \<open>Properties of the colour parser\<close>

text \<open>C16: printing a colour with channels in [0, 255] as three space-separated decimals and parsing it back with parse_background_color returns the colour.\<close>

theorem parse_format_roundtrip:
  assumes "r \<le> 255" and "g \<le> 255" and "b \<le> 255"
  shows "parse_background_color (format_color r g b) = Inr (int r, int g, int b)"
  using assms
  by (simp add: parse_background_color_def py_split_format_color py_str_isdigit_show_nat
        py_int_str_show_nat)

theorem parse_format_roundtrip_witness:
  "parse_background_color (format_color 64 128 255) = Inr (64, 128, 255)"
  using parse_format_roundtrip [of 64 128 255] by simp

text \<open>C17: whatever the input string, a successful parse_background_color returns three channels each in [0, 255].\<close>

theorem parse_background_color_range:
  assumes "parse_background_color s = Inr (r, g, b)"
  shows "0 \<le> r \<and> r \<le> 255 \<and> 0 \<le> g \<and> g \<le> 255 \<and> 0 \<le> b \<and> b \<le> 255"
proof -
  obtain ds where "length ds = 3" "list_all (\<lambda>d. 0 \<le> d \<and> d \<le> 255) ds"
      and "(r, g, b) = (ds ! 0, ds ! 1, ds ! 2)"
    using parse_background_color_Inr [OF assms] by blast
  then show ?thesis by (auto simp: list_all_length numeral_3_eq_3)
qed

theorem parse_background_color_range_witness:
  "parse_background_color ''64 64 64'' = Inr (64, 64, 64) \<and> 0 \<le> (64::int) \<and> (64::int) \<le> 255"
proof -
  have eq: "parse_background_color ''64 64 64'' = Inr (64, 64, 64)" by code_simp
  from parse_background_color_range [OF eq] eq show ?thesis by simp
qed

text \<open>C18: a token that is not all digits (a sign, a decimal point, a letter) is silently dropped: putting it in front of the string does not change the result, so a negative channel is ignored rather than rejected.\<close>

theorem parse_background_color_ignores_token:
  assumes "w \<noteq> []" and "list_all (\<lambda>c. \<not> py_isspace c) w" and "\<not> py_str_isdigit w"
  shows "parse_background_color (w @ CHR '' '' # s) = parse_background_color s"
  using assms by (simp add: parse_background_color_def py_split_word_space)

theorem parse_background_color_ignores_token_witness:
  "parse_background_color (''-1'' @ CHR '' '' # ''255 0 0'') = Inr (255, 0, 0)"
proof -
  have "parse_background_color (''-1'' @ CHR '' '' # ''255 0 0'') = parse_background_color ''255 0 0''"
    by (rule parse_background_color_ignores_token)
       (simp_all add: py_isspace_def py_str_isdigit_def py_isdigit_char_def is_ascii_digit_def)
  also have "\<dots> = Inr (255, 0, 0)" by code_simp
  finally show ?thesis .
qed

text \<open>The three raise sites of parse_background_color: a digit-token count other than 3, a channel above 255, and a digit token that int() rejects (a superscript digit passes isdigit).\<close>

theorem parse_background_color_errors:
  "parse_background_color ''64 64'' = Inl (ColorCount 2)
   \<and> parse_background_color ''64 300 64'' = Inl (ColorRange 300)
   \<and> parse_background_color (''1'' @ [CHR 0xB2] @ '' 2 3'') = Inl (InvalidLiteral (''1'' @ [CHR 0xB2]))"
  by code_simp

end
