(* ===== verification/Config.thy ===== *)
theory Config
  imports ColorParse
begin

text \<open>
  The configuration lookup of \<open>src/configuration.py\<close>. Python's dynamically typed
  values are \<open>pyval\<close>; the docopt argument dictionary is a map from option names
  to values (a missing key is a \<open>KeyError\<close>). A \<open>ConfigParser\<close> object is the
  record \<open>cfgparser\<close>: its DEFAULT dictionary and its sections, option names
  already folded by \<open>optionxform\<close>. A configuration file on disk is given
  already parsed, as the map \<open>ini_files\<close> from paths to the contents
  \<open>ConfigParser\<close> reads from them; \<open>ConfigParser.read\<close> silently skips a
  path that does not exist and otherwise merges the file's options into the same
  object, later values replacing earlier ones. Value interpolation (\<open>%\<close>) is
  not modelled. \<open>float()\<close> of a string is modelled for decimal literals (sign,
  digits with single underscores, fraction, exponent) with their exact value; the
  literals \<open>inf\<close> and \<open>nan\<close>, which Python accepts, are rejected by the model.
\<close>

datatype pyval = PStr string | PBool bool | PInt int | PFloat real | PNone

record cfgparser =
  defaults :: "string \<rightharpoonup> string"
  sects :: "string \<rightharpoonup> (string \<rightharpoonup> string)"

type_synonym ini_files = "string \<rightharpoonup> cfgparser"

fun truthy :: "pyval \<Rightarrow> bool" where
  "truthy (PStr s) \<longleftrightarrow> s \<noteq> []"
| "truthy (PBool b) \<longleftrightarrow> b"
| "truthy (PInt i) \<longleftrightarrow> i \<noteq> 0"
| "truthy (PFloat r) \<longleftrightarrow> r \<noteq> 0"
| "truthy PNone \<longleftrightarrow> False"

definition empty_cfgparser :: cfgparser where
  "empty_cfgparser = \<lparr>defaults = Map.empty, sects = Map.empty\<rparr>"

definition cp_read :: "cfgparser \<Rightarrow> ini_files \<Rightarrow> string \<Rightarrow> cfgparser" where
  "cp_read cp fs path =
     (case fs path of
        None \<Rightarrow> cp
      | Some f \<Rightarrow>
          \<lparr>defaults = defaults cp ++ defaults f,
           sects = (\<lambda>s. case sects f s of
                          None \<Rightarrow> sects cp s
                        | Some m \<Rightarrow> Some (case sects cp s of None \<Rightarrow> m | Some m0 \<Rightarrow> m0 ++ m))\<rparr>)"

definition cp_lookup :: "cfgparser \<Rightarrow> string \<Rightarrow> string \<Rightarrow> string option" where
  "cp_lookup cp section option =
     (if section = ''DEFAULT'' then defaults cp option
      else case sects cp section of
             None \<Rightarrow> None
           | Some m \<Rightarrow> (case m option of Some v \<Rightarrow> Some v | None \<Rightarrow> defaults cp option))"

definition interpret_config ::
  "cfgparser \<Rightarrow> (string \<rightharpoonup> pyval) \<Rightarrow> string \<Rightarrow> pyval \<Rightarrow> (pyval \<Rightarrow> py_error + pyval) option
   \<Rightarrow> py_error + pyval" where
  "interpret_config config_parser args query default_val coerce =
     (let arg_query = ''--'' @ query in
      case args arg_query of
        None \<Rightarrow> Inl (KeyError arg_query)
      | Some arg_result \<Rightarrow>
          (let found = (if truthy arg_result then Some arg_result
                        else map_option PStr (cp_lookup config_parser ''CONFIG'' query))
           in case found of
                None \<Rightarrow> Inr default_val
              | Some result \<Rightarrow> (case coerce of None \<Rightarrow> Inr result | Some f \<Rightarrow> f result)))"

definition read_game_config :: "ini_files \<Rightarrow> string \<Rightarrow> cfgparser" where
  "read_game_config fs game_directory = cp_read empty_cfgparser fs (game_directory @ ''/config.ini'')"

definition read_character_config :: "ini_files \<Rightarrow> cfgparser \<Rightarrow> string \<Rightarrow> cfgparser" where
  "read_character_config fs game_config char_directory =
     cp_read game_config fs (char_directory @ ''/config.ini'')"

text \<open>The configuration each character of \<open>process_game\<close>'s loop is processed with:
  \<open>read_character_config\<close> reads into the game's parser object itself, so the
  object is threaded from one character to the next.\<close>

fun character_configs :: "ini_files \<Rightarrow> cfgparser \<Rightarrow> string list \<Rightarrow> cfgparser list" where
  "character_configs fs game_config [] = []"
| "character_configs fs game_config (char_directory # rest) =
     (let char_config = read_character_config fs game_config char_directory
      in char_config # character_configs fs char_config rest)"

subsection \<open>The layered lookup of the specification\<close>

text \<open>An ordered list of lookup layers, the first that holds the key wins.\<close>

definition resolve :: "('k \<rightharpoonup> 'v) list \<Rightarrow> 'k \<Rightarrow> 'v option" where
  "resolve layers k = foldr (\<lambda>m r. case m k of Some v \<Rightarrow> Some v | None \<Rightarrow> r) layers None"

definition arg_layer :: "(string \<rightharpoonup> pyval) \<Rightarrow> string \<rightharpoonup> pyval" where
  "arg_layer args q = (case args (''--'' @ q) of Some v \<Rightarrow> if truthy v then Some v else None | None \<Rightarrow> None)"

definition section_layer :: "cfgparser \<Rightarrow> string \<Rightarrow> string \<rightharpoonup> pyval" where
  "section_layer cp sec q = (case sects cp sec of None \<Rightarrow> None | Some m \<Rightarrow> map_option PStr (m q))"

definition defaults_layer :: "cfgparser \<Rightarrow> string \<Rightarrow> string \<rightharpoonup> pyval" where
  "defaults_layer cp sec q = (if sec = ''DEFAULT'' \<or> sects cp sec \<noteq> None then map_option PStr (defaults cp q) else None)"

subsection \<open>Coercions\<close>

definition coerce_int :: "pyval \<Rightarrow> py_error + pyval" where
  "coerce_int v = (case v of
      PStr s \<Rightarrow> (case py_int_str s of Inl e \<Rightarrow> Inl e | Inr i \<Rightarrow> Inr (PInt i))
    | PInt i \<Rightarrow> Inr (PInt i)
    | PBool b \<Rightarrow> Inr (PInt (if b then 1 else 0))
    | PFloat r \<Rightarrow> Inr (PInt (py_int r))
    | PNone \<Rightarrow> Inl TypeError)"

definition coerce_bool :: "pyval \<Rightarrow> py_error + pyval" where
  "coerce_bool v = Inr (PBool (truthy v))"

definition split_on :: "(char \<Rightarrow> bool) \<Rightarrow> string \<Rightarrow> string \<times> string option" where
  "split_on p s = (let a = takeWhile (\<lambda>c. \<not> p c) s; b = dropWhile (\<lambda>c. \<not> p c) s
                   in (a, if b = [] then None else Some (tl b)))"

definition strip_sign :: "string \<Rightarrow> bool \<times> string" where
  "strip_sign t = (case t of c # r \<Rightarrow>
                     if c = CHR ''-'' then (True, r) else if c = CHR ''+'' then (False, r) else (False, t)
                   | [] \<Rightarrow> (False, []))"

definition digits_value :: "string \<Rightarrow> nat" where
  "digits_value s = decimal_value (filter (\<lambda>c. c \<noteq> CHR ''_'') s)"

definition py_float_str :: "string \<Rightarrow> py_error + real" where
  "py_float_str s =
     (let (negative, body) = strip_sign (py_strip s);
          (mant, ex) = split_on (\<lambda>c. c = CHR ''e'' \<or> c = CHR ''E'') body;
          (intpart, frac) = split_on (\<lambda>c. c = CHR ''.'') mant;
          fracpart = (case frac of None \<Rightarrow> [] | Some f \<Rightarrow> f);
          ok_mant = (intpart = [] \<or> valid_decimal intpart) \<and> (fracpart = [] \<or> valid_decimal fracpart)
                    \<and> (intpart \<noteq> [] \<or> fracpart \<noteq> []);
          (eneg, edigits) = (case ex of None \<Rightarrow> (False, ''0'') | Some e \<Rightarrow> strip_sign e);
          ok_exp = valid_decimal edigits;
          e = (if eneg then - int (digits_value edigits) else int (digits_value edigits));
          m = real (digits_value intpart) + real (digits_value fracpart) / 10 ^ length fracpart;
          v = (if 0 \<le> e then m * 10 ^ nat e else m / 10 ^ nat (- e))
      in if ok_mant \<and> ok_exp then Inr (if negative then - v else v) else Inl (InvalidLiteral s))"

definition coerce_float :: "pyval \<Rightarrow> py_error + pyval" where
  "coerce_float v = (case v of
      PStr s \<Rightarrow> (case py_float_str s of Inl e \<Rightarrow> Inl e | Inr r \<Rightarrow> Inr (PFloat r))
    | PInt i \<Rightarrow> Inr (PFloat (real_of_int i))
    | PBool b \<Rightarrow> Inr (PFloat (if b then 1 else 0))
    | PFloat r \<Rightarrow> Inr (PFloat r)
    | PNone \<Rightarrow> Inl TypeError)"

subsection \<open>Lemmas\<close>

lemma character_configs_nth:
  "i < length ds \<Longrightarrow>
   character_configs fs gc ds ! i = fold (\<lambda>d cp. read_character_config fs cp d) (take (Suc i) ds) gc"
proof (induction ds arbitrary: gc i)
  case Nil
  then show ?case by simp
next
  case (Cons d ds)
  then show ?case by (cases i) (simp_all add: Let_def)
qed

lemma cp_lookup_read_missing: "fs path = None \<Longrightarrow> cp_read cp fs path = cp"
  by (simp add: cp_read_def)

subsection \<open>Properties of the configuration lookup\<close>

text \<open>C24: the configuration the i-th character of a game is processed with is the game configuration with the config.ini files of characters 0 to i all read into it: options of earlier characters leak into later ones.\<close>

theorem character_configs_accumulate:
  assumes "i < length ds"
  shows "character_configs fs gc ds ! i = fold (\<lambda>d cp. read_character_config fs cp d) (take (Suc i) ds) gc"
  by (rule character_configs_nth [OF assms])

theorem character_configs_accumulate_witness:
  "cp_lookup (character_configs
      [''game/a/config.ini'' \<mapsto> \<lparr>defaults = Map.empty, sects = [''CONFIG'' \<mapsto> [''avg_char_height'' \<mapsto> ''100'']]\<rparr>]
      empty_cfgparser [''game/a'', ''game/b''] ! 1) ''CONFIG'' ''avg_char_height'' = Some ''100''"
proof -
  let ?fs = "[''game/a/config.ini'' \<mapsto> \<lparr>defaults = Map.empty, sects = [''CONFIG'' \<mapsto> [''avg_char_height'' \<mapsto> ''100'']]\<rparr>]"
  have "character_configs ?fs empty_cfgparser [''game/a'', ''game/b''] ! 1 =
        fold (\<lambda>d cp. read_character_config ?fs cp d) (take (Suc 1) [''game/a'', ''game/b'']) empty_cfgparser"
    by (rule character_configs_accumulate) simp
  then show ?thesis
    by (simp add: read_character_config_def cp_read_def cp_lookup_def empty_cfgparser_def)
qed

text \<open>C25: without coercion, interpret_config is the layered lookup of the spec: a truthy command-line value, else the CONFIG section, else the DEFAULT section, else the default; a missing command-line key raises KeyError.\<close>

theorem interpret_config_layered:
  "interpret_config cp args q d None =
     (case args (''--'' @ q) of
        None \<Rightarrow> Inl (KeyError (''--'' @ q))
      | Some _ \<Rightarrow> Inr (case resolve [arg_layer args, section_layer cp ''CONFIG'', defaults_layer cp ''CONFIG''] q of
                          Some v \<Rightarrow> v | None \<Rightarrow> d))"
  by (auto simp: interpret_config_def resolve_def arg_layer_def section_layer_def defaults_layer_def
        cp_lookup_def Let_def split: option.splits)

text \<open>C26: when the flag is not given, any non-empty should_outline value in the configuration file, the string False included, switches outlining on, because bool() of a non-empty string is True.\<close>

theorem should_outline_config_string:
  assumes "args ''--should_outline'' = Some (PBool False)"
    and "cp_lookup cp ''CONFIG'' ''should_outline'' = Some s" and "s \<noteq> []"
  shows "interpret_config cp args ''should_outline'' (PBool False) (Some coerce_bool) = Inr (PBool True)"
  using assms by (simp add: interpret_config_def coerce_bool_def)

theorem should_outline_config_string_witness:
  "interpret_config \<lparr>defaults = Map.empty, sects = [''CONFIG'' \<mapsto> [''should_outline'' \<mapsto> ''False'']]\<rparr>
     [''--should_outline'' \<mapsto> PBool False] ''should_outline'' (PBool False) (Some coerce_bool)
   = Inr (PBool True)"
  by (rule should_outline_config_string [where s = "''False''"]) (simp_all add: cp_lookup_def)

end
