(* ===== verification/Pipeline.thy ===== *)
theory Pipeline
  imports Layout Stroke ColorKey Scale Enhance Config "HOL-Library.Sublist"
begin

text \<open>
  The frame pipeline of \<open>src/sprite2roa.py\<close>. \<open>process_frames\<close> reads four
  options through \<open>interpret_config\<close> and applies, in the code's order, colour
  keying (when a background colour is configured), the rescale by
  \<open>get_scale(avg_char_height)\<close> (a \<open>ValueError\<close> when the height is missing;
  \<open>get_scale\<close> is evaluated once per frame inside the list comprehension, so
  an empty frame list never divides), saturation (when the factor is not 1.0)
  and the outline (when \<open>should_outline\<close> is truthy), each as a map over the
  frame list. \<open>save_frames\<close> lays a non-empty list out as one sheet and writes it
  to \<open>path_N.png\<close>, creating the directory first; \<open>process_file_animation\<close>
  derives the output path from the input path and skips the animation when a
  file or directory with that prefix already exists; \<open>process_directory_animation\<close>
  has no such test and decodes the listed files with \<open>open_frames\<close>, skipping a file
  only on \<open>PermissionError\<close>. The output tree is the record \<open>outputs\<close>: the
  written files, newest first, and the directories created. The decoders are parameters
  that may raise: \<open>PIL.Image.open\<close> and the GIF reader (modelled in \<open>Gif\<close>).
  The lemmas show that \<open>process_frames\<close> is the map of the per-frame function
  \<open>frame_plan\<close> (\<open>process_frames_plan\<close>) and characterise the handlers' outputs.
\<close>

definition process_frames :: "image list \<Rightarrow> cfgparser \<Rightarrow> (string \<rightharpoonup> pyval) \<Rightarrow> py_error + image list" where
  "process_frames frames char_config args =
     py_bind (interpret_config char_config args ''background_color'' PNone None) (\<lambda>background_color_str.
     py_bind (if truthy background_color_str
              then (case background_color_str of
                      PStr s \<Rightarrow> py_bind (parse_background_color s) (\<lambda>background_color.
                                  Inr (map (\<lambda>frame. delete_background_color frame background_color) frames))
                    | _ \<Rightarrow> Inl TypeError)
              else Inr frames) (\<lambda>frames.
     py_bind (interpret_config char_config args ''avg_char_height'' PNone (Some coerce_int)) (\<lambda>avg_char_height.
     py_bind (case avg_char_height of
                PNone \<Rightarrow> Inl MissingAvgCharHeight
              | PInt h \<Rightarrow> Inr h
              | _ \<Rightarrow> Inl TypeError) (\<lambda>h.
     py_bind (py_map (\<lambda>frame. py_bind (get_scale h) (\<lambda>scale. Inr (resize frame scale))) frames) (\<lambda>frames.
     py_bind (interpret_config char_config args ''saturation'' (PFloat 1) (Some coerce_float)) (\<lambda>saturation.
     py_bind (case saturation of
                PFloat r \<Rightarrow> Inr (if r \<noteq> 1 then map (\<lambda>frame. saturate frame r) frames else frames)
              | _ \<Rightarrow> Inl TypeError) (\<lambda>frames.
     py_bind (interpret_config char_config args ''should_outline'' (PBool False) (Some coerce_bool)) (\<lambda>should_outline.
     Inr (if truthy should_outline then map (\<lambda>frame. stroke frame 250) frames else frames)))))))))"

record outputs =
  files :: "(string \<times> image) list"
  dirs :: "string list"

definition dirname :: "string \<Rightarrow> string" where
  "dirname p =
     (let head = rev (dropWhile (\<lambda>c. c \<noteq> CHR ''/'') (rev p))
      in if list_all (\<lambda>c. c = CHR ''/'') head then head else rev (dropWhile (\<lambda>c. c = CHR ''/'') (rev head)))"

definition save_frames :: "image list \<Rightarrow> string \<Rightarrow> outputs \<Rightarrow> py_error + outputs" where
  "save_frames frames path st =
     (if frames = [] then Inr st
      else py_bind (layout_sheet frames) (\<lambda>sheet.
           (let out_path = path @ ''_'' @ show_nat (length frames) @ ''.png'';
                directory = dirname out_path
            in if directory \<in> set (dirs st)
               then Inr (st\<lparr>files := (out_path, sheet) # files st\<rparr>)
               else if directory = [] then Inl (OSError directory)
               else Inr (st\<lparr>dirs := directory # dirs st, files := (out_path, sheet) # files st\<rparr>))))"

function py_replace :: "string \<Rightarrow> string \<Rightarrow> string \<Rightarrow> string" where
  "py_replace old new s =
     (if old = [] \<or> s = [] then s
      else if take (length old) s = old then new @ py_replace old new (drop (length old) s)
      else hd s # py_replace old new (tl s))"
  by pat_completeness auto
termination
  by (relation "measure (\<lambda>(old, new, s). length s)") auto

declare py_replace.simps [simp del]

definition glob_prefix :: "string \<Rightarrow> outputs \<Rightarrow> bool" where
  "glob_prefix out_path st \<longleftrightarrow>
     list_ex (\<lambda>p. take (length out_path) p = out_path \<and> CHR ''/'' \<notin> set (drop (length out_path) p))
       (map fst (files st) @ dirs st)"

text \<open>The output tree only grows: files are appended to the log and directories added.\<close>

definition grows :: "outputs \<Rightarrow> outputs \<Rightarrow> bool" where
  "grows a b \<longleftrightarrow> suffix (files a) (files b) \<and> set (dirs a) \<subseteq> set (dirs b)"

text \<open>\<open>process_file_animation\<close>: the decoders are parameters. \<open>open_image\<close> is
  \<open>PIL.Image.open(path).convert('RGBA')\<close> and may raise; \<open>read_gif_as_frames\<close> is the
  GIF reader of \<open>src/gif.py\<close>.\<close>

definition process_file_animation ::
  "(string \<Rightarrow> py_error + image) \<Rightarrow> (string \<Rightarrow> py_error + image list) \<Rightarrow> cfgparser \<Rightarrow> (string \<rightharpoonup> pyval)
   \<Rightarrow> string \<Rightarrow> outputs \<Rightarrow> py_error + outputs" where
  "process_file_animation open_image read_gif_as_frames char_config args file_path st =
     (let replaced = py_replace ''input'' ''output'' file_path;
          out_path = take (length replaced - 4) replaced
      in if glob_prefix out_path st then Inr st
         else py_bind (if drop (length file_path - 3) file_path = ''gif'' then read_gif_as_frames file_path
                       else py_bind (open_image file_path) (\<lambda>frame. Inr [frame])) (\<lambda>frames.
              py_bind (process_frames frames char_config args) (\<lambda>frames.
              save_frames frames out_path st)))"

text \<open>The frame loop of \<open>process_directory_animation\<close>: a \<open>PermissionError\<close> skips the
  file, any other exception of the decoder propagates.\<close>

fun open_frames :: "(string \<Rightarrow> py_error + image) \<Rightarrow> string list \<Rightarrow> py_error + image list" where
  "open_frames open_image [] = Inr []"
| "open_frames open_image (f # fs) =
     (case open_image f of
        Inl e \<Rightarrow> if e = PermissionError then open_frames open_image fs else Inl e
      | Inr frame \<Rightarrow> py_bind (open_frames open_image fs) (\<lambda>frames. Inr (frame # frames)))"

definition process_directory_animation ::
  "(string \<Rightarrow> py_error + image) \<Rightarrow> string list \<Rightarrow> cfgparser \<Rightarrow> (string \<rightharpoonup> pyval) \<Rightarrow> string \<Rightarrow> outputs
   \<Rightarrow> py_error + outputs" where
  "process_directory_animation open_image listing char_config args directory st =
     (let out_path = py_replace ''input'' ''output'' directory;
          files = filter (\<lambda>f. drop (length f - 3) f \<noteq> ''ini'') listing
      in if files = [] then Inr st
         else py_bind (open_frames open_image files) (\<lambda>frames.
              py_bind (process_frames frames char_config args) (\<lambda>frames.
              save_frames frames out_path st)))"

text \<open>Inputs of the examples below: command-line options asking for a rescale from an
  average height of 15 pixels and nothing else, and a one-pixel opaque red frame.\<close>

definition example_args :: "string \<rightharpoonup> pyval" where
  "example_args = [''--background_color'' \<mapsto> PNone, ''--avg_char_height'' \<mapsto> PStr ''15'',
                   ''--saturation'' \<mapsto> PNone, ''--should_outline'' \<mapsto> PBool False]"

definition example_red :: image where
  "example_red = tab_image 1 1 (\<lambda>_ _. (255, 0, 0, 255))"

text \<open>The per-frame transformation \<open>process_frames\<close> applies, once the options are read.\<close>

definition frame_plan :: "cfgparser \<Rightarrow> (string \<rightharpoonup> pyval) \<Rightarrow> bool \<Rightarrow> py_error + (image \<Rightarrow> image)" where
  "frame_plan char_config args nonempty =
     py_bind (interpret_config char_config args ''background_color'' PNone None) (\<lambda>background_color_str.
     py_bind (if truthy background_color_str
              then (case background_color_str of
                      PStr s \<Rightarrow> py_bind (parse_background_color s) (\<lambda>background_color.
                                  Inr (\<lambda>frame. delete_background_color frame background_color))
                    | _ \<Rightarrow> Inl TypeError)
              else Inr id) (\<lambda>key.
     py_bind (interpret_config char_config args ''avg_char_height'' PNone (Some coerce_int)) (\<lambda>avg_char_height.
     py_bind (case avg_char_height of
                PNone \<Rightarrow> Inl MissingAvgCharHeight
              | PInt h \<Rightarrow> Inr h
              | _ \<Rightarrow> Inl TypeError) (\<lambda>h.
     py_bind (if nonempty then get_scale h else Inr 1) (\<lambda>scale.
     py_bind (interpret_config char_config args ''saturation'' (PFloat 1) (Some coerce_float)) (\<lambda>saturation.
     py_bind (case saturation of
                PFloat r \<Rightarrow> Inr (if r \<noteq> 1 then (\<lambda>frame. saturate frame r) else id)
              | _ \<Rightarrow> Inl TypeError) (\<lambda>enhance.
     py_bind (interpret_config char_config args ''should_outline'' (PBool False) (Some coerce_bool)) (\<lambda>should_outline.
     Inr ((if truthy should_outline then (\<lambda>frame. stroke frame 250) else id)
          \<circ> enhance \<circ> (\<lambda>frame. resize frame scale) \<circ> key)))))))))"

subsection \<open>Lemmas\<close>

lemma py_bind_assoc: "py_bind (py_bind x f) g = py_bind x (\<lambda>a. py_bind (f a) g)"
  by (cases x) simp_all

lemma py_map_resize:
  "py_map (\<lambda>frame. py_bind (get_scale h) (\<lambda>scale. Inr (resize frame scale))) frames =
   py_bind (if frames \<noteq> [] then get_scale h else Inr 1) (\<lambda>scale. Inr (map (\<lambda>frame. resize frame scale) frames))"
proof (cases "get_scale h")
  case (Inl e)
  then show ?thesis by (cases frames) simp_all
next
  case (Inr scale)
  then show ?thesis by (simp add: py_map_Inr)
qed

lemma key_stage:
  "(if truthy b
    then (case b of
            PStr s \<Rightarrow> py_bind (parse_background_color s) (\<lambda>c. Inr (map (\<lambda>frame. delete_background_color frame c) frames))
          | _ \<Rightarrow> Inl TypeError)
    else Inr frames) =
   py_bind (if truthy b
            then (case b of
                    PStr s \<Rightarrow> py_bind (parse_background_color s) (\<lambda>c. Inr (\<lambda>frame. delete_background_color frame c))
                  | _ \<Rightarrow> Inl TypeError)
            else Inr id) (\<lambda>k. Inr (map k frames))"
  by (cases b) (simp_all add: py_bind_assoc)

lemma saturation_stage:
  "(case v of
      PFloat r \<Rightarrow> Inr (if r \<noteq> 1 then map (\<lambda>frame. saturate frame r) frames else frames)
    | _ \<Rightarrow> Inl TypeError) =
   py_bind (case v of
              PFloat r \<Rightarrow> Inr (if r \<noteq> 1 then (\<lambda>frame. saturate frame r) else id)
            | _ \<Rightarrow> Inl TypeError) (\<lambda>e. Inr (map e frames))"
  by (cases v) simp_all

lemma outline_stage:
  "(if c then map (\<lambda>frame. stroke frame 250) frames else frames) =
   map (if c then (\<lambda>frame. stroke frame 250) else id) frames"
  by simp

lemma process_frames_plan:
  "process_frames frames char_config args =
     py_bind (frame_plan char_config args (frames \<noteq> [])) (\<lambda>T. Inr (map T frames))"
  unfolding process_frames_def frame_plan_def py_map_resize key_stage saturation_stage outline_stage
  by (simp add: py_bind_assoc comp_def)

lemma show_nat_no_slash: "CHR ''/'' \<notin> set (show_nat n)"
  using show_nat_digits [of n] by (auto simp: list_all_iff is_ascii_digit_def)

lemma save_frames_Nil [simp]: "save_frames [] path st = Inr st"
  by (simp add: save_frames_def)

lemma save_frames_written:
  assumes "frames \<noteq> []" and "save_frames frames path st = Inr st'"
  shows "(path @ ''_'' @ show_nat (length frames) @ ''.png'') \<in> fst ` set (files st')"
  using assms by (auto simp: save_frames_def py_bind_Inr_iff Let_def split: if_splits)

lemma glob_prefix_written:
  assumes "(path @ ''_'' @ show_nat n @ ''.png'') \<in> fst ` set (files st)"
  shows "glob_prefix path st"
  using assms show_nat_no_slash [of n] by (force simp: glob_prefix_def list_ex_iff)

lemma process_frames_length:
  "process_frames frames char_config args = Inr out \<Longrightarrow> length out = length frames"
  by (auto simp: process_frames_plan py_bind_Inr_iff)

text \<open>C27: the pipeline keeps the frame sequence: it returns one frame per input frame,
  in the input order, and each output frame is what the pipeline makes of its input frame
  alone.\<close>

theorem process_frames_framewise:
  assumes "process_frames frames char_config args = Inr out"
  shows "length out = length frames \<and>
         (\<forall>i < length frames. process_frames [frames ! i] char_config args = Inr [out ! i])"
proof -
  from assms obtain T where T: "frame_plan char_config args (frames \<noteq> []) = Inr T" and o: "out = map T frames"
    by (auto simp: process_frames_plan py_bind_Inr_iff)
  show ?thesis
  proof (intro conjI allI impI)
    fix i assume i: "i < length frames"
    then have "frames \<noteq> []" by auto
    with T i o show "process_frames [frames ! i] char_config args = Inr [out ! i]"
      by (simp add: process_frames_plan)
  qed (simp add: o)
qed

lemma py_float_str_error: "py_float_str s \<noteq> Inl ZeroDivision"
  by (simp add: py_float_str_def Let_def split: prod.splits)

lemma interpret_config_not_zero:
  assumes "coerce \<in> {None, Some coerce_float, Some coerce_bool}"
  shows "interpret_config char_config args query d coerce \<noteq> Inl ZeroDivision"
  using assms py_float_str_error
  by (auto simp: interpret_config_def Let_def coerce_float_def coerce_bool_def
      split: option.splits pyval.splits sum.splits)

lemma process_file_animation_skip:
  "glob_prefix (take (length (py_replace ''input'' ''output'' p) - 4) (py_replace ''input'' ''output'' p)) st \<Longrightarrow>
   process_file_animation open_image read_gif_as_frames char_config args p st = Inr st"
  by (simp add: process_file_animation_def Let_def)

lemma glob_prefix_append:
  assumes "glob_prefix (a @ b) st" and "CHR ''/'' \<notin> set b"
  shows "glob_prefix a st"
proof -
  have key: "take (length a) q = a \<and> CHR ''/'' \<notin> set (drop (length a) q)"
    if "take (length a + length b) q = a @ b" and "CHR ''/'' \<notin> set (drop (length a + length b) q)" for q
  proof -
    have "q = (a @ b) @ drop (length a + length b) q" using that(1) by (metis append_take_drop_id length_append)
    then show ?thesis using that(2) assms(2) by (metis Un_iff append.assoc append_eq_conv_conj set_append)
  qed
  from assms(1) show ?thesis unfolding glob_prefix_def list_ex_iff by (auto dest: key)
qed

lemma process_file_animation_steps:
  assumes "process_file_animation open_image read_gif_as_frames char_config args p st = Inr st'"
    and "\<not> glob_prefix (take (length (py_replace ''input'' ''output'' p) - 4) (py_replace ''input'' ''output'' p)) st"
  obtains frames0 frames where
    "(if drop (length p - 3) p = ''gif'' then read_gif_as_frames p
      else py_bind (open_image p) (\<lambda>frame. Inr [frame])) = Inr frames0"
    and "process_frames frames0 char_config args = Inr frames"
    and "save_frames frames (take (length (py_replace ''input'' ''output'' p) - 4) (py_replace ''input'' ''output'' p)) st = Inr st'"
  using assms by (auto simp: process_file_animation_def Let_def py_bind_Inr_iff)

lemma process_file_animation_prefix:
  assumes "process_file_animation open_image read_gif_as_frames char_config args p st = Inr st'"
    and "drop (length p - 3) p \<noteq> ''gif''"
  shows "glob_prefix (take (length (py_replace ''input'' ''output'' p) - 4) (py_replace ''input'' ''output'' p)) st'"
proof (cases "glob_prefix (take (length (py_replace ''input'' ''output'' p) - 4) (py_replace ''input'' ''output'' p)) st")
  case True
  with assms(1) show ?thesis by (simp add: process_file_animation_skip)
next
  case False
  from assms(1) False obtain frames0 frames where
    rd: "(if drop (length p - 3) p = ''gif'' then read_gif_as_frames p
          else py_bind (open_image p) (\<lambda>frame. Inr [frame])) = Inr frames0" and
    pf: "process_frames frames0 char_config args = Inr frames" and
    sv: "save_frames frames (take (length (py_replace ''input'' ''output'' p) - 4) (py_replace ''input'' ''output'' p)) st = Inr st'"
    by (rule process_file_animation_steps)
  from rd assms(2) have "frames0 \<noteq> []" by (auto simp: py_bind_Inr_iff)
  with process_frames_length [OF pf] have "frames \<noteq> []" by auto
  from save_frames_written [OF this sv] show ?thesis by (rule glob_prefix_written)
qed

lemma open_frames_nonempty:
  "open_frames open_image fs = Inr frames \<Longrightarrow> f \<in> set fs \<Longrightarrow> open_image f = Inr frame \<Longrightarrow> frames \<noteq> []"
  by (induction fs arbitrary: frames) (auto simp: py_bind_Inr_iff split: sum.splits if_splits)

lemma save_frames_again:
  assumes "save_frames frames path st = Inr st'" and "frames \<noteq> []"
  shows "save_frames frames path st' = Inr (st'\<lparr>files := hd (files st') # files st'\<rparr>)"
proof -
  define out_path where "out_path = path @ ''_'' @ show_nat (length frames) @ ''.png''"
  obtain sheet where ls: "layout_sheet frames = Inr sheet"
    using assms by (cases "layout_sheet frames") (simp_all add: save_frames_def)
  have sv: "\<And>s. save_frames frames path s =
              (if dirname out_path \<in> set (dirs s) then Inr (s\<lparr>files := (out_path, sheet) # files s\<rparr>)
               else if dirname out_path = [] then Inl (OSError (dirname out_path))
               else Inr (s\<lparr>dirs := dirname out_path # dirs s, files := (out_path, sheet) # files s\<rparr>))"
    using ls assms(2) unfolding save_frames_def out_path_def Let_def by simp
  from assms(1) have "dirname out_path \<in> set (dirs st') \<and> hd (files st') = (out_path, sheet)"
    unfolding sv by (auto split: if_splits)
  then show ?thesis unfolding sv by simp
qed

lemma save_frames_files:
  assumes "save_frames frames path st = Inr st'" and "frames \<noteq> []"
  shows "\<exists>sheet. files st' = (path @ ''_'' @ show_nat (length frames) @ ''.png'', sheet) # files st"
  using assms by (auto simp: save_frames_def py_bind_Inr_iff Let_def split: if_splits)

lemma grows_refl [simp]: "grows a a"
  by (simp add: grows_def)

lemma grows_trans: "grows a b \<Longrightarrow> grows b c \<Longrightarrow> grows a c"
  by (auto simp: grows_def intro: suffix_order.trans)

lemma glob_prefix_grows: "glob_prefix p a \<Longrightarrow> grows a b \<Longrightarrow> glob_prefix p b"
  by (auto simp: glob_prefix_def grows_def list_ex_iff dest: set_mono_suffix)

lemma save_frames_grows:
  assumes "save_frames frames path st = Inr st'"
  shows "grows st st'"
proof (cases "frames = []")
  case True
  with assms show ?thesis by simp
next
  case False
  with assms obtain sheet where "layout_sheet frames = Inr sheet"
    by (cases "layout_sheet frames") (simp_all add: save_frames_def)
  with False assms show ?thesis
    by (auto simp: save_frames_def grows_def Let_def split: if_splits intro!: suffix_ConsI)
qed

lemma process_file_animation_grows:
  assumes "process_file_animation open_image read_gif_as_frames char_config args p st = Inr st'"
  shows "grows st st'"
proof (cases "glob_prefix (take (length (py_replace ''input'' ''output'' p) - 4) (py_replace ''input'' ''output'' p)) st")
  case True
  with assms show ?thesis by (simp add: process_file_animation_skip)
next
  case False
  with assms obtain frames0 frames where
    "save_frames frames (take (length (py_replace ''input'' ''output'' p) - 4) (py_replace ''input'' ''output'' p)) st = Inr st'"
    by (rule process_file_animation_steps)
  then show ?thesis by (rule save_frames_grows)
qed

lemma process_directory_animation_grows:
  assumes "process_directory_animation open_image listing char_config args d st = Inr st'"
  shows "grows st st'"
  using assms save_frames_grows
  by (auto simp: process_directory_animation_def Let_def py_bind_Inr_iff split: if_splits)

text \<open>A file animation that succeeded is a no-op on any output tree grown from the one it
  left.\<close>

lemma process_file_animation_noop:
  assumes run: "process_file_animation open_image read_gif_as_frames char_config args p st = Inr st'"
    and g: "grows st' t"
  shows "process_file_animation open_image read_gif_as_frames char_config args p t = Inr t"
proof -
  define out_path where "out_path = take (length (py_replace ''input'' ''output'' p) - 4) (py_replace ''input'' ''output'' p)"
  show ?thesis
  proof (cases "glob_prefix out_path t")
    case True
    then show ?thesis unfolding out_path_def by (rule process_file_animation_skip)
  next
    case ng_t: False
    have ng_st: "\<not> glob_prefix out_path st"
      using ng_t glob_prefix_grows [OF _ grows_trans [OF process_file_animation_grows [OF run] g]] by blast
    with run obtain frames0 frames where
      rd: "(if drop (length p - 3) p = ''gif'' then read_gif_as_frames p
            else py_bind (open_image p) (\<lambda>frame. Inr [frame])) = Inr frames0" and
      pf: "process_frames frames0 char_config args = Inr frames" and
      sv: "save_frames frames out_path st = Inr st'"
      unfolding out_path_def by (rule process_file_animation_steps)
    have "frames = []"
    proof (rule ccontr)
      assume "frames \<noteq> []"
      from save_frames_written [OF this sv] have "glob_prefix out_path st'" by (rule glob_prefix_written)
      with ng_t g show False by (auto dest: glob_prefix_grows)
    qed
    with ng_t rd pf show ?thesis
      unfolding out_path_def process_file_animation_def Let_def by simp
  qed
qed



text \<open>C30: \<open>save_frames\<close> on a non-empty sequence of \<open>N\<close> frames writes the sheet of the
  abstract layout \<open>sheet_spec\<close> to \<open>path_N.png\<close> and creates its directory when it is
  new; an empty sequence writes nothing.\<close>

theorem save_frames_sheet:
  assumes "frames \<noteq> []"
    and "dirname (path @ ''_'' @ show_nat (length frames) @ ''.png'') \<noteq> []"
  shows "save_frames frames path st =
           (let out_path = path @ ''_'' @ show_nat (length frames) @ ''.png'';
                directory = dirname out_path;
                fw = Max (set (map width frames)); fh = Max (set (map height frames))
            in Inr (st\<lparr>dirs := (if directory \<in> set (dirs st) then dirs st else directory # dirs st),
                       files := (out_path, tab_image (fw * length frames) fh (sheet_spec fw fh frames))
                                # files st\<rparr>))
         \<and> save_frames [] path st = Inr st"
  using assms by (simp add: save_frames_def layout_sheet_tab Let_def)

text \<open>Processing a file animation a second time, on the output tree the first run
  left, changes nothing: the run is idempotent, as the spec requires of incremental runs.\<close>

theorem process_file_animation_rerun:
  assumes "process_file_animation open_image read_gif_as_frames char_config args p st = Inr st'"
  shows "process_file_animation open_image read_gif_as_frames char_config args p st' = Inr st'"
  by (rule process_file_animation_noop [OF assms grows_refl])

text \<open>C32: the skip test \<open>glob(out_path + '*')\<close> also matches the outputs of other
  animations whose name extends this one's: once \<open>walk2.png\<close> has been written, the
  animation \<open>walk.png\<close> of the same character is skipped whatever its frames, and its
  sheet is never written.\<close>

theorem process_file_animation_prefix_skip:
  assumes "process_file_animation open_image read_gif_as_frames char_config args ''input/g/c/walk2.png'' st = Inr st'"
  shows "process_file_animation open_image read_gif_as_frames char_config args ''input/g/c/walk.png'' st' = Inr st'"
proof -
  have o2: "take (length (py_replace ''input'' ''output'' ''input/g/c/walk2.png'') - 4)
              (py_replace ''input'' ''output'' ''input/g/c/walk2.png'') = ''output/g/c/walk'' @ ''2''"
    by code_simp
  have o1: "take (length (py_replace ''input'' ''output'' ''input/g/c/walk.png'') - 4)
              (py_replace ''input'' ''output'' ''input/g/c/walk.png'') = ''output/g/c/walk''"
    by code_simp
  have "drop (length ''input/g/c/walk2.png'' - 3) ''input/g/c/walk2.png'' \<noteq> ''gif''" by simp
  from process_file_animation_prefix [OF assms this] have "glob_prefix (''output/g/c/walk'' @ ''2'') st'"
    by (simp only: o2)
  then have "glob_prefix ''output/g/c/walk'' st'" by (rule glob_prefix_append) simp
  then show ?thesis by (simp only: process_file_animation_skip o1)
qed

text \<open>C33: a directory animation has no skip test: processing it again on the output tree
  the first run left writes its sheet a second time, so re-runs of directory animations
  are not the no-op the spec requires.\<close>

theorem process_directory_animation_rewrites:
  assumes "process_directory_animation open_image listing char_config args directory st = Inr st'"
    and "f \<in> set listing" and "drop (length f - 3) f \<noteq> ''ini''" and "open_image f = Inr frame"
  shows "process_directory_animation open_image listing char_config args directory st' =
           Inr (st'\<lparr>files := hd (files st') # files st'\<rparr>)"
proof -
  have ne: "filter (\<lambda>f. drop (length f - 3) f \<noteq> ''ini'') listing \<noteq> []"
    using assms(2,3) by (auto simp: filter_empty_conv)
  with assms(1) obtain frames0 frames where
    op: "open_frames open_image (filter (\<lambda>f. drop (length f - 3) f \<noteq> ''ini'') listing) = Inr frames0" and
    pf: "process_frames frames0 char_config args = Inr frames" and
    sv: "save_frames frames (py_replace ''input'' ''output'' directory) st = Inr st'"
    by (auto simp: process_directory_animation_def Let_def py_bind_Inr_iff)
  from open_frames_nonempty [OF op _ assms(4)] assms(2,3) have "frames0 \<noteq> []" by simp
  with process_frames_length [OF pf] have "frames \<noteq> []" by auto
  from save_frames_again [OF sv this] op pf ne show ?thesis
    by (simp add: process_directory_animation_def Let_def)
qed

text \<open>C38: when a file animation writes, it writes one file, named after the input path
  with \<open>input\<close> replaced by \<open>output\<close> and the last four characters cut off
  (\<open>[:-4]\<close>), followed by \<open>_N.png\<close>. Only a three-letter extension is removed
  whole: \<open>walk.jpeg\<close> is written as \<open>walk._1.png\<close>.\<close>

theorem process_file_animation_out_path:
  assumes "process_file_animation open_image read_gif_as_frames char_config args p st = Inr st'"
    and "files st' \<noteq> files st"
  shows "\<exists>n sheet. files st' =
           (take (length (py_replace ''input'' ''output'' p) - 4) (py_replace ''input'' ''output'' p)
              @ ''_'' @ show_nat n @ ''.png'', sheet) # files st"
proof -
  from assms have "\<not> glob_prefix (take (length (py_replace ''input'' ''output'' p) - 4) (py_replace ''input'' ''output'' p)) st"
    by (auto simp: process_file_animation_skip)
  with assms(1) obtain frames0 frames where
    sv: "save_frames frames (take (length (py_replace ''input'' ''output'' p) - 4) (py_replace ''input'' ''output'' p)) st = Inr st'"
    by (rule process_file_animation_steps)
  with assms(2) have "frames \<noteq> []" by auto
  from save_frames_files [OF sv this] show ?thesis by blast
qed

theorem process_frames_framewise_witness:
  "process_frames [example_red, tab_image 1 1 (\<lambda>_ _. (0, 255, 0, 255))] empty_cfgparser example_args =
     Inr [tab_image 2 2 (\<lambda>_ _. (255, 0, 0, 255)), tab_image 2 2 (\<lambda>_ _. (0, 255, 0, 255))] \<and>
   process_frames [tab_image 1 1 (\<lambda>_ _. (0, 255, 0, 255))] empty_cfgparser example_args =
     Inr [tab_image 2 2 (\<lambda>_ _. (0, 255, 0, 255))]"
proof -
  have h: "process_frames [example_red, tab_image 1 1 (\<lambda>_ _. (0, 255, 0, 255))] empty_cfgparser example_args =
     Inr [tab_image 2 2 (\<lambda>_ _. (255, 0, 0, 255)), tab_image 2 2 (\<lambda>_ _. (0, 255, 0, 255))]"
    by code_simp
  from process_frames_framewise [OF h] h show ?thesis by (auto dest: spec [of _ 1])
qed



theorem save_frames_sheet_witness:
  "save_frames example_frames ''output/g/c/walk'' \<lparr>files = [], dirs = []\<rparr> =
     Inr \<lparr>files = [(''output/g/c/walk_3.png'', tab_image 36 22 (sheet_spec 12 22 example_frames))],
          dirs = [''output/g/c'']\<rparr>"
proof -
  have n: "length example_frames = 3" "example_frames \<noteq> []" by (simp_all add: example_frames_def)
  have s: "show_nat 3 = ''3''" by code_simp
  have d: "dirname (''output/g/c/walk'' @ ''_'' @ show_nat 3 @ ''.png'') = ''output/g/c''"
    by code_simp
  show ?thesis
    using save_frames_sheet [of example_frames "''output/g/c/walk''" "\<lparr>files = [], dirs = []\<rparr>"] n d
    by (simp add: example_frames_Max [simplified] s)
qed

theorem process_file_animation_rerun_witness:
  "process_file_animation (\<lambda>_. Inr example_red) (\<lambda>_. Inr []) empty_cfgparser example_args ''input/g/c/walk.png''
     \<lparr>files = [], dirs = []\<rparr> = Inr \<lparr>files = [(''output/g/c/walk_1.png'', tab_image 2 2 (\<lambda>_ _. (255, 0, 0, 255)))], dirs = [''output/g/c'']\<rparr> \<and>
   process_file_animation (\<lambda>_. Inr example_red) (\<lambda>_. Inr []) empty_cfgparser example_args ''input/g/c/walk.png''
     \<lparr>files = [(''output/g/c/walk_1.png'', tab_image 2 2 (\<lambda>_ _. (255, 0, 0, 255)))], dirs = [''output/g/c'']\<rparr> =
     Inr \<lparr>files = [(''output/g/c/walk_1.png'', tab_image 2 2 (\<lambda>_ _. (255, 0, 0, 255)))], dirs = [''output/g/c'']\<rparr>"
proof -
  have h: "process_file_animation (\<lambda>_. Inr example_red) (\<lambda>_. Inr []) empty_cfgparser example_args ''input/g/c/walk.png''
     \<lparr>files = [], dirs = []\<rparr> = Inr \<lparr>files = [(''output/g/c/walk_1.png'', tab_image 2 2 (\<lambda>_ _. (255, 0, 0, 255)))], dirs = [''output/g/c'']\<rparr>"
    by code_simp
  from h process_file_animation_rerun [OF h] show ?thesis by simp
qed

theorem process_file_animation_prefix_skip_witness:
  "process_file_animation (\<lambda>_. Inr example_red) (\<lambda>_. Inr []) empty_cfgparser example_args ''input/g/c/walk2.png''
     \<lparr>files = [], dirs = []\<rparr> = Inr \<lparr>files = [(''output/g/c/walk2_1.png'', tab_image 2 2 (\<lambda>_ _. (255, 0, 0, 255)))], dirs = [''output/g/c'']\<rparr> \<and>
   process_file_animation (\<lambda>_. Inr example_red) (\<lambda>_. Inr []) empty_cfgparser example_args ''input/g/c/walk.png''
     \<lparr>files = [(''output/g/c/walk2_1.png'', tab_image 2 2 (\<lambda>_ _. (255, 0, 0, 255)))], dirs = [''output/g/c'']\<rparr> =
     Inr \<lparr>files = [(''output/g/c/walk2_1.png'', tab_image 2 2 (\<lambda>_ _. (255, 0, 0, 255)))], dirs = [''output/g/c'']\<rparr>"
proof -
  have h: "process_file_animation (\<lambda>_. Inr example_red) (\<lambda>_. Inr []) empty_cfgparser example_args ''input/g/c/walk2.png''
     \<lparr>files = [], dirs = []\<rparr> = Inr \<lparr>files = [(''output/g/c/walk2_1.png'', tab_image 2 2 (\<lambda>_ _. (255, 0, 0, 255)))], dirs = [''output/g/c'']\<rparr>"
    by code_simp
  from h process_file_animation_prefix_skip [OF h] show ?thesis by simp
qed

theorem process_directory_animation_rewrites_witness:
  "process_directory_animation (\<lambda>_. Inr example_red) [''input/g/c/walk/0.png''] empty_cfgparser example_args
     ''input/g/c/walk/'' \<lparr>files = [], dirs = []\<rparr> =
     Inr \<lparr>files = [(''output/g/c/walk/_1.png'', tab_image 2 2 (\<lambda>_ _. (255, 0, 0, 255)))], dirs = [''output/g/c/walk'']\<rparr> \<and>
   process_directory_animation (\<lambda>_. Inr example_red) [''input/g/c/walk/0.png''] empty_cfgparser example_args
     ''input/g/c/walk/'' \<lparr>files = [(''output/g/c/walk/_1.png'', tab_image 2 2 (\<lambda>_ _. (255, 0, 0, 255)))], dirs = [''output/g/c/walk'']\<rparr> =
     Inr \<lparr>files = [(''output/g/c/walk/_1.png'', tab_image 2 2 (\<lambda>_ _. (255, 0, 0, 255))), (''output/g/c/walk/_1.png'', tab_image 2 2 (\<lambda>_ _. (255, 0, 0, 255)))],
          dirs = [''output/g/c/walk'']\<rparr>"
proof -
  have h: "process_directory_animation (\<lambda>_. Inr example_red) [''input/g/c/walk/0.png''] empty_cfgparser example_args
     ''input/g/c/walk/'' \<lparr>files = [], dirs = []\<rparr> =
     Inr \<lparr>files = [(''output/g/c/walk/_1.png'', tab_image 2 2 (\<lambda>_ _. (255, 0, 0, 255)))], dirs = [''output/g/c/walk'']\<rparr>"
    by code_simp
  from h process_directory_animation_rewrites [OF h, of "''input/g/c/walk/0.png''" example_red] show ?thesis
    by simp
qed

theorem process_file_animation_out_path_witness:
  "process_file_animation (\<lambda>_. Inr example_red) (\<lambda>_. Inr []) empty_cfgparser example_args ''input/g/c/walk.jpeg''
     \<lparr>files = [], dirs = []\<rparr> = Inr \<lparr>files = [(''output/g/c/walk._1.png'', tab_image 2 2 (\<lambda>_ _. (255, 0, 0, 255)))], dirs = [''output/g/c'']\<rparr> \<and>
   (\<exists>n sheet. [(''output/g/c/walk._1.png'', tab_image 2 2 (\<lambda>_ _. (255, 0, 0, 255)))] = (''output/g/c/walk.'' @ ''_'' @ show_nat n @ ''.png'', sheet) # [])"
proof -
  have h: "process_file_animation (\<lambda>_. Inr example_red) (\<lambda>_. Inr []) empty_cfgparser example_args ''input/g/c/walk.jpeg''
     \<lparr>files = [], dirs = []\<rparr> = Inr \<lparr>files = [(''output/g/c/walk._1.png'', tab_image 2 2 (\<lambda>_ _. (255, 0, 0, 255)))], dirs = [''output/g/c'']\<rparr>"
    by code_simp
  have o: "take (length (py_replace ''input'' ''output'' ''input/g/c/walk.jpeg'') - 4)
             (py_replace ''input'' ''output'' ''input/g/c/walk.jpeg'') = ''output/g/c/walk.''"
    by code_simp
  from h process_file_animation_out_path [OF h] show ?thesis by (simp only: o) simp
qed

end
