(* ===== verification/Gif.thy ===== *)
theory Gif
  imports Pipeline
begin

text \<open>
  The GIF reader of \<open>src/gif.py\<close>, with its effects on the input tree.
  \<^item> \<open>get_dir_name_for_gif\<close> is \<open>os.path.splitext(path)[0]\<close>, written as CPython's
    \<open>posixpath._splitext\<close>: the extension starts at the last dot after the last slash,
    unless everything between that slash and the dot is dots (a hidden file has no
    extension).
  \<^item> The input tree is the record \<open>intree\<close>: the paths that exist, in the order the file
    system lists them. \<open>os.path.exists\<close>, \<open>os.mkdir\<close> (\<open>FileExistsError\<close>, and
    \<open>FileNotFoundError\<close> for a missing parent) and \<open>glob.iglob(d + '/*')\<close> (the
    non-hidden entries directly inside \<open>d\<close>) are modelled from their documentation.
  \<^item> \<open>make_animation_dir_for_gif\<close> and \<open>read_gif_as_frames\<close> follow the source. The
    ImageMagick call is a parameter \<open>convert\<close>: the paths it writes, or the exception
    \<open>subprocess.run\<close> raises (\<open>FileNotFoundError\<close> when the executable is missing;
    a failing conversion is not an exception, its exit status is ignored). An exception
    leaves the directories already made in place, so the reader returns the input tree
    with its result.
  \<^item> \<open>read_extracted_frames\<close> is the frame loop alone (lines 29--35) over a given listing
    of the extraction directory; the orchestration of \<open>Run\<close> reads GIFs through it.
\<close>

definition py_rfind :: "char \<Rightarrow> string \<Rightarrow> int" where
  "py_rfind c s = (if c \<in> set s then int (length s - 1 - length (takeWhile (\<lambda>x. x \<noteq> c) (rev s))) else -1)"

definition splitext_root :: "string \<Rightarrow> string" where
  "splitext_root p =
     (let sep_index = py_rfind CHR ''/'' p;
          dot_index = py_rfind CHR ''.'' p
      in if sep_index < dot_index
            \<and> (\<exists>i \<in> {nat (sep_index + 1)..<nat dot_index}. p ! i \<noteq> CHR ''.'')
         then take (nat dot_index) p else p)"

definition get_dir_name_for_gif :: "string \<Rightarrow> string" where
  "get_dir_name_for_gif path = splitext_root path"

definition read_extracted_frames ::
  "(string \<Rightarrow> py_error + image) \<Rightarrow> (string \<Rightarrow> string list) \<Rightarrow> string \<Rightarrow> py_error + image list" where
  "read_extracted_frames open_image glob path =
     (let directory = get_dir_name_for_gif path
      in py_map open_image (glob (directory @ ''/*'')))"

record intree =
  entries :: "string list"

definition path_exists :: "intree \<Rightarrow> string \<Rightarrow> bool" where
  "path_exists t p \<longleftrightarrow> p \<in> set (entries t)"

definition glob_children :: "intree \<Rightarrow> string \<Rightarrow> string list" where
  "glob_children t d =
     filter (\<lambda>e. let name = drop (length d + 1) e
                in take (length d + 1) e = d @ ''/'' \<and> name \<noteq> [] \<and> CHR ''/'' \<notin> set name
                   \<and> hd name \<noteq> CHR ''.'') (entries t)"

definition os_mkdir :: "string \<Rightarrow> intree \<Rightarrow> py_error + intree" where
  "os_mkdir path t =
     (if path_exists t path then Inl (OSError ''FileExistsError'')
      else if dirname path \<noteq> [] \<and> \<not> path_exists t (dirname path) then Inl (OSError ''FileNotFoundError'')
      else Inr (t\<lparr>entries := entries t @ [path]\<rparr>))"

definition make_animation_dir_for_gif :: "string \<Rightarrow> intree \<Rightarrow> py_error + string \<times> intree" where
  "make_animation_dir_for_gif path t =
     (let directory = get_dir_name_for_gif path
      in py_bind (os_mkdir directory t) (\<lambda>t'. Inr (directory, t')))"

definition read_gif_as_frames ::
  "(string \<Rightarrow> string \<Rightarrow> py_error + string list) \<Rightarrow> (string \<Rightarrow> py_error + image) \<Rightarrow> string \<Rightarrow> intree
   \<Rightarrow> (py_error + image list) \<times> intree" where
  "read_gif_as_frames convert open_image path t =
     (let directory = get_dir_name_for_gif path
      in if \<not> path_exists t directory
         then (case make_animation_dir_for_gif path t of
                 Inl e \<Rightarrow> (Inl e, t)
               | Inr (directory, t1) \<Rightarrow>
                   (case convert path directory of
                      Inl e \<Rightarrow> (Inl e, t1)
                    | Inr written \<Rightarrow>
                        (let t2 = t1\<lparr>entries := entries t1 @ written\<rparr>
                         in (py_map open_image (glob_children t2 directory), t2))))
         else (py_map open_image (glob_children t directory), t))"

text \<open>An input tree for the examples: one character directory holding \<open>walk.gif\<close>.\<close>

definition example_intree :: intree where
  "example_intree = \<lparr>entries = [''input'', ''input/g'', ''input/g/c'', ''input/g/c/walk.gif'']\<rparr>"

subsection \<open>Lemmas\<close>

lemma read_extracted_frames_order:
  assumes "read_extracted_frames open_image glob path = Inr frames"
  shows "length frames = length (glob (get_dir_name_for_gif path @ ''/*'')) \<and>
         (\<forall>i < length frames. open_image (glob (get_dir_name_for_gif path @ ''/*'') ! i) = Inr (frames ! i))"
  using assms py_map_length py_map_nth by (fastforce simp: read_extracted_frames_def Let_def)

lemma glob_children_snoc_self:
  "glob_children (t\<lparr>entries := entries t @ [d]\<rparr>) d = glob_children t d"
  by (simp add: glob_children_def Let_def)

lemma os_mkdir_Inr: "os_mkdir d t = Inr t1 \<Longrightarrow> t1 = t\<lparr>entries := entries t @ [d]\<rparr> \<and> path_exists t1 d"
  by (auto simp: os_mkdir_def path_exists_def split: if_splits)

text \<open>Once the extraction directory exists, the reader neither converts nor changes the input
  tree: it is the frame loop \<open>read_extracted_frames\<close> over any listing that agrees with the
  tree on that directory. This is the reader \<open>Run\<close> uses.\<close>

lemma read_gif_as_frames_extracted:
  assumes "path_exists t (get_dir_name_for_gif path)"
    and "glob (get_dir_name_for_gif path @ ''/*'') = glob_children t (get_dir_name_for_gif path)"
  shows "read_gif_as_frames convert open_image path t = (read_extracted_frames open_image glob path, t)"
  using assms by (simp add: read_gif_as_frames_def read_extracted_frames_def Let_def)

text \<open>C5: when the conversion raises (the executable is invoked by a fixed Windows path),
  \<open>read_gif_as_frames\<close> has already made the extraction directory. The exception
  propagates, and from then on every call finds the directory, skips the conversion and
  returns no frames, whatever the converter would do: the GIF is never converted again.\<close>

theorem read_gif_conversion_failure:
  assumes "\<not> path_exists t (get_dir_name_for_gif path)"
    and "os_mkdir (get_dir_name_for_gif path) t = Inr t1"
    and "glob_children t (get_dir_name_for_gif path) = []"
    and "convert path (get_dir_name_for_gif path) = Inl e"
  shows "read_gif_as_frames convert open_image path t = (Inl e, t1) \<and>
         (\<forall>convert'. read_gif_as_frames convert' open_image path t1 = (Inr [], t1))"
proof -
  have t1: "t1 = t\<lparr>entries := entries t @ [get_dir_name_for_gif path]\<rparr>"
    using os_mkdir_Inr [OF assms(2)] by (rule conjunct1)
  have ex: "path_exists t1 (get_dir_name_for_gif path)"
    using os_mkdir_Inr [OF assms(2)] by (rule conjunct2)
  have "glob_children t1 (get_dir_name_for_gif path) = []"
    using assms(3) by (simp add: t1 glob_children_snoc_self)
  with assms ex show ?thesis
    by (simp add: read_gif_as_frames_def make_animation_dir_for_gif_def Let_def)
qed

theorem read_gif_conversion_failure_witness:
  "read_gif_as_frames (\<lambda>_ _. Inl (OSError ''FileNotFoundError'')) (\<lambda>_. Inr example_red) ''input/g/c/walk.gif''
     example_intree =
   (Inl (OSError ''FileNotFoundError''), example_intree\<lparr>entries := entries example_intree @ [''input/g/c/walk'']\<rparr>) \<and>
   read_gif_as_frames (\<lambda>_ d. Inr [d @ ''/img-0.png'']) (\<lambda>_. Inr example_red) ''input/g/c/walk.gif''
     (example_intree\<lparr>entries := entries example_intree @ [''input/g/c/walk'']\<rparr>) =
   (Inr [], example_intree\<lparr>entries := entries example_intree @ [''input/g/c/walk'']\<rparr>)"
proof -
  have d: "get_dir_name_for_gif ''input/g/c/walk.gif'' = ''input/g/c/walk''" by code_simp
  have h1: "\<not> path_exists example_intree ''input/g/c/walk''"
    and h2: "os_mkdir ''input/g/c/walk'' example_intree =
               Inr (example_intree\<lparr>entries := entries example_intree @ [''input/g/c/walk'']\<rparr>)"
    and h3: "glob_children example_intree ''input/g/c/walk'' = []"
    by code_simp+
  from read_gif_conversion_failure [where convert = "\<lambda>_ _. Inl (OSError ''FileNotFoundError'')",
      OF h1 [folded d] h2 [folded d] h3 [folded d]]
  show ?thesis by (simp add: d)
qed

end
