(* ===== verification/Run.thy ===== *)
theory Run
  imports Pipeline Gif "HOL-Library.Sublist"
begin

text \<open>
  The orchestration of \<open>src/sprite2roa.py\<close>: the main block, \<open>process_game\<close>,
  \<open>process_character\<close> and the two animation loops, over a view of the input tree
  (\<open>fsview\<close>: the configuration files, the answers of \<open>glob.glob\<close> for the
  patterns the code uses, and the decoders). None of these functions catches an exception:
  the first one raised ends the run. A loop therefore returns the output tree as it stands
  when it stops, with the exception that stopped it, if any (\<open>run_result\<close>); the files
  written before the exception stay written. The \<open>ConfigParser\<close> of a game is one
  object shared by all its characters: \<open>process_character\<close> returns it, changed by
  \<open>read_character_config\<close>, and \<open>process_game\<close> passes it to the next character.
  A GIF is read by \<open>read_extracted_frames\<close> over the view's listing of its extraction
  directory. By \<open>read_gif_as_frames_extracted\<close> this is \<open>gif.read_gif_as_frames\<close> on an
  input tree where that directory exists, which the view lists; the first conversion and
  its effect on the tree are the subject of \<open>Gif\<close>.
\<close>

record fsview =
  ini :: ini_files
  glob :: "string \<Rightarrow> string list"
  open_image :: "string \<Rightarrow> py_error + image"

type_synonym run_result = "outputs \<times> py_error option"

definition not_ini :: "string \<Rightarrow> bool" where
  "not_ini d \<longleftrightarrow> drop (length d - 3) d \<noteq> ''ini''"

definition get_game_directories :: "fsview \<Rightarrow> string list" where
  "get_game_directories fs = glob fs ''input/*''"

definition get_file_animations_file_paths :: "fsview \<Rightarrow> string \<Rightarrow> string list" where
  "get_file_animations_file_paths fs char_directory = filter not_ini (glob fs (char_directory @ ''/**.*''))"

definition get_directory_animation_directories :: "fsview \<Rightarrow> string \<Rightarrow> string list" where
  "get_directory_animation_directories fs char_directory = filter not_ini (glob fs (char_directory @ ''/**/''))"

fun process_file_animations ::
  "fsview \<Rightarrow> cfgparser \<Rightarrow> (string \<rightharpoonup> pyval) \<Rightarrow> string list \<Rightarrow> outputs \<Rightarrow> run_result" where
  "process_file_animations fs char_config args [] st = (st, None)"
| "process_file_animations fs char_config args (file_path # paths) st =
     (case process_file_animation (open_image fs) (read_extracted_frames (open_image fs) (glob fs)) char_config args file_path st of
        Inl e \<Rightarrow> (st, Some e)
      | Inr st' \<Rightarrow> process_file_animations fs char_config args paths st')"

fun process_directory_animations ::
  "fsview \<Rightarrow> cfgparser \<Rightarrow> (string \<rightharpoonup> pyval) \<Rightarrow> string list \<Rightarrow> outputs \<Rightarrow> run_result" where
  "process_directory_animations fs char_config args [] st = (st, None)"
| "process_directory_animations fs char_config args (directory # directories) st =
     (case process_directory_animation (open_image fs) (glob fs (directory @ ''/*.*'')) char_config args directory st of
        Inl e \<Rightarrow> (st, Some e)
      | Inr st' \<Rightarrow> process_directory_animations fs char_config args directories st')"

definition process_character ::
  "fsview \<Rightarrow> cfgparser \<Rightarrow> (string \<rightharpoonup> pyval) \<Rightarrow> string \<Rightarrow> outputs \<Rightarrow> cfgparser \<times> run_result" where
  "process_character fs game_config args char_directory st =
     (let char_config = read_character_config (ini fs) game_config char_directory
      in (char_config,
          case interpret_config char_config args ''one_frame_per_file'' (PBool False) None of
            Inl e \<Rightarrow> (st, Some e)
          | Inr one_page_per_file \<Rightarrow>
              if truthy one_page_per_file
              then process_directory_animations fs char_config args
                     (get_directory_animation_directories fs char_directory) st
              else process_file_animations fs char_config args
                     (get_file_animations_file_paths fs char_directory) st))"

fun process_characters ::
  "fsview \<Rightarrow> cfgparser \<Rightarrow> (string \<rightharpoonup> pyval) \<Rightarrow> string list \<Rightarrow> outputs \<Rightarrow> run_result" where
  "process_characters fs game_config args [] st = (st, None)"
| "process_characters fs game_config args (char_directory # char_directories) st =
     (case process_character fs game_config args char_directory st of
        (config, st', Some e) \<Rightarrow> (st', Some e)
      | (config, st', None) \<Rightarrow> process_characters fs config args char_directories st')"

text \<open>\<open>docopt\<close> gives the positional arguments as strings or \<open>None\<close>.\<close>

definition process_game ::
  "fsview \<Rightarrow> string option \<Rightarrow> (string \<rightharpoonup> pyval) \<Rightarrow> string \<Rightarrow> outputs \<Rightarrow> run_result" where
  "process_game fs char_name args game_directory st =
     (let game_config = read_game_config (ini fs) game_directory;
          char_directories = (case char_name of
                                Some c \<Rightarrow> if c \<noteq> [] then [game_directory @ ''/'' @ c]
                                          else filter not_ini (glob fs (game_directory @ ''/*''))
                              | None \<Rightarrow> filter not_ini (glob fs (game_directory @ ''/*'')))
      in process_characters fs game_config args char_directories st)"

fun process_games ::
  "fsview \<Rightarrow> string option \<Rightarrow> (string \<rightharpoonup> pyval) \<Rightarrow> string list \<Rightarrow> outputs \<Rightarrow> run_result" where
  "process_games fs char_name args [] st = (st, None)"
| "process_games fs char_name args (game_directory # game_directories) st =
     (case process_game fs char_name args game_directory st of
        (st', Some e) \<Rightarrow> (st', Some e)
      | (st', None) \<Rightarrow> process_games fs char_name args game_directories st')"

definition main :: "fsview \<Rightarrow> string option \<Rightarrow> string option \<Rightarrow> (string \<rightharpoonup> pyval) \<Rightarrow> outputs \<Rightarrow> run_result" where
  "main fs game_name char_name args st =
     (let game_directories = (case game_name of
                                Some g \<Rightarrow> if g \<noteq> [] then [''input/'' @ g] else get_game_directories fs
                              | None \<Rightarrow> get_game_directories fs)
      in process_games fs char_name args game_directories st)"

text \<open>An input tree for the examples: game \<open>g\<close> sets \<open>avg_char_height = 15\<close>;
  characters \<open>a\<close>, \<open>b\<close> and \<open>c\<close> have one animation \<open>walk.png\<close> each (a one-pixel red
  frame); \<open>b\<close> configures the malformed background colour \<open>1 2\<close> and \<open>c\<close> the
  colour \<open>0 0 0\<close>.\<close>

definition config_section :: "(string \<times> string) list \<Rightarrow> cfgparser" where
  "config_section kvs = \<lparr>defaults = Map.empty, sects = [''CONFIG'' \<mapsto> map_of kvs]\<rparr>"

definition example_fs :: fsview where
  "example_fs =
     \<lparr>ini = [''input/g/config.ini'' \<mapsto> config_section [(''avg_char_height'', ''15'')],
             ''input/g/b/config.ini'' \<mapsto> config_section [(''background_color'', ''1 2'')],
             ''input/g/c/config.ini'' \<mapsto> config_section [(''background_color'', ''0 0 0'')]],
      glob = (\<lambda>pattern. if pattern = ''input/*'' then [''input/g'']
                       else if pattern = ''input/g/*'' then [''input/g/a'', ''input/g/b'', ''input/g/c'', ''input/g/config.ini'']
                       else if pattern = ''input/g/a/**.*'' then [''input/g/a/walk.png'']
                       else if pattern = ''input/g/b/**.*'' then [''input/g/b/walk.png'', ''input/g/b/config.ini'']
                       else if pattern = ''input/g/c/**.*'' then [''input/g/c/walk.png'', ''input/g/c/config.ini'']
                       else []),
      open_image = (\<lambda>_. Inr example_red)\<rparr>"

definition example_fs_ac :: fsview where
  "example_fs_ac = example_fs\<lparr>glob := (\<lambda>pattern. if pattern = ''input/g/*''
                                           then [''input/g/a'', ''input/g/c'', ''input/g/config.ini'']
                                           else glob example_fs pattern)\<rparr>"

definition example_run_args :: "string \<rightharpoonup> pyval" where
  "example_run_args = [''--one_frame_per_file'' \<mapsto> PBool False, ''--background_color'' \<mapsto> PNone,
                       ''--avg_char_height'' \<mapsto> PNone, ''--saturation'' \<mapsto> PNone,
                       ''--should_outline'' \<mapsto> PBool False]"

text \<open>A configuration that does not set an option: neither its \<open>DEFAULT\<close> section nor its
  \<open>CONFIG\<close> section has it.\<close>

definition no_option :: "string \<Rightarrow> cfgparser \<Rightarrow> bool" where
  "no_option q cp \<longleftrightarrow>
     defaults cp q = None \<and> (case sects cp ''CONFIG'' of None \<Rightarrow> True | Some m \<Rightarrow> m q = None)"

subsection \<open>Lemmas\<close>

lemma process_file_animations_append:
  "process_file_animations fs char_config args (ps @ qs) st =
     (case process_file_animations fs char_config args ps st of
        (st1, None) \<Rightarrow> process_file_animations fs char_config args qs st1
      | (st1, Some e) \<Rightarrow> (st1, Some e))"
  by (induction ps arbitrary: st) (simp_all split: sum.split)

lemma process_file_animations_grows:
  "process_file_animations fs char_config args ps st = (st', r) \<Longrightarrow> grows st st'"
proof (induction ps arbitrary: st)
  case (Cons p ps)
  then show ?case
    by (auto split: sum.splits dest: process_file_animation_grows intro: grows_trans)
qed simp

lemma process_directory_animations_grows:
  "process_directory_animations fs char_config args ds st = (st', r) \<Longrightarrow> grows st st'"
proof (induction ds arbitrary: st)
  case (Cons d ds)
  then show ?case
    by (auto split: sum.splits dest: process_directory_animation_grows intro: grows_trans)
qed simp

lemma fst_process_character:
  "fst (process_character fs game_config args d st) = read_character_config (ini fs) game_config d"
  by (simp add: process_character_def Let_def)

lemma process_character_grows:
  "process_character fs game_config args d st = (config, st', r) \<Longrightarrow> grows st st'"
  by (auto simp: process_character_def Let_def split: sum.splits if_splits
      dest: process_file_animations_grows process_directory_animations_grows)

lemma process_characters_grows:
  "process_characters fs game_config args ds st = (st', r) \<Longrightarrow> grows st st'"
proof (induction ds arbitrary: game_config st)
  case (Cons d ds)
  then show ?case
    by (auto split: prod.splits option.splits dest: process_character_grows intro: grows_trans)
qed simp

lemma process_games_grows:
  "process_games fs char_name args gs st = (st', r) \<Longrightarrow> grows st st'"
proof (induction gs arbitrary: st)
  case (Cons g gs)
  then show ?case
    by (auto simp: process_game_def Let_def split: prod.splits option.splits
        dest: process_characters_grows intro: grows_trans)
qed simp

lemma main_grows: "main fs game_name char_name args st = (st', r) \<Longrightarrow> grows st st'"
  by (auto simp: main_def Let_def dest: process_games_grows)

lemma no_option_cp_read:
  assumes "no_option q cp" and "\<forall>path f. fs path = Some f \<longrightarrow> no_option q f"
  shows "no_option q (cp_read cp fs path)"
  using assms by (auto simp: no_option_def cp_read_def split: option.splits)

lemma no_option_lookup: "no_option q cp \<Longrightarrow> cp_lookup cp ''CONFIG'' q = None"
  by (auto simp: no_option_def cp_lookup_def split: option.splits)

lemma no_option_empty [simp]: "no_option q empty_cfgparser"
  by (simp add: no_option_def empty_cfgparser_def)

lemma process_file_animations_noop:
  "process_file_animations fs char_config args ps st = (st', None) \<Longrightarrow> grows st' t \<Longrightarrow>
   process_file_animations fs char_config args ps t = (t, None)"
proof (induction ps arbitrary: st)
  case (Cons p ps)
  then obtain s1 where p: "process_file_animation (open_image fs) (read_extracted_frames (open_image fs) (glob fs))
                             char_config args p st = Inr s1"
    and rest: "process_file_animations fs char_config args ps s1 = (st', None)"
    by (auto split: sum.splits)
  from process_file_animations_grows [OF rest] Cons.prems(2) have "grows s1 t" by (rule grows_trans)
  with process_file_animation_noop [OF p] Cons.IH [OF rest Cons.prems(2)] show ?case by simp
qed simp

text \<open>With the flag off and no configuration file setting it, a character is processed in
  file mode, and a character that finished is a no-op on any output tree grown from the one
  it left.\<close>

lemma process_character_noop:
  assumes "args ''--one_frame_per_file'' = Some v" and "\<not> truthy v"
    and "no_option ''one_frame_per_file'' (read_character_config (ini fs) game_config d)"
    and "process_character fs game_config args d st = (config, st', None)" and "grows st' t"
  shows "process_character fs game_config args d t = (config, t, None)"
  using assms no_option_lookup [OF assms(3)] process_file_animations_noop
  by (auto simp: process_character_def interpret_config_def Let_def)

lemma process_characters_noop:
  assumes "args ''--one_frame_per_file'' = Some v" and "\<not> truthy v"
    and "\<forall>path f. ini fs path = Some f \<longrightarrow> no_option ''one_frame_per_file'' f"
  shows "no_option ''one_frame_per_file'' game_config \<Longrightarrow>
         process_characters fs game_config args ds st = (st', None) \<Longrightarrow> grows st' t \<Longrightarrow>
         process_characters fs game_config args ds t = (t, None)"
proof (induction ds arbitrary: game_config st)
  case (Cons d ds)
  define config where "config = read_character_config (ini fs) game_config d"
  have nc: "no_option ''one_frame_per_file'' config"
    unfolding config_def read_character_config_def using Cons.prems(1) assms(3) by (rule no_option_cp_read)
  from Cons.prems(2) obtain s1 where
    c: "process_character fs game_config args d st = (config, s1, None)" and
    rest: "process_characters fs config args ds s1 = (st', None)"
    using fst_process_character [of fs game_config args d st]
    by (auto simp: config_def split: prod.splits option.splits)
  from process_characters_grows [OF rest] Cons.prems(3) have "grows s1 t" by (rule grows_trans)
  from process_character_noop [OF assms(1,2) _ c this] nc
  have "process_character fs game_config args d t = (config, t, None)" by (simp add: config_def)
  with Cons.IH [OF nc rest Cons.prems(3)] show ?case by simp
qed simp

lemma process_games_noop:
  assumes "args ''--one_frame_per_file'' = Some v" and "\<not> truthy v"
    and "\<forall>path f. ini fs path = Some f \<longrightarrow> no_option ''one_frame_per_file'' f"
  shows "process_games fs char_name args gs st = (st', None) \<Longrightarrow> grows st' t \<Longrightarrow>
         process_games fs char_name args gs t = (t, None)"
proof (induction gs arbitrary: st)
  case (Cons g gs)
  define game_config where "game_config = read_game_config (ini fs) g"
  have ng: "no_option ''one_frame_per_file'' game_config"
    unfolding game_config_def read_game_config_def using no_option_empty assms(3) by (rule no_option_cp_read)
  from Cons.prems(1) obtain s1 where
    gm: "process_game fs char_name args g st = (s1, None)" and
    rest: "process_games fs char_name args gs s1 = (st', None)"
    by (auto split: prod.splits option.splits)
  from process_games_grows [OF rest] Cons.prems(2) have "grows s1 t" by (rule grows_trans)
  with gm process_characters_noop [where args = args and v = v and fs = fs, OF assms ng] have "process_game fs char_name args g t = (t, None)"
    by (simp add: process_game_def game_config_def Let_def)
  with Cons.IH [OF rest Cons.prems(2)] show ?case by simp
qed simp

lemma process_file_animations_live:
  "process_file_animations fs char_config args ps st = (st', None) \<Longrightarrow> p \<in> set ps \<Longrightarrow>
   drop (length p - 3) p \<noteq> ''gif'' \<Longrightarrow>
   glob_prefix (take (length (py_replace ''input'' ''output'' p) - 4) (py_replace ''input'' ''output'' p)) st'"
proof (induction ps arbitrary: st)
  case (Cons q ps)
  then obtain s1 where q: "process_file_animation (open_image fs) (read_extracted_frames (open_image fs) (glob fs))
                             char_config args q st = Inr s1"
    and rest: "process_file_animations fs char_config args ps s1 = (st', None)"
    by (auto split: sum.splits)
  show ?case
  proof (cases "p = q")
    case True
    from process_file_animation_prefix [OF q] Cons.prems(3) True process_file_animations_grows [OF rest]
    show ?thesis by (auto intro: glob_prefix_grows)
  next
    case False
    with Cons.prems(2) have "p \<in> set ps" by simp
    from Cons.IH [OF rest this Cons.prems(3)] show ?thesis .
  qed
qed simp

lemma process_characters_live:
  assumes "args ''--one_frame_per_file'' = Some v" and "\<not> truthy v"
    and "\<forall>path f. ini fs path = Some f \<longrightarrow> no_option ''one_frame_per_file'' f"
  shows "no_option ''one_frame_per_file'' game_config \<Longrightarrow>
         process_characters fs game_config args ds st = (st', None) \<Longrightarrow> d \<in> set ds \<Longrightarrow>
         p \<in> set (get_file_animations_file_paths fs d) \<Longrightarrow> drop (length p - 3) p \<noteq> ''gif'' \<Longrightarrow>
         glob_prefix (take (length (py_replace ''input'' ''output'' p) - 4) (py_replace ''input'' ''output'' p)) st'"
proof (induction ds arbitrary: game_config st)
  case (Cons d' ds)
  define config where "config = read_character_config (ini fs) game_config d'"
  have nc: "no_option ''one_frame_per_file'' config"
    unfolding config_def read_character_config_def using Cons.prems(1) assms(3) by (rule no_option_cp_read)
  from Cons.prems(2) obtain s1 where
    c: "process_character fs game_config args d' st = (config, s1, None)" and
    rest: "process_characters fs config args ds s1 = (st', None)"
    using fst_process_character [of fs game_config args d' st]
    by (auto simp: config_def split: prod.splits option.splits)
  show ?case
  proof (cases "d = d'")
    case True
    from c nc assms(1,2) no_option_lookup [OF nc]
    have "process_file_animations fs config args (get_file_animations_file_paths fs d') st = (s1, None)"
      by (simp add: process_character_def interpret_config_def config_def Let_def)
    from process_file_animations_live [OF this] Cons.prems(4,5) True process_characters_grows [OF rest]
    show ?thesis by (auto intro: glob_prefix_grows)
  next
    case False
    with Cons.prems(3) have "d \<in> set ds" by simp
    from Cons.IH [OF nc rest this Cons.prems(4,5)] show ?thesis .
  qed
qed simp

lemma process_games_live:
  assumes "args ''--one_frame_per_file'' = Some v" and "\<not> truthy v"
    and "\<forall>path f. ini fs path = Some f \<longrightarrow> no_option ''one_frame_per_file'' f"
  shows "process_games fs None args gs st = (st', None) \<Longrightarrow> g \<in> set gs \<Longrightarrow>
         d \<in> set (filter not_ini (glob fs (g @ ''/*''))) \<Longrightarrow>
         p \<in> set (get_file_animations_file_paths fs d) \<Longrightarrow> drop (length p - 3) p \<noteq> ''gif'' \<Longrightarrow>
         glob_prefix (take (length (py_replace ''input'' ''output'' p) - 4) (py_replace ''input'' ''output'' p)) st'"
proof (induction gs arbitrary: st)
  case (Cons g' gs)
  have ng: "no_option ''one_frame_per_file'' (read_game_config (ini fs) g')"
    unfolding read_game_config_def using no_option_empty assms(3) by (rule no_option_cp_read)
  from Cons.prems(1) obtain s1 where
    gm: "process_game fs None args g' st = (s1, None)" and
    rest: "process_games fs None args gs s1 = (st', None)"
    by (auto split: prod.splits option.splits)
  show ?case
  proof (cases "g = g'")
    case True
    from gm have "process_characters fs (read_game_config (ini fs) g') args (filter not_ini (glob fs (g' @ ''/*''))) st
                    = (s1, None)"
      by (simp add: process_game_def Let_def)
    from process_characters_live [where args = args and v = v and fs = fs, OF assms ng this]
      Cons.prems(3-5) True process_games_grows [OF rest]
    show ?thesis by (auto intro: glob_prefix_grows)
  next
    case False
    with Cons.prems(2) have "g \<in> set gs" by simp
    from Cons.IH [OF rest this Cons.prems(3-5)] show ?thesis .
  qed
qed simp

text \<open>The run of the examples stops at character \<open>b\<close>: it writes the sheet of \<open>a\<close>
  and never processes \<open>c\<close>, whose animation a run restricted to \<open>c\<close> writes.\<close>

lemma main_example_abort:
  "main example_fs None None example_run_args \<lparr>files = [], dirs = []\<rparr> =
     (\<lparr>files = [(''output/g/a/walk_1.png'', tab_image 2 2 (\<lambda>_ _. (255, 0, 0, 255)))], dirs = [''output/g/a'']\<rparr>,
      Some (ColorCount 2)) \<and>
   main example_fs (Some ''g'') (Some ''c'') example_run_args \<lparr>files = [], dirs = []\<rparr> =
     (\<lparr>files = [(''output/g/c/walk_1.png'', tab_image 2 2 (\<lambda>_ _. (255, 0, 0, 255)))], dirs = [''output/g/c'']\<rparr>, None)"
  by code_simp

text \<open>C36: the animation loop of a character stops at the first animation that raises: the
  outputs written before it stay, no later animation of the character is processed, and the
  exception leaves the loop (the spec asks for errors local to one animation).\<close>

theorem process_file_animations_abort:
  assumes "process_file_animations fs char_config args done st = (st1, None)"
    and "process_file_animation (open_image fs) (read_extracted_frames (open_image fs) (glob fs)) char_config args file_path st1 = Inl e"
  shows "process_file_animations fs char_config args (done @ file_path # rest) st = (st1, Some e)"
  using assms by (simp add: process_file_animations_append)

theorem process_file_animations_abort_witness:
  "process_file_animations
     (example_fs\<lparr>open_image := \<lambda>f. if f = ''input/g/a/bad.png'' then Inl (OSError ''cannot identify image file'')
                                  else Inr example_red\<rparr>)
     (config_section [(''avg_char_height'', ''15'')]) example_run_args
     ([''input/g/a/walk.png''] @ ''input/g/a/bad.png'' # [''input/g/a/run.png'']) \<lparr>files = [], dirs = []\<rparr> =
   (\<lparr>files = [(''output/g/a/walk_1.png'', tab_image 2 2 (\<lambda>_ _. (255, 0, 0, 255)))], dirs = [''output/g/a'']\<rparr>,
    Some (OSError ''cannot identify image file''))"
proof -
  let ?fs = "example_fs\<lparr>open_image := \<lambda>f. if f = ''input/g/a/bad.png'' then Inl (OSError ''cannot identify image file'')
                                      else Inr example_red\<rparr>"
  have h1: "process_file_animations ?fs (config_section [(''avg_char_height'', ''15'')]) example_run_args
              [''input/g/a/walk.png''] \<lparr>files = [], dirs = []\<rparr> =
            (\<lparr>files = [(''output/g/a/walk_1.png'', tab_image 2 2 (\<lambda>_ _. (255, 0, 0, 255)))], dirs = [''output/g/a'']\<rparr>, None)"
    by code_simp
  have h2: "process_file_animation (open_image ?fs) (read_extracted_frames (open_image ?fs) (glob ?fs)) (config_section [(''avg_char_height'', ''15'')])
              example_run_args ''input/g/a/bad.png''
              \<lparr>files = [(''output/g/a/walk_1.png'', tab_image 2 2 (\<lambda>_ _. (255, 0, 0, 255)))], dirs = [''output/g/a'']\<rparr> =
            Inl (OSError ''cannot identify image file'')"
    by code_simp
  show ?thesis by (rule process_file_animations_abort [OF h1 h2])
qed



text \<open>C39: \<open>one_frame_per_file\<close> is read without coercion, so any non-empty string in a
  \<open>config.ini\<close>, \<open>False\<close> included, selects the directory mode of the character.\<close>

theorem process_character_flag_string:
  assumes "args ''--one_frame_per_file'' = Some v" and "\<not> truthy v"
    and "cp_lookup (read_character_config (ini fs) game_config d) ''CONFIG'' ''one_frame_per_file'' = Some s"
    and "s \<noteq> []"
  shows "snd (process_character fs game_config args d st) =
           process_directory_animations fs (read_character_config (ini fs) game_config d) args
             (get_directory_animation_directories fs d) st"
  using assms by (simp add: process_character_def interpret_config_def Let_def)

theorem process_character_flag_string_witness:
  "snd (process_character (example_fs\<lparr>ini := [''input/g/a/config.ini'' \<mapsto> config_section [(''one_frame_per_file'', ''False'')]]\<rparr>)
          empty_cfgparser example_run_args ''input/g/a'' \<lparr>files = [], dirs = []\<rparr>) =
   process_directory_animations (example_fs\<lparr>ini := [''input/g/a/config.ini'' \<mapsto> config_section [(''one_frame_per_file'', ''False'')]]\<rparr>)
     (read_character_config [''input/g/a/config.ini'' \<mapsto> config_section [(''one_frame_per_file'', ''False'')]]
        empty_cfgparser ''input/g/a'') example_run_args
     (get_directory_animation_directories example_fs ''input/g/a'') \<lparr>files = [], dirs = []\<rparr>"
proof -
  let ?fs = "example_fs\<lparr>ini := [''input/g/a/config.ini'' \<mapsto> config_section [(''one_frame_per_file'', ''False'')]]\<rparr>"
  have l: "cp_lookup (read_character_config (ini ?fs) empty_cfgparser ''input/g/a'') ''CONFIG'' ''one_frame_per_file'' = Some ''False''"
    by code_simp
  from process_character_flag_string [OF _ _ l, of example_run_args "PBool False" "\<lparr>files = [], dirs = []\<rparr>"]
  show ?thesis by (simp add: example_run_args_def get_directory_animation_directories_def)
qed




end
