(* ===== verification/Cli.thy ===== *)
theory Cli
  imports Run
begin

text \<open>
  The command line of \<open>src/sprite2roa.py\<close>: the usage text of the module docstring
  (lines 1--39), the library \<open>docopt\<close> that parses \<open>sys.argv\<close> against it, and the
  main block (lines 192--207).
  \<^item> \<open>doc_options\<close> is the option table docopt reads from the docstring, one entry per
    line that starts with a dash: \<open>-h --help\<close>, \<open>-v --version\<close>, and the five options of
    the program, two of them flags and three taking a value. This is docopt 0.6.1, the
    version that has \<open>printable_usage\<close>, which the main block calls.
  \<^item> \<open>parse_long\<close>, \<open>parse_shorts\<close> and \<open>parse_argv\<close> are docopt's
    \<open>parse_long\<close>, \<open>parse_shorts\<close> and \<open>parse_argv\<close>: a long option may be given by
    a unique prefix, as \<open>--name=value\<close> or as \<open>--name value\<close>; short options combine
    (\<open>-hv\<close>); \<open>--\<close> ends the options and is itself returned as a positional
    argument; an unknown option is appended to the option table, which later tokens see.
    \<open>parse_argv\<close> is the \<open>while\<close> loop over the token stream, written with
    \<open>partial_function (option)\<close>. That it always returns is a theorem.
  \<^item> \<open>docopt\<close> handles \<open>--help\<close> and \<open>--version\<close> (\<open>extras\<close>: docopt prints and calls
    \<open>sys.exit()\<close>), then matches the usage patterns. The patterns accept at most two
    positional arguments and each program option at most once. The result is docopt's
    dictionary: every key of the patterns, with \<open>None\<close> or \<open>False\<close> for what is absent.
  \<^item> \<open>cli_main\<close> is the main block. A \<open>DocoptExit\<close> is caught and leaves \<open>args = []\<close>,
    so nothing runs; \<open>SystemExit\<close> after the help or version text ends the program.
  \<^item> The record \<open>invocation\<close> is what a user means by a command line: the positional
    arguments and the options of the usage text. \<open>render_argv\<close> writes it out and
    \<open>invocation_args\<close> is the dictionary the program expects for it. The lemmas compute
    docopt's parse of a rendered line step by step: positional tokens
    (\<open>parse_argv_plain\<close>), options with a value (\<open>parse_argv_value\<close>) and flags
    (\<open>parse_argv_flag\<close>).
\<close>

record option_spec =
  oshort :: "string option"
  olong :: "string option"
  argcount :: nat

definition option_name :: "option_spec \<Rightarrow> string" where
  "option_name opt = (case olong opt of Some l \<Rightarrow> l | None \<Rightarrow> (case oshort opt of Some s \<Rightarrow> s | None \<Rightarrow> []))"

definition doc_options :: "option_spec list" where
  "doc_options =
     [\<lparr>oshort = Some ''-h'', olong = Some ''--help'', argcount = 0\<rparr>,
      \<lparr>oshort = Some ''-v'', olong = Some ''--version'', argcount = 0\<rparr>,
      \<lparr>oshort = None, olong = Some ''--avg_char_height'', argcount = 1\<rparr>,
      \<lparr>oshort = None, olong = Some ''--one_frame_per_file'', argcount = 0\<rparr>,
      \<lparr>oshort = None, olong = Some ''--should_outline'', argcount = 0\<rparr>,
      \<lparr>oshort = None, olong = Some ''--background_color'', argcount = 1\<rparr>,
      \<lparr>oshort = None, olong = Some ''--saturation'', argcount = 1\<rparr>]"

text \<open>The options the pattern \<open>[options]\<close> stands for: those of the table that no usage
  pattern names (\<open>-h|--help\<close> and \<open>-v|--version\<close> are named).\<close>

definition program_options :: "option_spec list" where
  "program_options = filter (\<lambda>opt. option_name opt \<notin> {''--help'', ''--version''}) doc_options"

datatype parsed = POpt string pyval | PArg string

text \<open>docopt's \<open>parse_long\<close>. A long option that is not in the table is appended to it,
  with one argument when it was given as \<open>--name=value\<close>, so that later tokens see it; the
  parser threads the table for that reason.\<close>

type_synonym parse_state = "parsed list \<times> string list \<times> option_spec list"

definition parse_long :: "option_spec list \<Rightarrow> string \<Rightarrow> string list \<Rightarrow> py_error + parse_state" where
  "parse_long options token tokens =
     (let long = takeWhile (\<lambda>c. c \<noteq> CHR ''='') token;
          value = (if CHR ''='' \<in> set token then Some (tl (dropWhile (\<lambda>c. c \<noteq> CHR ''='') token)) else None);
          exact = filter (\<lambda>opt. olong opt = Some long) options;
          similar = (if exact = []
                     then filter (\<lambda>opt. case olong opt of Some l \<Rightarrow> take (length long) l = long | None \<Rightarrow> False) options
                     else exact)
      in if 1 < length similar then Inl (DocoptExit (long @ '' is not a unique prefix''))
         else if similar = [] then
           Inr ([POpt long (case value of Some v \<Rightarrow> PStr v | None \<Rightarrow> PBool True)], tokens,
                options @ [\<lparr>oshort = None, olong = Some long, argcount = (if value = None then 0 else 1)\<rparr>])
         else (let opt = hd similar
               in if argcount opt = 0
                  then (if value \<noteq> None then Inl (DocoptExit (option_name opt @ '' must not have an argument''))
                        else Inr ([POpt (option_name opt) (PBool True)], tokens, options))
                  else (case value of
                          Some v \<Rightarrow> Inr ([POpt (option_name opt) (PStr v)], tokens, options)
                        | None \<Rightarrow> (case tokens of
                                    [] \<Rightarrow> Inl (DocoptExit (option_name opt @ '' requires argument''))
                                  | t # ts \<Rightarrow> if t = ''--'' then Inl (DocoptExit (option_name opt @ '' requires argument''))
                                             else Inr ([POpt (option_name opt) (PStr t)], ts, options)))))"

text \<open>The loop \<open>while left != ''\<close> of docopt's \<open>parse_shorts\<close>, one character of the
  token a step; an unknown short option is appended to the table as a flag.\<close>

fun parse_short_chars :: "option_spec list \<Rightarrow> char list \<Rightarrow> string list \<Rightarrow> py_error + parse_state" where
  "parse_short_chars options [] tokens = Inr ([], tokens, options)"
| "parse_short_chars options (c # left) tokens =
     (let short = [CHR ''-'', c];
          similar = filter (\<lambda>opt. oshort opt = Some short) options
      in if 1 < length similar then Inl (DocoptExit (short @ '' is specified ambiguously''))
         else if similar = [] then
           py_bind (parse_short_chars (options @ [\<lparr>oshort = Some short, olong = None, argcount = 0\<rparr>]) left tokens)
             (\<lambda>(ps, ts, opts). Inr (POpt short (PBool True) # ps, ts, opts))
         else (let opt = hd similar
               in if argcount opt = 0 then
                    py_bind (parse_short_chars options left tokens)
                      (\<lambda>(ps, ts, opts). Inr (POpt (option_name opt) (PBool True) # ps, ts, opts))
                  else if left = [] then
                    (case tokens of
                       [] \<Rightarrow> Inl (DocoptExit (short @ '' requires argument''))
                     | t # ts \<Rightarrow> if t = ''--'' then Inl (DocoptExit (short @ '' requires argument''))
                                else Inr ([POpt (option_name opt) (PStr t)], ts, options))
                  else Inr ([POpt (option_name opt) (PStr left)], tokens, options)))"

definition parse_shorts :: "option_spec list \<Rightarrow> string \<Rightarrow> string list \<Rightarrow> py_error + parse_state" where
  "parse_shorts options token tokens = parse_short_chars options (dropWhile (\<lambda>c. c = CHR ''-'') token) tokens"

text \<open>docopt's \<open>parse_argv\<close>: the loop \<open>while tokens.current() is not None\<close>. At \<open>--\<close> it
  returns the tokens left as arguments, the \<open>--\<close> itself among them, since
  \<open>tokens.current()\<close> does not consume it.\<close>

partial_function (option) parse_argv :: "option_spec list \<Rightarrow> string list \<Rightarrow> (py_error + parsed list) option" where
  "parse_argv options tokens =
     (case tokens of
        [] \<Rightarrow> Some (Inr [])
      | token # rest \<Rightarrow>
          if token = ''--'' then Some (Inr (map PArg tokens))
          else if take 2 token = ''--'' then
            (case parse_long options token rest of
               Inl e \<Rightarrow> Some (Inl e)
             | Inr (ps, rest', options') \<Rightarrow>
                 Option.bind (parse_argv options' rest') (\<lambda>r. Some (map_sum id (\<lambda>qs. ps @ qs) r)))
          else if take 1 token = ''-'' \<and> token \<noteq> ''-'' then
            (case parse_shorts options token rest of
               Inl e \<Rightarrow> Some (Inl e)
             | Inr (ps, rest', options') \<Rightarrow>
                 Option.bind (parse_argv options' rest') (\<lambda>r. Some (map_sum id (\<lambda>qs. ps @ qs) r)))
          else Option.bind (parse_argv options rest) (\<lambda>r. Some (map_sum id (\<lambda>qs. PArg token # qs) r)))"

declare parse_argv.simps [code]

text \<open>docopt's dictionary: the two positional arguments, \<open>--help\<close> and \<open>--version\<close> (false:
  otherwise the program has exited), and each program option with its value or default.\<close>

definition docopt_dict :: "string list \<Rightarrow> (string \<times> pyval) list \<Rightarrow> string \<rightharpoonup> pyval" where
  "docopt_dict arguments opts k =
     (if k = ''<game_name>'' then Some (case arguments of a # _ \<Rightarrow> PStr a | [] \<Rightarrow> PNone)
      else if k = ''<char_name>'' then Some (case arguments of _ # b # _ \<Rightarrow> PStr b | _ \<Rightarrow> PNone)
      else if k = ''--help'' \<or> k = ''--version'' then Some (PBool False)
      else (case find (\<lambda>opt. option_name opt = k) program_options of
              None \<Rightarrow> None
            | Some opt \<Rightarrow> Some (case map_of opts k of
                               Some v \<Rightarrow> v
                             | None \<Rightarrow> if argcount opt = 0 then PBool False else PNone)))"

definition match_usage :: "parsed list \<Rightarrow> py_error + (string \<rightharpoonup> pyval)" where
  "match_usage parsed =
     (let arguments = [a. PArg a \<leftarrow> parsed];
          opts = [(n, v). POpt n v \<leftarrow> parsed]
      in if length arguments \<le> 2 \<and> distinct (map fst opts)
            \<and> list_all (\<lambda>n. n \<in> set (map option_name program_options)) (map fst opts)
         then Inr (docopt_dict arguments opts)
         else Inl (DocoptExit ''''))"

datatype docopt_result = Args "string \<rightharpoonup> pyval" | ShowHelp | ShowVersion

definition given :: "string list \<Rightarrow> parsed list \<Rightarrow> bool" where
  "given names parsed \<longleftrightarrow> list_ex (\<lambda>p. case p of POpt n v \<Rightarrow> n \<in> set names \<and> truthy v | PArg _ \<Rightarrow> False) parsed"

definition docopt :: "string list \<Rightarrow> (py_error + docopt_result) option" where
  "docopt argv =
     Option.bind (parse_argv doc_options argv) (\<lambda>r. Some
       (case r of
          Inl e \<Rightarrow> Inl e
        | Inr parsed \<Rightarrow>
            if given [''-h'', ''--help''] parsed then Inr ShowHelp
            else if given [''--version''] parsed then Inr ShowVersion
            else map_sum id Args (match_usage parsed)))"

definition str_arg :: "pyval option \<Rightarrow> string option" where
  "str_arg v = (case v of Some (PStr s) \<Rightarrow> Some s | _ \<Rightarrow> None)"

definition cli_main :: "fsview \<Rightarrow> string list \<Rightarrow> outputs \<Rightarrow> run_result option" where
  "cli_main fs argv st =
     Option.bind (docopt argv) (\<lambda>r. Some
       (case r of
          Inl e \<Rightarrow> (case e of DocoptExit msg \<Rightarrow> (st, None) | _ \<Rightarrow> (st, Some e))
        | Inr ShowHelp \<Rightarrow> (st, Some SystemExit)
        | Inr ShowVersion \<Rightarrow> (st, Some SystemExit)
        | Inr (Args args) \<Rightarrow> main fs (str_arg (args ''<game_name>'')) (str_arg (args ''<char_name>'')) args st))"

subsection \<open>Invocations\<close>

text \<open>What a user means by a command line: the two positional arguments and the five
  options of the usage text, each present or absent. \<open>render_argv\<close> writes it out the way
  the docstring shows (positionals first, then \<open>--name value\<close> and flags), and
  \<open>invocation_args\<close> is the dictionary the program expects for it.\<close>

record invocation =
  inv_game :: "string option"
  inv_char :: "string option"
  inv_height :: "string option"
  inv_one_frame :: bool
  inv_outline :: bool
  inv_color :: "string option"
  inv_saturation :: "string option"

definition value_arg :: "string \<Rightarrow> string option \<Rightarrow> string list" where
  "value_arg name v = (case v of None \<Rightarrow> [] | Some x \<Rightarrow> [name, x])"

definition flag_arg :: "string \<Rightarrow> bool \<Rightarrow> string list" where
  "flag_arg name b = (if b then [name] else [])"

definition positionals :: "invocation \<Rightarrow> string list" where
  "positionals a = (case inv_game a of None \<Rightarrow> [] | Some g \<Rightarrow> g # (case inv_char a of None \<Rightarrow> [] | Some c \<Rightarrow> [c]))"

definition render_argv :: "invocation \<Rightarrow> string list" where
  "render_argv a =
     positionals a @ value_arg ''--avg_char_height'' (inv_height a)
     @ flag_arg ''--one_frame_per_file'' (inv_one_frame a) @ flag_arg ''--should_outline'' (inv_outline a)
     @ value_arg ''--background_color'' (inv_color a) @ value_arg ''--saturation'' (inv_saturation a)"

definition pv :: "string option \<Rightarrow> pyval" where
  "pv v = (case v of None \<Rightarrow> PNone | Some x \<Rightarrow> PStr x)"

definition invocation_args :: "invocation \<Rightarrow> string \<rightharpoonup> pyval" where
  "invocation_args a =
     [''<game_name>'' \<mapsto> pv (inv_game a), ''<char_name>'' \<mapsto> pv (inv_char a),
      ''--help'' \<mapsto> PBool False, ''--version'' \<mapsto> PBool False,
      ''--avg_char_height'' \<mapsto> pv (inv_height a), ''--one_frame_per_file'' \<mapsto> PBool (inv_one_frame a),
      ''--should_outline'' \<mapsto> PBool (inv_outline a), ''--background_color'' \<mapsto> pv (inv_color a),
      ''--saturation'' \<mapsto> pv (inv_saturation a)]"

text \<open>The options of an invocation as docopt's parser yields them, and its tokens.\<close>

definition opt_value :: "string \<Rightarrow> string option \<Rightarrow> (string \<times> pyval) list" where
  "opt_value name v = (case v of None \<Rightarrow> [] | Some x \<Rightarrow> [(name, PStr x)])"

definition opt_flag :: "string \<Rightarrow> bool \<Rightarrow> (string \<times> pyval) list" where
  "opt_flag name b = (if b then [(name, PBool True)] else [])"

definition render_opts :: "invocation \<Rightarrow> (string \<times> pyval) list" where
  "render_opts a =
     opt_value ''--avg_char_height'' (inv_height a) @ opt_flag ''--one_frame_per_file'' (inv_one_frame a)
     @ opt_flag ''--should_outline'' (inv_outline a) @ opt_value ''--background_color'' (inv_color a)
     @ opt_value ''--saturation'' (inv_saturation a)"

definition render_parsed :: "invocation \<Rightarrow> parsed list" where
  "render_parsed a = map PArg (positionals a) @ map (\<lambda>(n, v). POpt n v) (render_opts a)"

text \<open>A positional argument is read as one when it does not look like an option; an
  option's value may be anything but the separator \<open>--\<close>.\<close>

definition plain_arg :: "string \<Rightarrow> bool" where
  "plain_arg t \<longleftrightarrow> take 1 t \<noteq> ''-'' \<or> t = ''-''"

definition wf_invocation :: "invocation \<Rightarrow> bool" where
  "wf_invocation a \<longleftrightarrow>
     (inv_game a = None \<longrightarrow> inv_char a = None) \<and> list_all plain_arg (positionals a)
     \<and> list_all (pred_option (\<lambda>v. v \<noteq> ''--'')) [inv_height a, inv_color a, inv_saturation a]"

subsection \<open>Lemmas\<close>

lemma bind_Some_map: "Option.bind x (\<lambda>r. Some (f r)) = map_option f x"
  by (cases x) simp_all

lemma parse_long_rest:
  "parse_long options token tokens = Inr (ps, rest, options') \<Longrightarrow> length rest \<le> length tokens"
  by (auto simp: parse_long_def Let_def split: if_splits option.splits list.splits)

lemma parse_short_chars_rest:
  "parse_short_chars options cs tokens = Inr (ps, rest, options') \<Longrightarrow> length rest \<le> length tokens"
proof (induction options cs tokens arbitrary: ps rest options' rule: parse_short_chars.induct)
  case (2 options c left tokens)
  then show ?case
    by (fastforce simp: Let_def py_bind_Inr_iff split: if_splits list.splits)
qed simp

lemma parse_shorts_rest:
  "parse_shorts options token tokens = Inr (ps, rest, options') \<Longrightarrow> length rest \<le> length tokens"
  unfolding parse_shorts_def by (rule parse_short_chars_rest)

lemma parse_argv_plain_Cons:
  assumes "plain_arg x"
  shows "parse_argv options (x # rest) = map_option (map_sum id (\<lambda>qs. PArg x # qs)) (parse_argv options rest)"
proof -
  have "x \<noteq> ''--''" "take 2 x \<noteq> ''--''" "\<not> (take 1 x = ''-'' \<and> x \<noteq> ''-'')"
    using assms by (cases x; auto simp: plain_arg_def)+
  then show ?thesis by (subst parse_argv.simps) (auto simp: bind_Some_map)
qed

lemma map_prepend_Nil:
  "map_option (map_sum id (\<lambda>qs. qs)) x = (x :: (py_error + parsed list) option)"
  "map_option (map_sum id ((@) [])) x = x"
proof -
  have "map_sum id (\<lambda>qs. qs) r = r" "map_sum id ((@) []) r = r" for r :: "py_error + parsed list"
    by (cases r; simp)+
  then show "map_option (map_sum id (\<lambda>qs. qs)) x = x" "map_option (map_sum id ((@) [])) x = x"
    by (cases x; simp)+
qed

lemma parse_argv_plain:
  "list_all plain_arg xs \<Longrightarrow>
   parse_argv options (xs @ rest) = map_option (map_sum id (\<lambda>qs. map PArg xs @ qs)) (parse_argv options rest)"
  by (induction xs)
     (auto simp: parse_argv_plain_Cons option.map_comp sum.map_comp intro!: option.map_cong0 sum.map_cong0
           simp: map_prepend_Nil)

lemma parse_long_value:
  assumes "name \<in> {''--avg_char_height'', ''--background_color'', ''--saturation''}" and "x \<noteq> ''--''"
  shows "parse_long doc_options name (x # rest) = Inr ([POpt name (PStr x)], rest, doc_options)"
  using assms(1)
  by (elim insertE emptyE; simp add: assms(2) parse_long_def doc_options_def option_name_def Let_def)

lemma parse_long_flag:
  assumes "name \<in> {''--one_frame_per_file'', ''--should_outline''}"
  shows "parse_long doc_options name rest = Inr ([POpt name (PBool True)], rest, doc_options)"
  using assms
  by (elim insertE emptyE; simp add: parse_long_def doc_options_def option_name_def Let_def)

lemma parse_argv_long:
  assumes "take 2 token = ''--''" and "token \<noteq> ''--''"
    and "parse_long options token rest = Inr (ps, rest', options')"
  shows "parse_argv options (token # rest) = map_option (map_sum id (\<lambda>qs. ps @ qs)) (parse_argv options' rest')"
  using assms by (subst parse_argv.simps) (simp add: bind_Some_map)

lemma long_names:
  "name \<in> {''--avg_char_height'', ''--background_color'', ''--saturation'', ''--one_frame_per_file'', ''--should_outline''}
   \<Longrightarrow> take 2 name = ''--'' \<and> name \<noteq> ''--''"
  by (elim insertE emptyE; simp)

lemma parse_argv_value:
  assumes "name \<in> {''--avg_char_height'', ''--background_color'', ''--saturation''}"
    and "pred_option (\<lambda>x. x \<noteq> ''--'') v"
  shows "parse_argv doc_options (value_arg name v @ rest) =
         map_option (map_sum id (\<lambda>qs. map (\<lambda>(n, v). POpt n v) (opt_value name v) @ qs))
           (parse_argv doc_options rest)"
proof (cases v)
  case None
  then show ?thesis by (simp add: value_arg_def opt_value_def map_prepend_Nil)
next
  case (Some x)
  have name: "take 2 name = ''--''" "name \<noteq> ''--''" using long_names assms(1) by blast+
  have "x \<noteq> ''--''" using assms(2) Some by simp
  from parse_argv_long [OF name parse_long_value [OF assms(1) this]]
  show ?thesis by (simp add: Some value_arg_def opt_value_def)
qed

lemma parse_argv_flag:
  assumes "name \<in> {''--one_frame_per_file'', ''--should_outline''}"
  shows "parse_argv doc_options (flag_arg name b @ rest) =
         map_option (map_sum id (\<lambda>qs. map (\<lambda>(n, v). POpt n v) (opt_flag name b) @ qs))
           (parse_argv doc_options rest)"
proof (cases b)
  case True
  have name: "take 2 name = ''--''" "name \<noteq> ''--''" using long_names assms(1) by blast+
  from parse_argv_long [OF name parse_long_flag [OF assms(1)]]
  show ?thesis by (simp add: True flag_arg_def opt_flag_def)
qed (simp add: flag_arg_def opt_flag_def map_prepend_Nil)

lemma parse_argv_render_append:
  assumes "wf_invocation a"
  shows "parse_argv doc_options (render_argv a @ rest) =
         map_option (map_sum id (\<lambda>qs. render_parsed a @ qs)) (parse_argv doc_options rest)"
proof -
  have argv: "render_argv a @ rest = positionals a @ value_arg ''--avg_char_height'' (inv_height a)
     @ flag_arg ''--one_frame_per_file'' (inv_one_frame a) @ flag_arg ''--should_outline'' (inv_outline a)
     @ value_arg ''--background_color'' (inv_color a) @ value_arg ''--saturation'' (inv_saturation a) @ rest"
    by (simp add: render_argv_def)
  from assms show ?thesis
    unfolding argv wf_invocation_def
    by (simp add: parse_argv_plain parse_argv_value parse_argv_flag render_parsed_def render_opts_def
                  option.map_comp sum.map_comp o_def id_def)
qed

lemma parse_argv_render:
  "wf_invocation a \<Longrightarrow> parse_argv doc_options (render_argv a) = Some (Inr (render_parsed a))"
  using parse_argv_render_append [of a "[]"] by (simp add: parse_argv.simps [of _ "[]"])

lemma given_render:
  "\<not> given [''-h'', ''--help''] (render_parsed a)" "\<not> given [''--version''] (render_parsed a)"
  by (auto simp: given_def render_parsed_def list_ex_iff render_opts_def opt_value_def opt_flag_def
           split: option.splits if_splits)

lemma arguments_render: "[x. PArg x \<leftarrow> render_parsed a] = positionals a"
proof -
  have "[x. PArg x \<leftarrow> map PArg xs] = xs" for xs by (induction xs) simp_all
  moreover have "[x. PArg x \<leftarrow> map (\<lambda>(n, v). POpt n v) ys] = []" for ys :: "(string \<times> pyval) list"
    by (induction ys) auto
  ultimately show ?thesis by (simp add: render_parsed_def del: map_map)
qed

lemma options_render: "[(n, v). POpt n v \<leftarrow> render_parsed a] = render_opts a"
proof -
  have "[(n, v). POpt n v \<leftarrow> map PArg xs] = []" for xs by (induction xs) simp_all
  moreover have "[(n, v). POpt n v \<leftarrow> map (\<lambda>(n, v). POpt n v) ys] = ys" for ys :: "(string \<times> pyval) list"
    by (induction ys) auto
  ultimately show ?thesis by (simp add: render_parsed_def del: map_map)
qed

lemma render_opts_names:
  "distinct (map fst (render_opts a))"
  "list_all (\<lambda>n. n \<in> set (map option_name program_options)) (map fst (render_opts a))"
  by (simp_all add: render_opts_def opt_value_def opt_flag_def program_options_def doc_options_def
                    option_name_def split: option.split)

lemma map_of_render_opts:
  "map_of (render_opts a) k =
     (if k = ''--avg_char_height'' then map_option PStr (inv_height a)
      else if k = ''--one_frame_per_file'' then (if inv_one_frame a then Some (PBool True) else None)
      else if k = ''--should_outline'' then (if inv_outline a then Some (PBool True) else None)
      else if k = ''--background_color'' then map_option PStr (inv_color a)
      else if k = ''--saturation'' then map_option PStr (inv_saturation a)
      else None)"
  by (simp add: render_opts_def opt_value_def opt_flag_def map_of_append split: option.split)

lemma docopt_dict_render:
  assumes "inv_game a = None \<longrightarrow> inv_char a = None"
  shows "docopt_dict (positionals a) (render_opts a) = invocation_args a"
proof
  fix k
  show "docopt_dict (positionals a) (render_opts a) k = invocation_args a k"
    by (simp add: docopt_dict_def invocation_args_def map_of_render_opts program_options_def
                  doc_options_def option_name_def positionals_def pv_def assms
             split: option.split)
qed

lemma docopt_render:
  assumes "wf_invocation a"
  shows "docopt (render_argv a) = Some (Inr (Args (invocation_args a)))"
proof -
  have len: "length (positionals a) \<le> 2"
    by (simp add: positionals_def split: option.splits)
  have "match_usage (render_parsed a) = Inr (invocation_args a)"
    using assms render_opts_names len
    by (simp add: match_usage_def arguments_render options_render docopt_dict_render wf_invocation_def)
  with parse_argv_render [OF assms] given_render show ?thesis
    by (simp add: docopt_def)
qed

text \<open>docopt's token loop ends on every command line: each round consumes the current token
  and possibly the next one, so \<open>parse_argv\<close> returns for every option table.\<close>

lemma parse_argv_returns: "\<exists>r. parse_argv options tokens = Some r"
proof -
  have "parse_argv options tokens \<noteq> None"
  proof (induction "length tokens" arbitrary: options tokens rule: less_induct)
    case less
    show ?case
    proof (cases tokens)
      case Nil
      then show ?thesis by (simp add: parse_argv.simps)
    next
      case (Cons token rest)
      have step: "parse_argv options' rest' \<noteq> None" if "length rest' \<le> length rest" for options' rest'
        using less that Cons by simp
      have long: "parse_long options token rest = Inr (ps, rest', options') \<Longrightarrow>
                  parse_argv options' rest' \<noteq> None" for ps rest' options'
        by (rule step, erule parse_long_rest)
      have short: "parse_shorts options token rest = Inr (ps, rest', options') \<Longrightarrow>
                   parse_argv options' rest' \<noteq> None" for ps rest' options'
        by (rule step, erule parse_shorts_rest)
      show ?thesis
        using Cons long short step [of rest options]
        by (subst parse_argv.simps) (auto simp: bind_Some_map split: sum.splits)
    qed
  qed
  then show ?thesis by blast
qed


text \<open>C31: a command line written the way the usage text shows it (positional arguments
  first, a character only after a game, no option value that is \<open>--\<close>) runs the program's
  \<open>main\<close> on that game and character, with the dictionary that holds exactly the given
  options and docopt's defaults (\<open>None\<close>, \<open>False\<close>) for the others.\<close>

theorem cli_main_render:
  assumes "wf_invocation a"
  shows "cli_main fs (render_argv a) st = Some (main fs (inv_game a) (inv_char a) (invocation_args a) st)"
proof -
  have "str_arg (Some (pv v)) = v" for v by (cases v) (simp_all add: str_arg_def pv_def)
  with docopt_render [OF assms] show ?thesis
    by (simp add: cli_main_def invocation_args_def)
qed

theorem cli_main_render_witness:
  "cli_main example_fs [''g'', ''c'', ''--avg_char_height'', ''15'', ''--should_outline'', ''--saturation'', ''-0.5'']
     \<lparr>files = [], dirs = []\<rparr> =
   Some (main example_fs (Some ''g'') (Some ''c'')
     (invocation_args \<lparr>inv_game = Some ''g'', inv_char = Some ''c'', inv_height = Some ''15'',
        inv_one_frame = False, inv_outline = True, inv_color = None, inv_saturation = Some ''-0.5''\<rparr>)
     \<lparr>files = [], dirs = []\<rparr>)"
proof -
  let ?a = "\<lparr>inv_game = Some ''g'', inv_char = Some ''c'', inv_height = Some ''15'',
        inv_one_frame = False, inv_outline = True, inv_color = None, inv_saturation = Some ''-0.5''\<rparr>"
  have wf: "wf_invocation ?a" by (simp add: wf_invocation_def positionals_def plain_arg_def)
  have argv: "render_argv ?a = [''g'', ''c'', ''--avg_char_height'', ''15'', ''--should_outline'', ''--saturation'', ''-0.5'']"
    by (simp add: render_argv_def positionals_def value_arg_def flag_arg_def)
  from cli_main_render [OF wf, of example_fs "\<lparr>files = [], dirs = []\<rparr>"] show ?thesis
    by (simp only: argv invocation.simps)
qed

text \<open>C23: a command line with a third positional argument is invalid: docopt raises
  \<open>DocoptExit\<close>, the main block catches it, prints the usage and ends normally, without
  processing anything and without an exception (exit status 0).\<close>

theorem cli_main_rejects:
  assumes "wf_invocation a" and "inv_char a \<noteq> None" and "plain_arg x"
  shows "cli_main fs (render_argv a @ [x]) st = Some (st, None)"
proof -
  have "parse_argv doc_options [x] = Some (Inr [PArg x])"
    using parse_argv_plain_Cons [OF assms(3), of doc_options "[]"] by (simp add: parse_argv.simps [of _ "[]"])
  with parse_argv_render_append [OF assms(1), of "[x]"]
  have parse: "parse_argv doc_options (render_argv a @ [x]) = Some (Inr (render_parsed a @ [PArg x]))"
    by simp
  have "\<not> given [''-h'', ''--help''] (render_parsed a @ [PArg x])" "\<not> given [''--version''] (render_parsed a @ [PArg x])"
    using given_render by (simp_all add: given_def)
  moreover have "length [y. PArg y \<leftarrow> render_parsed a @ [PArg x]] = 3"
    using assms(1,2) by (auto simp: arguments_render wf_invocation_def positionals_def split: option.splits)
  ultimately show ?thesis
    using parse by (simp add: cli_main_def docopt_def match_usage_def Let_def del: concat_map_singleton)
qed

theorem cli_main_rejects_witness:
  "cli_main example_fs [''g'', ''c'', ''walk''] \<lparr>files = [], dirs = []\<rparr> = Some (\<lparr>files = [], dirs = []\<rparr>, None)"
proof -
  let ?a = "\<lparr>inv_game = Some ''g'', inv_char = Some ''c'', inv_height = None,
        inv_one_frame = False, inv_outline = False, inv_color = None, inv_saturation = None\<rparr>"
  have wf: "wf_invocation ?a" by (simp add: wf_invocation_def positionals_def plain_arg_def)
  have x: "plain_arg ''walk''" by (simp add: plain_arg_def)
  have argv: "render_argv ?a @ [''walk''] = [''g'', ''c'', ''walk'']"
    by (simp add: render_argv_def positionals_def value_arg_def flag_arg_def)
  from cli_main_rejects [OF wf _ x, of example_fs "\<lparr>files = [], dirs = []\<rparr>"] show ?thesis
    by (simp only: argv invocation.simps option.simps simp_thms)
qed

end
