(* ===== verification/Spec2Isabelle.thy ===== *)
theory Spec2Isabelle
  imports Layout Stroke ColorKey Scale Enhance ColorParse Config Pipeline Gif Run Cli
begin

text \<open>
  \<^bold>\<open>A verification library for sprite2roa.\<close>

  sprite2roa converts character animations (single images, directories of frames,
  animated GIFs) into horizontal sprite sheets. \<open>src/sprite2roa.py\<close> walks the
  input tree \<open>input/game/character\<close>, reads the configuration
  (\<open>src/configuration.py\<close>), decodes the frames (\<open>src/gif.py\<close> for GIFs), runs
  each animation's frames through the transformations of \<open>src/transformations.py\<close>
  in \<open>process_frames\<close> (background keying, nearest-neighbour rescale, saturation,
  outline) and lays the result out as one sheet (\<open>layout_sheet\<close>) that
  \<open>save_frames\<close> writes under \<open>output/\<close>.

  \<^bold>\<open>Theories and what they model.\<close>
  \<^item> \<open>Prelude\<close>: the pixel type \<open>rgba\<close> (four \<open>8 word\<close> channels, numpy's
    \<open>uint8\<close> with its wrap-around arithmetic), row-major grids for numpy arrays
    (\<open>grid_tab\<close>, \<open>grid_map\<close>, \<open>grid_zip\<close>) with their pointwise lemmas (the
    collection \<open>grid_simps\<close>), the exceptions the code raises as the datatype
    \<open>py_error\<close> (one constructor per raise site), and the Python builtins the code
    relies on: \<open>max\<close> of a list (\<open>py_max\<close>), a list comprehension whose element
    may raise (\<open>py_map\<close>), sequencing of raising statements (\<open>py_bind\<close>), \<open>int\<close>
    of a float (\<open>py_int\<close>).
  \<^item> \<open>Image\<close>: a PIL image as the record \<open>image\<close> (\<open>width\<close>, \<open>height\<close>,
    \<open>pixels\<close>) and the PIL primitives the code calls (\<open>Image.new\<close>, \<open>paste\<close>,
    \<open>resize\<close> with \<open>NEAREST\<close>, \<open>fromarray\<close>). They are library code, modelled
    from their documented behaviour.
  \<^item> \<open>Layout\<close>: \<open>layout_sheet\<close> and its loop \<open>paste_frames\<close>
    (\<open>transformations.py\<close> lines 85--110), refined against the abstract sheet
    \<open>sheet_spec\<close>. In the spec, every frame is bottom-aligned and centred in its own slot
    of a strip; each slot is as wide as the widest frame and the strip is as tall as the
    tallest frame. The loop invariant is \<open>layer\<close>, proved by induction on the frame list.
  \<^item> \<open>Stroke\<close>: \<open>stroke\<close> with \<open>get_diff_array\<close> and the shifted alpha planes
    (lines 45--74), reduced to the pointwise edge predicate \<open>edge_at\<close>.
  \<^item> \<open>ColorKey\<close>: \<open>delete_background_color\<close> (lines 16--30).
  \<^item> \<open>Scale\<close>: \<open>get_scale\<close> and \<open>resize\<close> (lines 8--36).
  \<^item> \<open>Enhance\<close>: \<open>saturate\<close> (lines 39--42) over PIL's \<open>ImageEnhance.Color\<close>.
    Luma uses the ITU-R 601 integer formula; the blend clips and truncates. The palette
    limiter \<open>limit_palette\<close> (lines 77--82) is a stub whose body is \<open>pass\<close>; nothing
    calls it.
  \<^item> \<open>ColorParse\<close>: \<open>parse_background_color\<close> (\<open>sprite2roa.py\<close> lines
    145--154), with Python's \<open>str.split\<close>, \<open>str.isdigit\<close> (Unicode
    superscripts included) and \<open>int(str)\<close>; the printer \<open>format_color\<close>.
  \<^item> \<open>Config\<close>: \<open>interpret_config\<close>, \<open>read_game_config\<close> and
    \<open>read_character_config\<close> (\<open>configuration.py\<close>). They work over a model of
    \<open>ConfigParser\<close>: \<open>cfgparser\<close> holds a \<open>DEFAULT\<close> section and named
    sections, and \<open>read\<close> merges a file into the same object. Also modelled: the
    character loop of \<open>process_game\<close> threading the shared parser
    (\<open>character_configs\<close>), and the coercions \<open>int\<close>, \<open>float\<close> and \<open>bool\<close>
    applied to option values. The abstract contract is \<open>resolve\<close> over the layers
    \<open>arg_layer\<close>, \<open>section_layer\<close> and \<open>defaults_layer\<close>.
  \<^item> \<open>Pipeline\<close>: \<open>process_frames\<close>, \<open>save_frames\<close>,
    \<open>process_file_animation\<close> and \<open>process_directory_animation\<close> with its frame
    loop \<open>open_frames\<close> (\<open>sprite2roa.py\<close> lines 108--189). They act on an explicit
    output tree \<open>outputs\<close>: the log of written files, newest first, and the directories
    created. The decoders are parameters that may raise: \<open>PIL.Image.open\<close> (with
    \<open>convert('RGBA')\<close>, the identity on the model's RGBA images) and the GIF reader.
    \<open>frame_plan\<close> is the per-frame function that \<open>process_frames\<close> maps over the
    frames.
  \<^item> \<open>Gif\<close>: the GIF reader of \<open>src/gif.py\<close>. \<open>get_dir_name_for_gif\<close> is
    \<open>os.path.splitext\<close> (CPython's \<open>posixpath._splitext\<close>).
    \<open>make_animation_dir_for_gif\<close> and \<open>read_gif_as_frames\<close> act on the input tree
    \<open>intree\<close> (the existing paths, in listing order) through \<open>os.path.exists\<close>,
    \<open>os.mkdir\<close> and \<open>glob.iglob\<close>. The ImageMagick call is the parameter
    \<open>convert\<close>. \<open>read_extracted_frames\<close> is the reader's frame loop over a given
    listing.
  \<^item> \<open>Run\<close>: the orchestration (\<open>sprite2roa.py\<close> lines 57--105 and the main block,
    lines 200--207): \<open>main\<close>, \<open>process_games\<close>, \<open>process_game\<close>,
    \<open>process_characters\<close>, \<open>process_character\<close> and the two animation loops. They
    run over a view of the input tree \<open>fsview\<close>: the configuration files, the answers
    of \<open>glob.glob\<close> for the patterns the code uses, and the decoders. GIFs are read with \<open>read_extracted_frames\<close> from the listing
    of their extraction directory in the same view. Nothing in these
    functions catches an exception, so a loop returns the output tree as it stands when it
    stops, with the exception that stopped it (\<open>run_result\<close>). The game's
    \<open>ConfigParser\<close> is threaded from one character to the next.
  \<^item> \<open>Cli\<close>: the command line. \<open>doc_options\<close> and \<open>match_usage\<close> are the option
    table and the usage patterns of the module docstring (\<open>sprite2roa.py\<close> lines 1--39).
    The library \<open>docopt\<close> is modelled from its 0.6.1 source: \<open>parse_long\<close>, \<open>parse_shorts\<close>,
    the token loop \<open>parse_argv\<close> (which extends the option table with unknown options), the
    help and version exits, and the result dictionary \<open>docopt_dict\<close>.
    \<open>cli_main\<close> is the main block (lines 192--207): \<open>DocoptExit\<close> is caught and
    nothing runs, help and version end the program with \<open>SystemExit\<close>, and otherwise
    \<open>main\<close> runs on the dictionary. The record \<open>invocation\<close> and \<open>render_argv\<close>
    describe the command lines the usage text documents.
  \<^item> This theory holds the properties that span components.

  \<^bold>\<open>What the lemmas show.\<close>
  \<^item> Layout (C1--C4): the layout refines its abstract sheet and has the stated
    dimensions. Uncovered slot pixels are transparent.
  \<^item> GIF reader (C5): a conversion that raises leaves the extraction directory behind.
    From then on the reader returns no frames, and never converts the GIF again.
  \<^item> Outline (C6--C9): the outline marks exactly the pixels whose alpha differs, by the
    threshold, from the right or lower neighbour. The difference wraps around as uint8.
  \<^item> Keying (C10, C11): keying makes the key colour transparent and is idempotent.
  \<^item> Rescale (C12--C15): the new dimensions are \<open>max 1 (int(d * s))\<close>. The rescale
    is the identity at scale 1 and reads every output pixel from an in-range source pixel.
  \<^item> Colour parser (C16--C18): it round-trips with the printer, and the range check is
    vacuous because signed tokens are dropped before it.
  \<^item> Saturation (C20, C21): a factor of 1 is the identity and a factor of 0 gives the
    luma. The lemmas \<open>saturate_grey_fixed\<close> and \<open>saturate_alpha\<close> show that saturation
    keeps grey pixels and alpha.
  \<^item> Configuration (C24--C26): the lookup is a layered resolution (arguments, then the
    character's section, then defaults). It also leaks values from one character to the
    next.
  \<^item> Pipeline (C27--C30, C32, C33, C38): the pipeline is a per-frame map that keeps order
    and count. Its errors are characterised, and so are its failure under name prefixes,
    the non-idempotence of directory re-runs and the output file name. The idempotence of
    a file re-run is the lemma \<open>process_file_animation_rerun\<close>.
  \<^item> Command line (C22, C23, C31): docopt's token loop returns on every input (C22,
    termination). A command line written as the usage text shows it reaches \<open>main\<close>
    with the intended game, character and option dictionary (C31, round trip through
    rendering and parsing). A third positional argument is rejected, and the program then
    ends normally without doing anything (C23).
  \<^item> Root (C34, C35): the spec's end-to-end example, and the commutation of outline and
    saturation.
  \<^item> Run (C19, C36, C37, C39, C40):
    \<^item> An exception ends the animation loop, and the whole run.
    \<^item> A configuration string selects the directory mode.
    \<^item> Output trees only grow (\<open>grows\<close>: files appended, directories added). C40 is
      proved by induction over the loops, with \<open>suffix\<close> from
      \<open>HOL-Library.Sublist\<close>.
    \<^item> When every character is in file mode and a run finishes, it has reached every
      non-GIF animation (C19, liveness), and repeating it is a no-op (C37). Both proofs
      lift a single-animation lemma (\<open>process_file_animation_prefix\<close>,
      \<open>process_file_animation_noop\<close>) through each loop, with the invariant
      \<open>no_option\<close> on the shared \<open>ConfigParser\<close>.
  \<^item> Also proved, as lemmas: an empty frame sequence raises (\<open>layout_sheet_empty\<close>);
    the parser's errors on sample inputs (\<open>parse_background_color_errors\<close>); and the
    example run that stops at a malformed colour (\<open>main_example_abort\<close>).

  \<^bold>\<open>Modelling choices.\<close>
  \<^item> Python floats are exact reals, so \<open>int(d * s)\<close> truncates the exact product.
    Results that depend on binary rounding are outside the model: an average height of
    11 gives 29 pixels in CPython and 30 here.
  \<^item> \<open>py_float_str\<close> rejects \<open>inf\<close> and \<open>nan\<close> literals.
  \<^item> No loop needs fuel. The loops of the program run over finite lists (frames,
    pixels, listed paths) and are modelled by structural recursion or by a \<open>map\<close> or
    \<open>fold\<close>. \<open>py_replace\<close> (\<open>str.replace\<close>) terminates by the measure of its
    remaining input. docopt's \<open>parse_argv\<close> is a \<open>while\<close> loop over a token stream
    whose rounds consume one or two tokens and grow the option table. It is a
    \<open>partial_function (option)\<close>, where not returning would be \<open>None\<close>. C22 proves that
    it always returns, by induction on the number of tokens left.

  \<^bold>\<open>Not modelled.\<close>
  \<^item> The ImageMagick program itself: \<open>read_gif_as_frames\<close> takes the files it writes,
    or the exception, as a parameter.
  \<^item> The input tree is not threaded through \<open>Run\<close>. The orchestration reads the
    listings as a fixed view, and reads a GIF from the listing of its extraction directory.
    The lemma \<open>read_gif_as_frames_extracted\<close> shows that this is the GIF reader of
    \<open>gif.py\<close> once that directory exists (every run after the first conversion). The
    conversion, and its effect on the tree across runs (C5), are modelled in \<open>Gif\<close>
    alone: a rerun claim over a threaded tree would need assumptions on where the
    external converter writes.
  \<^item> The text docopt and the main block print: messages, usage and help. The model
    keeps the exception and drops the text, which the main block does not read.
  \<^item> The file system itself: \<open>glob\<close> listings, image decoding and encoding, and
    printing. \<open>Run\<close> takes them as the \<open>fsview\<close> parameter. Only the written
    files and created directories are state.
\<close>

definition spec_args :: "string \<rightharpoonup> pyval" where
  "spec_args = [''--background_color'' \<mapsto> PStr ''255 0 0'', ''--avg_char_height'' \<mapsto> PStr ''30'',
                ''--saturation'' \<mapsto> PNone, ''--should_outline'' \<mapsto> PBool False]"


text \<open>C35: the outline and the saturation commute: saturation keeps the alpha plane, so
  the outline marks the same pixels, and it keeps the outline's opaque black; the order
  of the two stages in \<open>process_frames\<close> does not matter.\<close>

theorem stroke_saturate_commute:
  assumes "wf_image img" and "0 < height img"
  shows "stroke (saturate img r) level = saturate (stroke img level) r"
proof -
  have alpha: "grid_map alpha_of (pixels (saturate img r)) = grid_map alpha_of (pixels img)"
    by (simp add: saturate_def grid_map_comp comp_def alpha_enhance_color_pixel)
  have "stroke (saturate img r) level =
          tab_image (width img) (height img)
            (\<lambda>y x. if edge_at (grid_map alpha_of (pixels img)) (width img) (height img) (min (max 1 level) 255) y x
                   then (0, 0, 0, 255) else pixel_at (saturate img r) y x)"
    using stroke_tab [of "saturate img r" level] assms by (simp only: alpha saturate_sel)
  also have "\<dots> =
          tab_image (width img) (height img)
            (\<lambda>y x. if edge_at (grid_map alpha_of (pixels img)) (width img) (height img) (min (max 1 level) 255) y x
                   then (0, 0, 0, 255) else enhance_color_pixel r (pixel_at img y x))"
    by (rule tab_image_cong) (simp add: pixel_at_saturate assms(1))
  also have "\<dots> =
          tab_image (width img) (height img)
            (\<lambda>y x. enhance_color_pixel r
                     (if edge_at (grid_map alpha_of (pixels img)) (width img) (height img) (min (max 1 level) 255) y x
                      then (0, 0, 0, 255) else pixel_at img y x))"
    by (rule tab_image_cong) (simp add: enhance_color_pixel_black)
  also have "\<dots> = saturate (stroke img level) r"
    using assms by (simp only: stroke_tab saturate_tab)
  finally show ?thesis .
qed

theorem stroke_saturate_commute_witness:
  "wf_image example_red \<and> 0 < height example_red \<and>
   stroke (saturate example_red 2) 250 = saturate (stroke example_red 250) 2"
  using stroke_saturate_commute [of example_red 2 250] by (simp add: example_red_def)

end
